theory Spec2Isabelle
  imports Main
begin

section \<open>Python values, exceptions and the runtime\<close>

text \<open>
  The program passes JSON-shaped Python values around: \<open>None\<close>, booleans, integers,
  floats, strings, lists and string-keyed dictionaries. A float is kept as the literal
  that denotes it (the code never computes with one). A Python \<open>str\<close> is a
  \<open>string\<close> here: the bytes of its UTF-8 encoding, so that \<open>find\<close>, slicing and
  containment agree with Python on every text; \<open>upper\<close> decodes the bytes, maps
  every code point as the Unicode character database says, and encodes the result. A dictionary is an association list in insertion order with unique keys.
\<close>

datatype py =
    PNone
  | PBool bool
  | PInt int
  | PFloat string
  | PStr string
  | PList "py list"
  | PDict "(string \<times> py) list"

type_synonym pydict = "(string \<times> py) list"

text \<open>
  The exceptions the code can meet, all subclasses of \<open>Exception\<close>.
  \<open>JSONDecodeError\<close> is what \<open>json.loads\<close> raises on malformed text;
  \<open>OtherError\<close> stands for anything else a collaborator raises (the oracle's
  transport errors, a \<open>RecursionError\<close> of the JSON decoder).
\<close>

datatype exn =
    IndexError
  | KeyError
  | TypeError
  | AttributeError
  | ValueError string
  | JSONDecodeError
  | OtherError string

text \<open>\<open>d.get(k)\<close> and \<open>d.get(k, default)\<close>.\<close>

definition dict_get_default :: "pydict \<Rightarrow> string \<Rightarrow> py \<Rightarrow> py" where
  "dict_get_default d k dflt = (case map_of d k of None \<Rightarrow> dflt | Some v \<Rightarrow> v)"

definition dict_get :: "pydict \<Rightarrow> string \<Rightarrow> py" where
  "dict_get d k = dict_get_default d k PNone"

text \<open>
  Truth value testing, as \<open>or\<close>, \<open>not\<close> and \<open>if\<close> apply it. A float literal
  is false when its mantissa has no digit but 0 (a literal that underflows to zero is not
  covered).
\<close>

definition float_is_zero :: "string \<Rightarrow> bool" where
  "float_is_zero lit =
     (set (takeWhile (\<lambda>c. c \<noteq> CHR ''e'' \<and> c \<noteq> CHR ''E'') lit) \<subseteq> set ''-0.'')"

fun truthy :: "py \<Rightarrow> bool" where
  "truthy PNone = False"
| "truthy (PBool b) = b"
| "truthy (PInt n) = (n \<noteq> 0)"
| "truthy (PFloat lit) = (\<not> float_is_zero lit)"
| "truthy (PStr s) = (s \<noteq> [])"
| "truthy (PList xs) = (xs \<noteq> [])"
| "truthy (PDict d) = (d \<noteq> [])"

text \<open>\<open>a or b\<close>: the first operand when it is true, else the second.\<close>

definition py_or :: "py \<Rightarrow> py \<Rightarrow> py" where
  "py_or a b = (if truthy a then a else b)"

subsection \<open>String operations\<close>

text \<open>\<open>s.find(c)\<close> and \<open>s.rfind(c)\<close> for a one-character \<open>c\<close>: the first and
  the last position of \<open>c\<close>, or \<open>-1\<close>.\<close>

fun str_find :: "char \<Rightarrow> string \<Rightarrow> int" where
  "str_find c [] = -1"
| "str_find c (x # xs) =
     (if x = c then 0 else (let r = str_find c xs in if r < 0 then -1 else r + 1))"

fun str_rfind :: "char \<Rightarrow> string \<Rightarrow> int" where
  "str_rfind c [] = -1"
| "str_rfind c (x # xs) =
     (let r = str_rfind c xs in if 0 \<le> r then r + 1 else if x = c then 0 else -1)"

text \<open>\<open>s[a:b]\<close>: negative bounds count from the end, and both are clipped to the string.\<close>

definition clip_index :: "nat \<Rightarrow> int \<Rightarrow> nat" where
  "clip_index n i = (if i < 0 then nat (int n + i) else min (nat i) n)"

definition str_slice :: "string \<Rightarrow> int \<Rightarrow> int \<Rightarrow> string" where
  "str_slice s a b = take (clip_index (length s) b - clip_index (length s) a)
                          (drop (clip_index (length s) a) s)"

text \<open>
  The UTF-8 encoding of a code point, and the decoding of a byte string into code
  points: the first byte of a sequence tells its width, the following bytes carry six
  bits each. Bytes that encode no code point (a stray or missing continuation byte, an
  over-long form, a value beyond U+10FFFF) decode to U+FFFD; they stand for no Python
  \<open>str\<close>. Surrogates are let through, since a \<open>str\<close> may hold them.
\<close>

definition utf8 :: "nat \<Rightarrow> string" where
  "utf8 cp =
     (if cp < 0x80 then [char_of cp]
      else if cp < 0x800 then [char_of (0xC0 + cp div 0x40), char_of (0x80 + cp mod 0x40)]
      else if cp < 0x10000 then
        [char_of (0xE0 + cp div 0x1000), char_of (0x80 + cp div 0x40 mod 0x40),
         char_of (0x80 + cp mod 0x40)]
      else
        [char_of (0xF0 + cp div 0x40000), char_of (0x80 + cp div 0x1000 mod 0x40),
         char_of (0x80 + cp div 0x40 mod 0x40), char_of (0x80 + cp mod 0x40)])"

definition utf8_width :: "char \<Rightarrow> nat" where
  "utf8_width b =
     (let n = (of_char b :: nat) in
      if 0xC0 \<le> n \<and> n < 0xE0 then 2 else if 0xE0 \<le> n \<and> n < 0xF0 then 3
      else if 0xF0 \<le> n \<and> n < 0xF8 then 4 else 1)"

definition continuation :: "nat \<Rightarrow> bool" where
  "continuation n = (0x80 \<le> n \<and> n < 0xC0)"

fun code_point :: "nat list \<Rightarrow> nat" where
  "code_point [a] = (if a < 0x80 then a else 0xFFFD)"
| "code_point [a, b] =
     (let cp = (a mod 0x20) * 0x40 + b mod 0x40 in
      if 0xC0 \<le> a \<and> a < 0xE0 \<and> continuation b \<and> 0x80 \<le> cp then cp else 0xFFFD)"
| "code_point [a, b, c] =
     (let cp = ((a mod 0x10) * 0x40 + b mod 0x40) * 0x40 + c mod 0x40 in
      if 0xE0 \<le> a \<and> a < 0xF0 \<and> continuation b \<and> continuation c \<and> 0x800 \<le> cp
      then cp else 0xFFFD)"
| "code_point [a, b, c, d] =
     (let cp = (((a mod 8) * 0x40 + b mod 0x40) * 0x40 + c mod 0x40) * 0x40 + d mod 0x40 in
      if 0xF0 \<le> a \<and> a < 0xF8 \<and> continuation b \<and> continuation c \<and> continuation d
         \<and> 0x10000 \<le> cp \<and> cp < 0x110000
      then cp else 0xFFFD)"
| "code_point bs = 0xFFFD"

function utf8_decode :: "string \<Rightarrow> nat list" where
  "utf8_decode s =
     (if s = [] then []
      else code_point (map of_char (take (utf8_width (hd s)) s))
             # utf8_decode (drop (utf8_width (hd s)) s))"
  by pat_completeness auto
termination
  by (relation "measure length") (auto simp: utf8_width_def Let_def)

declare utf8_decode.simps [simp del]

subsection \<open>Upper-casing\<close>

text \<open>
  \<open>s.upper()\<close> replaces every code point by its upper-case mapping of the Unicode
  character database, which may be longer than one code point (\<open>U+00DF\<close> gives
  \<open>SS\<close>), and keeps the code points that have none; the mapping of a code point does
  not depend on its neighbours. The table lists every code point whose mapping differs
  from itself, by rows of 256 code points, as CPython 3.11 has it (Unicode 14.0).
\<close>

definition upper_row_00 :: "(nat \<times> nat list) list" where
  "upper_row_00 =
    [(0x61, [0x41]), (0x62, [0x42]), (0x63, [0x43]), (0x64, [0x44]), (0x65, [0x45]),
     (0x66, [0x46]), (0x67, [0x47]), (0x68, [0x48]), (0x69, [0x49]), (0x6A, [0x4A]),
     (0x6B, [0x4B]), (0x6C, [0x4C]), (0x6D, [0x4D]), (0x6E, [0x4E]), (0x6F, [0x4F]),
     (0x70, [0x50]), (0x71, [0x51]), (0x72, [0x52]), (0x73, [0x53]), (0x74, [0x54]),
     (0x75, [0x55]), (0x76, [0x56]), (0x77, [0x57]), (0x78, [0x58]), (0x79, [0x59]),
     (0x7A, [0x5A]), (0xB5, [0x39C]), (0xDF, [0x53, 0x53]), (0xE0, [0xC0]), (0xE1, [0xC1]),
     (0xE2, [0xC2]), (0xE3, [0xC3]), (0xE4, [0xC4]), (0xE5, [0xC5]), (0xE6, [0xC6]),
     (0xE7, [0xC7]), (0xE8, [0xC8]), (0xE9, [0xC9]), (0xEA, [0xCA]), (0xEB, [0xCB]),
     (0xEC, [0xCC]), (0xED, [0xCD]), (0xEE, [0xCE]), (0xEF, [0xCF]), (0xF0, [0xD0]),
     (0xF1, [0xD1]), (0xF2, [0xD2]), (0xF3, [0xD3]), (0xF4, [0xD4]), (0xF5, [0xD5]),
     (0xF6, [0xD6]), (0xF8, [0xD8]), (0xF9, [0xD9]), (0xFA, [0xDA]), (0xFB, [0xDB]),
     (0xFC, [0xDC]), (0xFD, [0xDD]), (0xFE, [0xDE]), (0xFF, [0x178])]"

definition upper_row_01 :: "(nat \<times> nat list) list" where
  "upper_row_01 =
    [(0x101, [0x100]), (0x103, [0x102]), (0x105, [0x104]), (0x107, [0x106]), (0x109, [0x108]),
     (0x10B, [0x10A]), (0x10D, [0x10C]), (0x10F, [0x10E]), (0x111, [0x110]), (0x113, [0x112]),
     (0x115, [0x114]), (0x117, [0x116]), (0x119, [0x118]), (0x11B, [0x11A]), (0x11D, [0x11C]),
     (0x11F, [0x11E]), (0x121, [0x120]), (0x123, [0x122]), (0x125, [0x124]), (0x127, [0x126]),
     (0x129, [0x128]), (0x12B, [0x12A]), (0x12D, [0x12C]), (0x12F, [0x12E]), (0x131, [0x49]),
     (0x133, [0x132]), (0x135, [0x134]), (0x137, [0x136]), (0x13A, [0x139]), (0x13C, [0x13B]),
     (0x13E, [0x13D]), (0x140, [0x13F]), (0x142, [0x141]), (0x144, [0x143]), (0x146, [0x145]),
     (0x148, [0x147]), (0x149, [0x2BC, 0x4E]), (0x14B, [0x14A]), (0x14D, [0x14C]),
     (0x14F, [0x14E]), (0x151, [0x150]), (0x153, [0x152]), (0x155, [0x154]), (0x157, [0x156]),
     (0x159, [0x158]), (0x15B, [0x15A]), (0x15D, [0x15C]), (0x15F, [0x15E]), (0x161, [0x160]),
     (0x163, [0x162]), (0x165, [0x164]), (0x167, [0x166]), (0x169, [0x168]), (0x16B, [0x16A]),
     (0x16D, [0x16C]), (0x16F, [0x16E]), (0x171, [0x170]), (0x173, [0x172]), (0x175, [0x174]),
     (0x177, [0x176]), (0x17A, [0x179]), (0x17C, [0x17B]), (0x17E, [0x17D]), (0x17F, [0x53]),
     (0x180, [0x243]), (0x183, [0x182]), (0x185, [0x184]), (0x188, [0x187]), (0x18C, [0x18B]),
     (0x192, [0x191]), (0x195, [0x1F6]), (0x199, [0x198]), (0x19A, [0x23D]), (0x19E, [0x220]),
     (0x1A1, [0x1A0]), (0x1A3, [0x1A2]), (0x1A5, [0x1A4]), (0x1A8, [0x1A7]), (0x1AD, [0x1AC]),
     (0x1B0, [0x1AF]), (0x1B4, [0x1B3]), (0x1B6, [0x1B5]), (0x1B9, [0x1B8]), (0x1BD, [0x1BC]),
     (0x1BF, [0x1F7]), (0x1C5, [0x1C4]), (0x1C6, [0x1C4]), (0x1C8, [0x1C7]), (0x1C9, [0x1C7]),
     (0x1CB, [0x1CA]), (0x1CC, [0x1CA]), (0x1CE, [0x1CD]), (0x1D0, [0x1CF]), (0x1D2, [0x1D1]),
     (0x1D4, [0x1D3]), (0x1D6, [0x1D5]), (0x1D8, [0x1D7]), (0x1DA, [0x1D9]), (0x1DC, [0x1DB]),
     (0x1DD, [0x18E]), (0x1DF, [0x1DE]), (0x1E1, [0x1E0]), (0x1E3, [0x1E2]), (0x1E5, [0x1E4]),
     (0x1E7, [0x1E6]), (0x1E9, [0x1E8]), (0x1EB, [0x1EA]), (0x1ED, [0x1EC]), (0x1EF, [0x1EE]),
     (0x1F0, [0x4A, 0x30C]), (0x1F2, [0x1F1]), (0x1F3, [0x1F1]), (0x1F5, [0x1F4]),
     (0x1F9, [0x1F8]), (0x1FB, [0x1FA]), (0x1FD, [0x1FC]), (0x1FF, [0x1FE])]"

definition upper_row_02 :: "(nat \<times> nat list) list" where
  "upper_row_02 =
    [(0x201, [0x200]), (0x203, [0x202]), (0x205, [0x204]), (0x207, [0x206]), (0x209, [0x208]),
     (0x20B, [0x20A]), (0x20D, [0x20C]), (0x20F, [0x20E]), (0x211, [0x210]), (0x213, [0x212]),
     (0x215, [0x214]), (0x217, [0x216]), (0x219, [0x218]), (0x21B, [0x21A]), (0x21D, [0x21C]),
     (0x21F, [0x21E]), (0x223, [0x222]), (0x225, [0x224]), (0x227, [0x226]), (0x229, [0x228]),
     (0x22B, [0x22A]), (0x22D, [0x22C]), (0x22F, [0x22E]), (0x231, [0x230]), (0x233, [0x232]),
     (0x23C, [0x23B]), (0x23F, [0x2C7E]), (0x240, [0x2C7F]), (0x242, [0x241]), (0x247, [0x246]),
     (0x249, [0x248]), (0x24B, [0x24A]), (0x24D, [0x24C]), (0x24F, [0x24E]), (0x250, [0x2C6F]),
     (0x251, [0x2C6D]), (0x252, [0x2C70]), (0x253, [0x181]), (0x254, [0x186]), (0x256, [0x189]),
     (0x257, [0x18A]), (0x259, [0x18F]), (0x25B, [0x190]), (0x25C, [0xA7AB]), (0x260, [0x193]),
     (0x261, [0xA7AC]), (0x263, [0x194]), (0x265, [0xA78D]), (0x266, [0xA7AA]), (0x268, [0x197]),
     (0x269, [0x196]), (0x26A, [0xA7AE]), (0x26B, [0x2C62]), (0x26C, [0xA7AD]), (0x26F, [0x19C]),
     (0x271, [0x2C6E]), (0x272, [0x19D]), (0x275, [0x19F]), (0x27D, [0x2C64]), (0x280, [0x1A6]),
     (0x282, [0xA7C5]), (0x283, [0x1A9]), (0x287, [0xA7B1]), (0x288, [0x1AE]), (0x289, [0x244]),
     (0x28A, [0x1B1]), (0x28B, [0x1B2]), (0x28C, [0x245]), (0x292, [0x1B7]), (0x29D, [0xA7B2]),
     (0x29E, [0xA7B0])]"

definition upper_row_03 :: "(nat \<times> nat list) list" where
  "upper_row_03 =
    [(0x345, [0x399]), (0x371, [0x370]), (0x373, [0x372]), (0x377, [0x376]), (0x37B, [0x3FD]),
     (0x37C, [0x3FE]), (0x37D, [0x3FF]), (0x390, [0x399, 0x308, 0x301]), (0x3AC, [0x386]),
     (0x3AD, [0x388]), (0x3AE, [0x389]), (0x3AF, [0x38A]), (0x3B0, [0x3A5, 0x308, 0x301]),
     (0x3B1, [0x391]), (0x3B2, [0x392]), (0x3B3, [0x393]), (0x3B4, [0x394]), (0x3B5, [0x395]),
     (0x3B6, [0x396]), (0x3B7, [0x397]), (0x3B8, [0x398]), (0x3B9, [0x399]), (0x3BA, [0x39A]),
     (0x3BB, [0x39B]), (0x3BC, [0x39C]), (0x3BD, [0x39D]), (0x3BE, [0x39E]), (0x3BF, [0x39F]),
     (0x3C0, [0x3A0]), (0x3C1, [0x3A1]), (0x3C2, [0x3A3]), (0x3C3, [0x3A3]), (0x3C4, [0x3A4]),
     (0x3C5, [0x3A5]), (0x3C6, [0x3A6]), (0x3C7, [0x3A7]), (0x3C8, [0x3A8]), (0x3C9, [0x3A9]),
     (0x3CA, [0x3AA]), (0x3CB, [0x3AB]), (0x3CC, [0x38C]), (0x3CD, [0x38E]), (0x3CE, [0x38F]),
     (0x3D0, [0x392]), (0x3D1, [0x398]), (0x3D5, [0x3A6]), (0x3D6, [0x3A0]), (0x3D7, [0x3CF]),
     (0x3D9, [0x3D8]), (0x3DB, [0x3DA]), (0x3DD, [0x3DC]), (0x3DF, [0x3DE]), (0x3E1, [0x3E0]),
     (0x3E3, [0x3E2]), (0x3E5, [0x3E4]), (0x3E7, [0x3E6]), (0x3E9, [0x3E8]), (0x3EB, [0x3EA]),
     (0x3ED, [0x3EC]), (0x3EF, [0x3EE]), (0x3F0, [0x39A]), (0x3F1, [0x3A1]), (0x3F2, [0x3F9]),
     (0x3F3, [0x37F]), (0x3F5, [0x395]), (0x3F8, [0x3F7]), (0x3FB, [0x3FA])]"

definition upper_row_04 :: "(nat \<times> nat list) list" where
  "upper_row_04 =
    [(0x430, [0x410]), (0x431, [0x411]), (0x432, [0x412]), (0x433, [0x413]), (0x434, [0x414]),
     (0x435, [0x415]), (0x436, [0x416]), (0x437, [0x417]), (0x438, [0x418]), (0x439, [0x419]),
     (0x43A, [0x41A]), (0x43B, [0x41B]), (0x43C, [0x41C]), (0x43D, [0x41D]), (0x43E, [0x41E]),
     (0x43F, [0x41F]), (0x440, [0x420]), (0x441, [0x421]), (0x442, [0x422]), (0x443, [0x423]),
     (0x444, [0x424]), (0x445, [0x425]), (0x446, [0x426]), (0x447, [0x427]), (0x448, [0x428]),
     (0x449, [0x429]), (0x44A, [0x42A]), (0x44B, [0x42B]), (0x44C, [0x42C]), (0x44D, [0x42D]),
     (0x44E, [0x42E]), (0x44F, [0x42F]), (0x450, [0x400]), (0x451, [0x401]), (0x452, [0x402]),
     (0x453, [0x403]), (0x454, [0x404]), (0x455, [0x405]), (0x456, [0x406]), (0x457, [0x407]),
     (0x458, [0x408]), (0x459, [0x409]), (0x45A, [0x40A]), (0x45B, [0x40B]), (0x45C, [0x40C]),
     (0x45D, [0x40D]), (0x45E, [0x40E]), (0x45F, [0x40F]), (0x461, [0x460]), (0x463, [0x462]),
     (0x465, [0x464]), (0x467, [0x466]), (0x469, [0x468]), (0x46B, [0x46A]), (0x46D, [0x46C]),
     (0x46F, [0x46E]), (0x471, [0x470]), (0x473, [0x472]), (0x475, [0x474]), (0x477, [0x476]),
     (0x479, [0x478]), (0x47B, [0x47A]), (0x47D, [0x47C]), (0x47F, [0x47E]), (0x481, [0x480]),
     (0x48B, [0x48A]), (0x48D, [0x48C]), (0x48F, [0x48E]), (0x491, [0x490]), (0x493, [0x492]),
     (0x495, [0x494]), (0x497, [0x496]), (0x499, [0x498]), (0x49B, [0x49A]), (0x49D, [0x49C]),
     (0x49F, [0x49E]), (0x4A1, [0x4A0]), (0x4A3, [0x4A2]), (0x4A5, [0x4A4]), (0x4A7, [0x4A6]),
     (0x4A9, [0x4A8]), (0x4AB, [0x4AA]), (0x4AD, [0x4AC]), (0x4AF, [0x4AE]), (0x4B1, [0x4B0]),
     (0x4B3, [0x4B2]), (0x4B5, [0x4B4]), (0x4B7, [0x4B6]), (0x4B9, [0x4B8]), (0x4BB, [0x4BA]),
     (0x4BD, [0x4BC]), (0x4BF, [0x4BE]), (0x4C2, [0x4C1]), (0x4C4, [0x4C3]), (0x4C6, [0x4C5]),
     (0x4C8, [0x4C7]), (0x4CA, [0x4C9]), (0x4CC, [0x4CB]), (0x4CE, [0x4CD]), (0x4CF, [0x4C0]),
     (0x4D1, [0x4D0]), (0x4D3, [0x4D2]), (0x4D5, [0x4D4]), (0x4D7, [0x4D6]), (0x4D9, [0x4D8]),
     (0x4DB, [0x4DA]), (0x4DD, [0x4DC]), (0x4DF, [0x4DE]), (0x4E1, [0x4E0]), (0x4E3, [0x4E2]),
     (0x4E5, [0x4E4]), (0x4E7, [0x4E6]), (0x4E9, [0x4E8]), (0x4EB, [0x4EA]), (0x4ED, [0x4EC]),
     (0x4EF, [0x4EE]), (0x4F1, [0x4F0]), (0x4F3, [0x4F2]), (0x4F5, [0x4F4]), (0x4F7, [0x4F6]),
     (0x4F9, [0x4F8]), (0x4FB, [0x4FA]), (0x4FD, [0x4FC]), (0x4FF, [0x4FE])]"

definition upper_row_05 :: "(nat \<times> nat list) list" where
  "upper_row_05 =
    [(0x501, [0x500]), (0x503, [0x502]), (0x505, [0x504]), (0x507, [0x506]), (0x509, [0x508]),
     (0x50B, [0x50A]), (0x50D, [0x50C]), (0x50F, [0x50E]), (0x511, [0x510]), (0x513, [0x512]),
     (0x515, [0x514]), (0x517, [0x516]), (0x519, [0x518]), (0x51B, [0x51A]), (0x51D, [0x51C]),
     (0x51F, [0x51E]), (0x521, [0x520]), (0x523, [0x522]), (0x525, [0x524]), (0x527, [0x526]),
     (0x529, [0x528]), (0x52B, [0x52A]), (0x52D, [0x52C]), (0x52F, [0x52E]), (0x561, [0x531]),
     (0x562, [0x532]), (0x563, [0x533]), (0x564, [0x534]), (0x565, [0x535]), (0x566, [0x536]),
     (0x567, [0x537]), (0x568, [0x538]), (0x569, [0x539]), (0x56A, [0x53A]), (0x56B, [0x53B]),
     (0x56C, [0x53C]), (0x56D, [0x53D]), (0x56E, [0x53E]), (0x56F, [0x53F]), (0x570, [0x540]),
     (0x571, [0x541]), (0x572, [0x542]), (0x573, [0x543]), (0x574, [0x544]), (0x575, [0x545]),
     (0x576, [0x546]), (0x577, [0x547]), (0x578, [0x548]), (0x579, [0x549]), (0x57A, [0x54A]),
     (0x57B, [0x54B]), (0x57C, [0x54C]), (0x57D, [0x54D]), (0x57E, [0x54E]), (0x57F, [0x54F]),
     (0x580, [0x550]), (0x581, [0x551]), (0x582, [0x552]), (0x583, [0x553]), (0x584, [0x554]),
     (0x585, [0x555]), (0x586, [0x556]), (0x587, [0x535, 0x552])]"

definition upper_row_10 :: "(nat \<times> nat list) list" where
  "upper_row_10 =
    [(0x10D0, [0x1C90]), (0x10D1, [0x1C91]), (0x10D2, [0x1C92]), (0x10D3, [0x1C93]),
     (0x10D4, [0x1C94]), (0x10D5, [0x1C95]), (0x10D6, [0x1C96]), (0x10D7, [0x1C97]),
     (0x10D8, [0x1C98]), (0x10D9, [0x1C99]), (0x10DA, [0x1C9A]), (0x10DB, [0x1C9B]),
     (0x10DC, [0x1C9C]), (0x10DD, [0x1C9D]), (0x10DE, [0x1C9E]), (0x10DF, [0x1C9F]),
     (0x10E0, [0x1CA0]), (0x10E1, [0x1CA1]), (0x10E2, [0x1CA2]), (0x10E3, [0x1CA3]),
     (0x10E4, [0x1CA4]), (0x10E5, [0x1CA5]), (0x10E6, [0x1CA6]), (0x10E7, [0x1CA7]),
     (0x10E8, [0x1CA8]), (0x10E9, [0x1CA9]), (0x10EA, [0x1CAA]), (0x10EB, [0x1CAB]),
     (0x10EC, [0x1CAC]), (0x10ED, [0x1CAD]), (0x10EE, [0x1CAE]), (0x10EF, [0x1CAF]),
     (0x10F0, [0x1CB0]), (0x10F1, [0x1CB1]), (0x10F2, [0x1CB2]), (0x10F3, [0x1CB3]),
     (0x10F4, [0x1CB4]), (0x10F5, [0x1CB5]), (0x10F6, [0x1CB6]), (0x10F7, [0x1CB7]),
     (0x10F8, [0x1CB8]), (0x10F9, [0x1CB9]), (0x10FA, [0x1CBA]), (0x10FD, [0x1CBD]),
     (0x10FE, [0x1CBE]), (0x10FF, [0x1CBF])]"

definition upper_row_13 :: "(nat \<times> nat list) list" where
  "upper_row_13 =
    [(0x13F8, [0x13F0]), (0x13F9, [0x13F1]), (0x13FA, [0x13F2]), (0x13FB, [0x13F3]),
     (0x13FC, [0x13F4]), (0x13FD, [0x13F5])]"

definition upper_row_1C :: "(nat \<times> nat list) list" where
  "upper_row_1C =
    [(0x1C80, [0x412]), (0x1C81, [0x414]), (0x1C82, [0x41E]), (0x1C83, [0x421]),
     (0x1C84, [0x422]), (0x1C85, [0x422]), (0x1C86, [0x42A]), (0x1C87, [0x462]),
     (0x1C88, [0xA64A])]"

definition upper_row_1D :: "(nat \<times> nat list) list" where
  "upper_row_1D =
    [(0x1D79, [0xA77D]), (0x1D7D, [0x2C63]), (0x1D8E, [0xA7C6])]"

definition upper_row_1E :: "(nat \<times> nat list) list" where
  "upper_row_1E =
    [(0x1E01, [0x1E00]), (0x1E03, [0x1E02]), (0x1E05, [0x1E04]), (0x1E07, [0x1E06]),
     (0x1E09, [0x1E08]), (0x1E0B, [0x1E0A]), (0x1E0D, [0x1E0C]), (0x1E0F, [0x1E0E]),
     (0x1E11, [0x1E10]), (0x1E13, [0x1E12]), (0x1E15, [0x1E14]), (0x1E17, [0x1E16]),
     (0x1E19, [0x1E18]), (0x1E1B, [0x1E1A]), (0x1E1D, [0x1E1C]), (0x1E1F, [0x1E1E]),
     (0x1E21, [0x1E20]), (0x1E23, [0x1E22]), (0x1E25, [0x1E24]), (0x1E27, [0x1E26]),
     (0x1E29, [0x1E28]), (0x1E2B, [0x1E2A]), (0x1E2D, [0x1E2C]), (0x1E2F, [0x1E2E]),
     (0x1E31, [0x1E30]), (0x1E33, [0x1E32]), (0x1E35, [0x1E34]), (0x1E37, [0x1E36]),
     (0x1E39, [0x1E38]), (0x1E3B, [0x1E3A]), (0x1E3D, [0x1E3C]), (0x1E3F, [0x1E3E]),
     (0x1E41, [0x1E40]), (0x1E43, [0x1E42]), (0x1E45, [0x1E44]), (0x1E47, [0x1E46]),
     (0x1E49, [0x1E48]), (0x1E4B, [0x1E4A]), (0x1E4D, [0x1E4C]), (0x1E4F, [0x1E4E]),
     (0x1E51, [0x1E50]), (0x1E53, [0x1E52]), (0x1E55, [0x1E54]), (0x1E57, [0x1E56]),
     (0x1E59, [0x1E58]), (0x1E5B, [0x1E5A]), (0x1E5D, [0x1E5C]), (0x1E5F, [0x1E5E]),
     (0x1E61, [0x1E60]), (0x1E63, [0x1E62]), (0x1E65, [0x1E64]), (0x1E67, [0x1E66]),
     (0x1E69, [0x1E68]), (0x1E6B, [0x1E6A]), (0x1E6D, [0x1E6C]), (0x1E6F, [0x1E6E]),
     (0x1E71, [0x1E70]), (0x1E73, [0x1E72]), (0x1E75, [0x1E74]), (0x1E77, [0x1E76]),
     (0x1E79, [0x1E78]), (0x1E7B, [0x1E7A]), (0x1E7D, [0x1E7C]), (0x1E7F, [0x1E7E]),
     (0x1E81, [0x1E80]), (0x1E83, [0x1E82]), (0x1E85, [0x1E84]), (0x1E87, [0x1E86]),
     (0x1E89, [0x1E88]), (0x1E8B, [0x1E8A]), (0x1E8D, [0x1E8C]), (0x1E8F, [0x1E8E]),
     (0x1E91, [0x1E90]), (0x1E93, [0x1E92]), (0x1E95, [0x1E94]), (0x1E96, [0x48, 0x331]),
     (0x1E97, [0x54, 0x308]), (0x1E98, [0x57, 0x30A]), (0x1E99, [0x59, 0x30A]),
     (0x1E9A, [0x41, 0x2BE]), (0x1E9B, [0x1E60]), (0x1EA1, [0x1EA0]), (0x1EA3, [0x1EA2]),
     (0x1EA5, [0x1EA4]), (0x1EA7, [0x1EA6]), (0x1EA9, [0x1EA8]), (0x1EAB, [0x1EAA]),
     (0x1EAD, [0x1EAC]), (0x1EAF, [0x1EAE]), (0x1EB1, [0x1EB0]), (0x1EB3, [0x1EB2]),
     (0x1EB5, [0x1EB4]), (0x1EB7, [0x1EB6]), (0x1EB9, [0x1EB8]), (0x1EBB, [0x1EBA]),
     (0x1EBD, [0x1EBC]), (0x1EBF, [0x1EBE]), (0x1EC1, [0x1EC0]), (0x1EC3, [0x1EC2]),
     (0x1EC5, [0x1EC4]), (0x1EC7, [0x1EC6]), (0x1EC9, [0x1EC8]), (0x1ECB, [0x1ECA]),
     (0x1ECD, [0x1ECC]), (0x1ECF, [0x1ECE]), (0x1ED1, [0x1ED0]), (0x1ED3, [0x1ED2]),
     (0x1ED5, [0x1ED4]), (0x1ED7, [0x1ED6]), (0x1ED9, [0x1ED8]), (0x1EDB, [0x1EDA]),
     (0x1EDD, [0x1EDC]), (0x1EDF, [0x1EDE]), (0x1EE1, [0x1EE0]), (0x1EE3, [0x1EE2]),
     (0x1EE5, [0x1EE4]), (0x1EE7, [0x1EE6]), (0x1EE9, [0x1EE8]), (0x1EEB, [0x1EEA]),
     (0x1EED, [0x1EEC]), (0x1EEF, [0x1EEE]), (0x1EF1, [0x1EF0]), (0x1EF3, [0x1EF2]),
     (0x1EF5, [0x1EF4]), (0x1EF7, [0x1EF6]), (0x1EF9, [0x1EF8]), (0x1EFB, [0x1EFA]),
     (0x1EFD, [0x1EFC]), (0x1EFF, [0x1EFE])]"

definition upper_row_1F :: "(nat \<times> nat list) list" where
  "upper_row_1F =
    [(0x1F00, [0x1F08]), (0x1F01, [0x1F09]), (0x1F02, [0x1F0A]), (0x1F03, [0x1F0B]),
     (0x1F04, [0x1F0C]), (0x1F05, [0x1F0D]), (0x1F06, [0x1F0E]), (0x1F07, [0x1F0F]),
     (0x1F10, [0x1F18]), (0x1F11, [0x1F19]), (0x1F12, [0x1F1A]), (0x1F13, [0x1F1B]),
     (0x1F14, [0x1F1C]), (0x1F15, [0x1F1D]), (0x1F20, [0x1F28]), (0x1F21, [0x1F29]),
     (0x1F22, [0x1F2A]), (0x1F23, [0x1F2B]), (0x1F24, [0x1F2C]), (0x1F25, [0x1F2D]),
     (0x1F26, [0x1F2E]), (0x1F27, [0x1F2F]), (0x1F30, [0x1F38]), (0x1F31, [0x1F39]),
     (0x1F32, [0x1F3A]), (0x1F33, [0x1F3B]), (0x1F34, [0x1F3C]), (0x1F35, [0x1F3D]),
     (0x1F36, [0x1F3E]), (0x1F37, [0x1F3F]), (0x1F40, [0x1F48]), (0x1F41, [0x1F49]),
     (0x1F42, [0x1F4A]), (0x1F43, [0x1F4B]), (0x1F44, [0x1F4C]), (0x1F45, [0x1F4D]),
     (0x1F50, [0x3A5, 0x313]), (0x1F51, [0x1F59]), (0x1F52, [0x3A5, 0x313, 0x300]),
     (0x1F53, [0x1F5B]), (0x1F54, [0x3A5, 0x313, 0x301]), (0x1F55, [0x1F5D]),
     (0x1F56, [0x3A5, 0x313, 0x342]), (0x1F57, [0x1F5F]), (0x1F60, [0x1F68]), (0x1F61, [0x1F69]),
     (0x1F62, [0x1F6A]), (0x1F63, [0x1F6B]), (0x1F64, [0x1F6C]), (0x1F65, [0x1F6D]),
     (0x1F66, [0x1F6E]), (0x1F67, [0x1F6F]), (0x1F70, [0x1FBA]), (0x1F71, [0x1FBB]),
     (0x1F72, [0x1FC8]), (0x1F73, [0x1FC9]), (0x1F74, [0x1FCA]), (0x1F75, [0x1FCB]),
     (0x1F76, [0x1FDA]), (0x1F77, [0x1FDB]), (0x1F78, [0x1FF8]), (0x1F79, [0x1FF9]),
     (0x1F7A, [0x1FEA]), (0x1F7B, [0x1FEB]), (0x1F7C, [0x1FFA]), (0x1F7D, [0x1FFB]),
     (0x1F80, [0x1F08, 0x399]), (0x1F81, [0x1F09, 0x399]), (0x1F82, [0x1F0A, 0x399]),
     (0x1F83, [0x1F0B, 0x399]), (0x1F84, [0x1F0C, 0x399]), (0x1F85, [0x1F0D, 0x399]),
     (0x1F86, [0x1F0E, 0x399]), (0x1F87, [0x1F0F, 0x399]), (0x1F88, [0x1F08, 0x399]),
     (0x1F89, [0x1F09, 0x399]), (0x1F8A, [0x1F0A, 0x399]), (0x1F8B, [0x1F0B, 0x399]),
     (0x1F8C, [0x1F0C, 0x399]), (0x1F8D, [0x1F0D, 0x399]), (0x1F8E, [0x1F0E, 0x399]),
     (0x1F8F, [0x1F0F, 0x399]), (0x1F90, [0x1F28, 0x399]), (0x1F91, [0x1F29, 0x399]),
     (0x1F92, [0x1F2A, 0x399]), (0x1F93, [0x1F2B, 0x399]), (0x1F94, [0x1F2C, 0x399]),
     (0x1F95, [0x1F2D, 0x399]), (0x1F96, [0x1F2E, 0x399]), (0x1F97, [0x1F2F, 0x399]),
     (0x1F98, [0x1F28, 0x399]), (0x1F99, [0x1F29, 0x399]), (0x1F9A, [0x1F2A, 0x399]),
     (0x1F9B, [0x1F2B, 0x399]), (0x1F9C, [0x1F2C, 0x399]), (0x1F9D, [0x1F2D, 0x399]),
     (0x1F9E, [0x1F2E, 0x399]), (0x1F9F, [0x1F2F, 0x399]), (0x1FA0, [0x1F68, 0x399]),
     (0x1FA1, [0x1F69, 0x399]), (0x1FA2, [0x1F6A, 0x399]), (0x1FA3, [0x1F6B, 0x399]),
     (0x1FA4, [0x1F6C, 0x399]), (0x1FA5, [0x1F6D, 0x399]), (0x1FA6, [0x1F6E, 0x399]),
     (0x1FA7, [0x1F6F, 0x399]), (0x1FA8, [0x1F68, 0x399]), (0x1FA9, [0x1F69, 0x399]),
     (0x1FAA, [0x1F6A, 0x399]), (0x1FAB, [0x1F6B, 0x399]), (0x1FAC, [0x1F6C, 0x399]),
     (0x1FAD, [0x1F6D, 0x399]), (0x1FAE, [0x1F6E, 0x399]), (0x1FAF, [0x1F6F, 0x399]),
     (0x1FB0, [0x1FB8]), (0x1FB1, [0x1FB9]), (0x1FB2, [0x1FBA, 0x399]), (0x1FB3, [0x391, 0x399]),
     (0x1FB4, [0x386, 0x399]), (0x1FB6, [0x391, 0x342]), (0x1FB7, [0x391, 0x342, 0x399]),
     (0x1FBC, [0x391, 0x399]), (0x1FBE, [0x399]), (0x1FC2, [0x1FCA, 0x399]),
     (0x1FC3, [0x397, 0x399]), (0x1FC4, [0x389, 0x399]), (0x1FC6, [0x397, 0x342]),
     (0x1FC7, [0x397, 0x342, 0x399]), (0x1FCC, [0x397, 0x399]), (0x1FD0, [0x1FD8]),
     (0x1FD1, [0x1FD9]), (0x1FD2, [0x399, 0x308, 0x300]), (0x1FD3, [0x399, 0x308, 0x301]),
     (0x1FD6, [0x399, 0x342]), (0x1FD7, [0x399, 0x308, 0x342]), (0x1FE0, [0x1FE8]),
     (0x1FE1, [0x1FE9]), (0x1FE2, [0x3A5, 0x308, 0x300]), (0x1FE3, [0x3A5, 0x308, 0x301]),
     (0x1FE4, [0x3A1, 0x313]), (0x1FE5, [0x1FEC]), (0x1FE6, [0x3A5, 0x342]),
     (0x1FE7, [0x3A5, 0x308, 0x342]), (0x1FF2, [0x1FFA, 0x399]), (0x1FF3, [0x3A9, 0x399]),
     (0x1FF4, [0x38F, 0x399]), (0x1FF6, [0x3A9, 0x342]), (0x1FF7, [0x3A9, 0x342, 0x399]),
     (0x1FFC, [0x3A9, 0x399])]"

definition upper_row_21 :: "(nat \<times> nat list) list" where
  "upper_row_21 =
    [(0x214E, [0x2132]), (0x2170, [0x2160]), (0x2171, [0x2161]), (0x2172, [0x2162]),
     (0x2173, [0x2163]), (0x2174, [0x2164]), (0x2175, [0x2165]), (0x2176, [0x2166]),
     (0x2177, [0x2167]), (0x2178, [0x2168]), (0x2179, [0x2169]), (0x217A, [0x216A]),
     (0x217B, [0x216B]), (0x217C, [0x216C]), (0x217D, [0x216D]), (0x217E, [0x216E]),
     (0x217F, [0x216F]), (0x2184, [0x2183])]"

definition upper_row_24 :: "(nat \<times> nat list) list" where
  "upper_row_24 =
    [(0x24D0, [0x24B6]), (0x24D1, [0x24B7]), (0x24D2, [0x24B8]), (0x24D3, [0x24B9]),
     (0x24D4, [0x24BA]), (0x24D5, [0x24BB]), (0x24D6, [0x24BC]), (0x24D7, [0x24BD]),
     (0x24D8, [0x24BE]), (0x24D9, [0x24BF]), (0x24DA, [0x24C0]), (0x24DB, [0x24C1]),
     (0x24DC, [0x24C2]), (0x24DD, [0x24C3]), (0x24DE, [0x24C4]), (0x24DF, [0x24C5]),
     (0x24E0, [0x24C6]), (0x24E1, [0x24C7]), (0x24E2, [0x24C8]), (0x24E3, [0x24C9]),
     (0x24E4, [0x24CA]), (0x24E5, [0x24CB]), (0x24E6, [0x24CC]), (0x24E7, [0x24CD]),
     (0x24E8, [0x24CE]), (0x24E9, [0x24CF])]"

definition upper_row_2C :: "(nat \<times> nat list) list" where
  "upper_row_2C =
    [(0x2C30, [0x2C00]), (0x2C31, [0x2C01]), (0x2C32, [0x2C02]), (0x2C33, [0x2C03]),
     (0x2C34, [0x2C04]), (0x2C35, [0x2C05]), (0x2C36, [0x2C06]), (0x2C37, [0x2C07]),
     (0x2C38, [0x2C08]), (0x2C39, [0x2C09]), (0x2C3A, [0x2C0A]), (0x2C3B, [0x2C0B]),
     (0x2C3C, [0x2C0C]), (0x2C3D, [0x2C0D]), (0x2C3E, [0x2C0E]), (0x2C3F, [0x2C0F]),
     (0x2C40, [0x2C10]), (0x2C41, [0x2C11]), (0x2C42, [0x2C12]), (0x2C43, [0x2C13]),
     (0x2C44, [0x2C14]), (0x2C45, [0x2C15]), (0x2C46, [0x2C16]), (0x2C47, [0x2C17]),
     (0x2C48, [0x2C18]), (0x2C49, [0x2C19]), (0x2C4A, [0x2C1A]), (0x2C4B, [0x2C1B]),
     (0x2C4C, [0x2C1C]), (0x2C4D, [0x2C1D]), (0x2C4E, [0x2C1E]), (0x2C4F, [0x2C1F]),
     (0x2C50, [0x2C20]), (0x2C51, [0x2C21]), (0x2C52, [0x2C22]), (0x2C53, [0x2C23]),
     (0x2C54, [0x2C24]), (0x2C55, [0x2C25]), (0x2C56, [0x2C26]), (0x2C57, [0x2C27]),
     (0x2C58, [0x2C28]), (0x2C59, [0x2C29]), (0x2C5A, [0x2C2A]), (0x2C5B, [0x2C2B]),
     (0x2C5C, [0x2C2C]), (0x2C5D, [0x2C2D]), (0x2C5E, [0x2C2E]), (0x2C5F, [0x2C2F]),
     (0x2C61, [0x2C60]), (0x2C65, [0x23A]), (0x2C66, [0x23E]), (0x2C68, [0x2C67]),
     (0x2C6A, [0x2C69]), (0x2C6C, [0x2C6B]), (0x2C73, [0x2C72]), (0x2C76, [0x2C75]),
     (0x2C81, [0x2C80]), (0x2C83, [0x2C82]), (0x2C85, [0x2C84]), (0x2C87, [0x2C86]),
     (0x2C89, [0x2C88]), (0x2C8B, [0x2C8A]), (0x2C8D, [0x2C8C]), (0x2C8F, [0x2C8E]),
     (0x2C91, [0x2C90]), (0x2C93, [0x2C92]), (0x2C95, [0x2C94]), (0x2C97, [0x2C96]),
     (0x2C99, [0x2C98]), (0x2C9B, [0x2C9A]), (0x2C9D, [0x2C9C]), (0x2C9F, [0x2C9E]),
     (0x2CA1, [0x2CA0]), (0x2CA3, [0x2CA2]), (0x2CA5, [0x2CA4]), (0x2CA7, [0x2CA6]),
     (0x2CA9, [0x2CA8]), (0x2CAB, [0x2CAA]), (0x2CAD, [0x2CAC]), (0x2CAF, [0x2CAE]),
     (0x2CB1, [0x2CB0]), (0x2CB3, [0x2CB2]), (0x2CB5, [0x2CB4]), (0x2CB7, [0x2CB6]),
     (0x2CB9, [0x2CB8]), (0x2CBB, [0x2CBA]), (0x2CBD, [0x2CBC]), (0x2CBF, [0x2CBE]),
     (0x2CC1, [0x2CC0]), (0x2CC3, [0x2CC2]), (0x2CC5, [0x2CC4]), (0x2CC7, [0x2CC6]),
     (0x2CC9, [0x2CC8]), (0x2CCB, [0x2CCA]), (0x2CCD, [0x2CCC]), (0x2CCF, [0x2CCE]),
     (0x2CD1, [0x2CD0]), (0x2CD3, [0x2CD2]), (0x2CD5, [0x2CD4]), (0x2CD7, [0x2CD6]),
     (0x2CD9, [0x2CD8]), (0x2CDB, [0x2CDA]), (0x2CDD, [0x2CDC]), (0x2CDF, [0x2CDE]),
     (0x2CE1, [0x2CE0]), (0x2CE3, [0x2CE2]), (0x2CEC, [0x2CEB]), (0x2CEE, [0x2CED]),
     (0x2CF3, [0x2CF2])]"

definition upper_row_2D :: "(nat \<times> nat list) list" where
  "upper_row_2D =
    [(0x2D00, [0x10A0]), (0x2D01, [0x10A1]), (0x2D02, [0x10A2]), (0x2D03, [0x10A3]),
     (0x2D04, [0x10A4]), (0x2D05, [0x10A5]), (0x2D06, [0x10A6]), (0x2D07, [0x10A7]),
     (0x2D08, [0x10A8]), (0x2D09, [0x10A9]), (0x2D0A, [0x10AA]), (0x2D0B, [0x10AB]),
     (0x2D0C, [0x10AC]), (0x2D0D, [0x10AD]), (0x2D0E, [0x10AE]), (0x2D0F, [0x10AF]),
     (0x2D10, [0x10B0]), (0x2D11, [0x10B1]), (0x2D12, [0x10B2]), (0x2D13, [0x10B3]),
     (0x2D14, [0x10B4]), (0x2D15, [0x10B5]), (0x2D16, [0x10B6]), (0x2D17, [0x10B7]),
     (0x2D18, [0x10B8]), (0x2D19, [0x10B9]), (0x2D1A, [0x10BA]), (0x2D1B, [0x10BB]),
     (0x2D1C, [0x10BC]), (0x2D1D, [0x10BD]), (0x2D1E, [0x10BE]), (0x2D1F, [0x10BF]),
     (0x2D20, [0x10C0]), (0x2D21, [0x10C1]), (0x2D22, [0x10C2]), (0x2D23, [0x10C3]),
     (0x2D24, [0x10C4]), (0x2D25, [0x10C5]), (0x2D27, [0x10C7]), (0x2D2D, [0x10CD])]"

definition upper_row_A6 :: "(nat \<times> nat list) list" where
  "upper_row_A6 =
    [(0xA641, [0xA640]), (0xA643, [0xA642]), (0xA645, [0xA644]), (0xA647, [0xA646]),
     (0xA649, [0xA648]), (0xA64B, [0xA64A]), (0xA64D, [0xA64C]), (0xA64F, [0xA64E]),
     (0xA651, [0xA650]), (0xA653, [0xA652]), (0xA655, [0xA654]), (0xA657, [0xA656]),
     (0xA659, [0xA658]), (0xA65B, [0xA65A]), (0xA65D, [0xA65C]), (0xA65F, [0xA65E]),
     (0xA661, [0xA660]), (0xA663, [0xA662]), (0xA665, [0xA664]), (0xA667, [0xA666]),
     (0xA669, [0xA668]), (0xA66B, [0xA66A]), (0xA66D, [0xA66C]), (0xA681, [0xA680]),
     (0xA683, [0xA682]), (0xA685, [0xA684]), (0xA687, [0xA686]), (0xA689, [0xA688]),
     (0xA68B, [0xA68A]), (0xA68D, [0xA68C]), (0xA68F, [0xA68E]), (0xA691, [0xA690]),
     (0xA693, [0xA692]), (0xA695, [0xA694]), (0xA697, [0xA696]), (0xA699, [0xA698]),
     (0xA69B, [0xA69A])]"

definition upper_row_A7 :: "(nat \<times> nat list) list" where
  "upper_row_A7 =
    [(0xA723, [0xA722]), (0xA725, [0xA724]), (0xA727, [0xA726]), (0xA729, [0xA728]),
     (0xA72B, [0xA72A]), (0xA72D, [0xA72C]), (0xA72F, [0xA72E]), (0xA733, [0xA732]),
     (0xA735, [0xA734]), (0xA737, [0xA736]), (0xA739, [0xA738]), (0xA73B, [0xA73A]),
     (0xA73D, [0xA73C]), (0xA73F, [0xA73E]), (0xA741, [0xA740]), (0xA743, [0xA742]),
     (0xA745, [0xA744]), (0xA747, [0xA746]), (0xA749, [0xA748]), (0xA74B, [0xA74A]),
     (0xA74D, [0xA74C]), (0xA74F, [0xA74E]), (0xA751, [0xA750]), (0xA753, [0xA752]),
     (0xA755, [0xA754]), (0xA757, [0xA756]), (0xA759, [0xA758]), (0xA75B, [0xA75A]),
     (0xA75D, [0xA75C]), (0xA75F, [0xA75E]), (0xA761, [0xA760]), (0xA763, [0xA762]),
     (0xA765, [0xA764]), (0xA767, [0xA766]), (0xA769, [0xA768]), (0xA76B, [0xA76A]),
     (0xA76D, [0xA76C]), (0xA76F, [0xA76E]), (0xA77A, [0xA779]), (0xA77C, [0xA77B]),
     (0xA77F, [0xA77E]), (0xA781, [0xA780]), (0xA783, [0xA782]), (0xA785, [0xA784]),
     (0xA787, [0xA786]), (0xA78C, [0xA78B]), (0xA791, [0xA790]), (0xA793, [0xA792]),
     (0xA794, [0xA7C4]), (0xA797, [0xA796]), (0xA799, [0xA798]), (0xA79B, [0xA79A]),
     (0xA79D, [0xA79C]), (0xA79F, [0xA79E]), (0xA7A1, [0xA7A0]), (0xA7A3, [0xA7A2]),
     (0xA7A5, [0xA7A4]), (0xA7A7, [0xA7A6]), (0xA7A9, [0xA7A8]), (0xA7B5, [0xA7B4]),
     (0xA7B7, [0xA7B6]), (0xA7B9, [0xA7B8]), (0xA7BB, [0xA7BA]), (0xA7BD, [0xA7BC]),
     (0xA7BF, [0xA7BE]), (0xA7C1, [0xA7C0]), (0xA7C3, [0xA7C2]), (0xA7C8, [0xA7C7]),
     (0xA7CA, [0xA7C9]), (0xA7D1, [0xA7D0]), (0xA7D7, [0xA7D6]), (0xA7D9, [0xA7D8]),
     (0xA7F6, [0xA7F5])]"

definition upper_row_AB :: "(nat \<times> nat list) list" where
  "upper_row_AB =
    [(0xAB53, [0xA7B3]), (0xAB70, [0x13A0]), (0xAB71, [0x13A1]), (0xAB72, [0x13A2]),
     (0xAB73, [0x13A3]), (0xAB74, [0x13A4]), (0xAB75, [0x13A5]), (0xAB76, [0x13A6]),
     (0xAB77, [0x13A7]), (0xAB78, [0x13A8]), (0xAB79, [0x13A9]), (0xAB7A, [0x13AA]),
     (0xAB7B, [0x13AB]), (0xAB7C, [0x13AC]), (0xAB7D, [0x13AD]), (0xAB7E, [0x13AE]),
     (0xAB7F, [0x13AF]), (0xAB80, [0x13B0]), (0xAB81, [0x13B1]), (0xAB82, [0x13B2]),
     (0xAB83, [0x13B3]), (0xAB84, [0x13B4]), (0xAB85, [0x13B5]), (0xAB86, [0x13B6]),
     (0xAB87, [0x13B7]), (0xAB88, [0x13B8]), (0xAB89, [0x13B9]), (0xAB8A, [0x13BA]),
     (0xAB8B, [0x13BB]), (0xAB8C, [0x13BC]), (0xAB8D, [0x13BD]), (0xAB8E, [0x13BE]),
     (0xAB8F, [0x13BF]), (0xAB90, [0x13C0]), (0xAB91, [0x13C1]), (0xAB92, [0x13C2]),
     (0xAB93, [0x13C3]), (0xAB94, [0x13C4]), (0xAB95, [0x13C5]), (0xAB96, [0x13C6]),
     (0xAB97, [0x13C7]), (0xAB98, [0x13C8]), (0xAB99, [0x13C9]), (0xAB9A, [0x13CA]),
     (0xAB9B, [0x13CB]), (0xAB9C, [0x13CC]), (0xAB9D, [0x13CD]), (0xAB9E, [0x13CE]),
     (0xAB9F, [0x13CF]), (0xABA0, [0x13D0]), (0xABA1, [0x13D1]), (0xABA2, [0x13D2]),
     (0xABA3, [0x13D3]), (0xABA4, [0x13D4]), (0xABA5, [0x13D5]), (0xABA6, [0x13D6]),
     (0xABA7, [0x13D7]), (0xABA8, [0x13D8]), (0xABA9, [0x13D9]), (0xABAA, [0x13DA]),
     (0xABAB, [0x13DB]), (0xABAC, [0x13DC]), (0xABAD, [0x13DD]), (0xABAE, [0x13DE]),
     (0xABAF, [0x13DF]), (0xABB0, [0x13E0]), (0xABB1, [0x13E1]), (0xABB2, [0x13E2]),
     (0xABB3, [0x13E3]), (0xABB4, [0x13E4]), (0xABB5, [0x13E5]), (0xABB6, [0x13E6]),
     (0xABB7, [0x13E7]), (0xABB8, [0x13E8]), (0xABB9, [0x13E9]), (0xABBA, [0x13EA]),
     (0xABBB, [0x13EB]), (0xABBC, [0x13EC]), (0xABBD, [0x13ED]), (0xABBE, [0x13EE]),
     (0xABBF, [0x13EF])]"

definition upper_row_FB :: "(nat \<times> nat list) list" where
  "upper_row_FB =
    [(0xFB00, [0x46, 0x46]), (0xFB01, [0x46, 0x49]), (0xFB02, [0x46, 0x4C]),
     (0xFB03, [0x46, 0x46, 0x49]), (0xFB04, [0x46, 0x46, 0x4C]), (0xFB05, [0x53, 0x54]),
     (0xFB06, [0x53, 0x54]), (0xFB13, [0x544, 0x546]), (0xFB14, [0x544, 0x535]),
     (0xFB15, [0x544, 0x53B]), (0xFB16, [0x54E, 0x546]), (0xFB17, [0x544, 0x53D])]"

definition upper_row_FF :: "(nat \<times> nat list) list" where
  "upper_row_FF =
    [(0xFF41, [0xFF21]), (0xFF42, [0xFF22]), (0xFF43, [0xFF23]), (0xFF44, [0xFF24]),
     (0xFF45, [0xFF25]), (0xFF46, [0xFF26]), (0xFF47, [0xFF27]), (0xFF48, [0xFF28]),
     (0xFF49, [0xFF29]), (0xFF4A, [0xFF2A]), (0xFF4B, [0xFF2B]), (0xFF4C, [0xFF2C]),
     (0xFF4D, [0xFF2D]), (0xFF4E, [0xFF2E]), (0xFF4F, [0xFF2F]), (0xFF50, [0xFF30]),
     (0xFF51, [0xFF31]), (0xFF52, [0xFF32]), (0xFF53, [0xFF33]), (0xFF54, [0xFF34]),
     (0xFF55, [0xFF35]), (0xFF56, [0xFF36]), (0xFF57, [0xFF37]), (0xFF58, [0xFF38]),
     (0xFF59, [0xFF39]), (0xFF5A, [0xFF3A])]"

definition upper_row_104 :: "(nat \<times> nat list) list" where
  "upper_row_104 =
    [(0x10428, [0x10400]), (0x10429, [0x10401]), (0x1042A, [0x10402]), (0x1042B, [0x10403]),
     (0x1042C, [0x10404]), (0x1042D, [0x10405]), (0x1042E, [0x10406]), (0x1042F, [0x10407]),
     (0x10430, [0x10408]), (0x10431, [0x10409]), (0x10432, [0x1040A]), (0x10433, [0x1040B]),
     (0x10434, [0x1040C]), (0x10435, [0x1040D]), (0x10436, [0x1040E]), (0x10437, [0x1040F]),
     (0x10438, [0x10410]), (0x10439, [0x10411]), (0x1043A, [0x10412]), (0x1043B, [0x10413]),
     (0x1043C, [0x10414]), (0x1043D, [0x10415]), (0x1043E, [0x10416]), (0x1043F, [0x10417]),
     (0x10440, [0x10418]), (0x10441, [0x10419]), (0x10442, [0x1041A]), (0x10443, [0x1041B]),
     (0x10444, [0x1041C]), (0x10445, [0x1041D]), (0x10446, [0x1041E]), (0x10447, [0x1041F]),
     (0x10448, [0x10420]), (0x10449, [0x10421]), (0x1044A, [0x10422]), (0x1044B, [0x10423]),
     (0x1044C, [0x10424]), (0x1044D, [0x10425]), (0x1044E, [0x10426]), (0x1044F, [0x10427]),
     (0x104D8, [0x104B0]), (0x104D9, [0x104B1]), (0x104DA, [0x104B2]), (0x104DB, [0x104B3]),
     (0x104DC, [0x104B4]), (0x104DD, [0x104B5]), (0x104DE, [0x104B6]), (0x104DF, [0x104B7]),
     (0x104E0, [0x104B8]), (0x104E1, [0x104B9]), (0x104E2, [0x104BA]), (0x104E3, [0x104BB]),
     (0x104E4, [0x104BC]), (0x104E5, [0x104BD]), (0x104E6, [0x104BE]), (0x104E7, [0x104BF]),
     (0x104E8, [0x104C0]), (0x104E9, [0x104C1]), (0x104EA, [0x104C2]), (0x104EB, [0x104C3]),
     (0x104EC, [0x104C4]), (0x104ED, [0x104C5]), (0x104EE, [0x104C6]), (0x104EF, [0x104C7]),
     (0x104F0, [0x104C8]), (0x104F1, [0x104C9]), (0x104F2, [0x104CA]), (0x104F3, [0x104CB]),
     (0x104F4, [0x104CC]), (0x104F5, [0x104CD]), (0x104F6, [0x104CE]), (0x104F7, [0x104CF]),
     (0x104F8, [0x104D0]), (0x104F9, [0x104D1]), (0x104FA, [0x104D2]), (0x104FB, [0x104D3])]"

definition upper_row_105 :: "(nat \<times> nat list) list" where
  "upper_row_105 =
    [(0x10597, [0x10570]), (0x10598, [0x10571]), (0x10599, [0x10572]), (0x1059A, [0x10573]),
     (0x1059B, [0x10574]), (0x1059C, [0x10575]), (0x1059D, [0x10576]), (0x1059E, [0x10577]),
     (0x1059F, [0x10578]), (0x105A0, [0x10579]), (0x105A1, [0x1057A]), (0x105A3, [0x1057C]),
     (0x105A4, [0x1057D]), (0x105A5, [0x1057E]), (0x105A6, [0x1057F]), (0x105A7, [0x10580]),
     (0x105A8, [0x10581]), (0x105A9, [0x10582]), (0x105AA, [0x10583]), (0x105AB, [0x10584]),
     (0x105AC, [0x10585]), (0x105AD, [0x10586]), (0x105AE, [0x10587]), (0x105AF, [0x10588]),
     (0x105B0, [0x10589]), (0x105B1, [0x1058A]), (0x105B3, [0x1058C]), (0x105B4, [0x1058D]),
     (0x105B5, [0x1058E]), (0x105B6, [0x1058F]), (0x105B7, [0x10590]), (0x105B8, [0x10591]),
     (0x105B9, [0x10592]), (0x105BB, [0x10594]), (0x105BC, [0x10595])]"

definition upper_row_10C :: "(nat \<times> nat list) list" where
  "upper_row_10C =
    [(0x10CC0, [0x10C80]), (0x10CC1, [0x10C81]), (0x10CC2, [0x10C82]), (0x10CC3, [0x10C83]),
     (0x10CC4, [0x10C84]), (0x10CC5, [0x10C85]), (0x10CC6, [0x10C86]), (0x10CC7, [0x10C87]),
     (0x10CC8, [0x10C88]), (0x10CC9, [0x10C89]), (0x10CCA, [0x10C8A]), (0x10CCB, [0x10C8B]),
     (0x10CCC, [0x10C8C]), (0x10CCD, [0x10C8D]), (0x10CCE, [0x10C8E]), (0x10CCF, [0x10C8F]),
     (0x10CD0, [0x10C90]), (0x10CD1, [0x10C91]), (0x10CD2, [0x10C92]), (0x10CD3, [0x10C93]),
     (0x10CD4, [0x10C94]), (0x10CD5, [0x10C95]), (0x10CD6, [0x10C96]), (0x10CD7, [0x10C97]),
     (0x10CD8, [0x10C98]), (0x10CD9, [0x10C99]), (0x10CDA, [0x10C9A]), (0x10CDB, [0x10C9B]),
     (0x10CDC, [0x10C9C]), (0x10CDD, [0x10C9D]), (0x10CDE, [0x10C9E]), (0x10CDF, [0x10C9F]),
     (0x10CE0, [0x10CA0]), (0x10CE1, [0x10CA1]), (0x10CE2, [0x10CA2]), (0x10CE3, [0x10CA3]),
     (0x10CE4, [0x10CA4]), (0x10CE5, [0x10CA5]), (0x10CE6, [0x10CA6]), (0x10CE7, [0x10CA7]),
     (0x10CE8, [0x10CA8]), (0x10CE9, [0x10CA9]), (0x10CEA, [0x10CAA]), (0x10CEB, [0x10CAB]),
     (0x10CEC, [0x10CAC]), (0x10CED, [0x10CAD]), (0x10CEE, [0x10CAE]), (0x10CEF, [0x10CAF]),
     (0x10CF0, [0x10CB0]), (0x10CF1, [0x10CB1]), (0x10CF2, [0x10CB2])]"

definition upper_row_118 :: "(nat \<times> nat list) list" where
  "upper_row_118 =
    [(0x118C0, [0x118A0]), (0x118C1, [0x118A1]), (0x118C2, [0x118A2]), (0x118C3, [0x118A3]),
     (0x118C4, [0x118A4]), (0x118C5, [0x118A5]), (0x118C6, [0x118A6]), (0x118C7, [0x118A7]),
     (0x118C8, [0x118A8]), (0x118C9, [0x118A9]), (0x118CA, [0x118AA]), (0x118CB, [0x118AB]),
     (0x118CC, [0x118AC]), (0x118CD, [0x118AD]), (0x118CE, [0x118AE]), (0x118CF, [0x118AF]),
     (0x118D0, [0x118B0]), (0x118D1, [0x118B1]), (0x118D2, [0x118B2]), (0x118D3, [0x118B3]),
     (0x118D4, [0x118B4]), (0x118D5, [0x118B5]), (0x118D6, [0x118B6]), (0x118D7, [0x118B7]),
     (0x118D8, [0x118B8]), (0x118D9, [0x118B9]), (0x118DA, [0x118BA]), (0x118DB, [0x118BB]),
     (0x118DC, [0x118BC]), (0x118DD, [0x118BD]), (0x118DE, [0x118BE]), (0x118DF, [0x118BF])]"

definition upper_row_16E :: "(nat \<times> nat list) list" where
  "upper_row_16E =
    [(0x16E60, [0x16E40]), (0x16E61, [0x16E41]), (0x16E62, [0x16E42]), (0x16E63, [0x16E43]),
     (0x16E64, [0x16E44]), (0x16E65, [0x16E45]), (0x16E66, [0x16E46]), (0x16E67, [0x16E47]),
     (0x16E68, [0x16E48]), (0x16E69, [0x16E49]), (0x16E6A, [0x16E4A]), (0x16E6B, [0x16E4B]),
     (0x16E6C, [0x16E4C]), (0x16E6D, [0x16E4D]), (0x16E6E, [0x16E4E]), (0x16E6F, [0x16E4F]),
     (0x16E70, [0x16E50]), (0x16E71, [0x16E51]), (0x16E72, [0x16E52]), (0x16E73, [0x16E53]),
     (0x16E74, [0x16E54]), (0x16E75, [0x16E55]), (0x16E76, [0x16E56]), (0x16E77, [0x16E57]),
     (0x16E78, [0x16E58]), (0x16E79, [0x16E59]), (0x16E7A, [0x16E5A]), (0x16E7B, [0x16E5B]),
     (0x16E7C, [0x16E5C]), (0x16E7D, [0x16E5D]), (0x16E7E, [0x16E5E]), (0x16E7F, [0x16E5F])]"

definition upper_row_1E9 :: "(nat \<times> nat list) list" where
  "upper_row_1E9 =
    [(0x1E922, [0x1E900]), (0x1E923, [0x1E901]), (0x1E924, [0x1E902]), (0x1E925, [0x1E903]),
     (0x1E926, [0x1E904]), (0x1E927, [0x1E905]), (0x1E928, [0x1E906]), (0x1E929, [0x1E907]),
     (0x1E92A, [0x1E908]), (0x1E92B, [0x1E909]), (0x1E92C, [0x1E90A]), (0x1E92D, [0x1E90B]),
     (0x1E92E, [0x1E90C]), (0x1E92F, [0x1E90D]), (0x1E930, [0x1E90E]), (0x1E931, [0x1E90F]),
     (0x1E932, [0x1E910]), (0x1E933, [0x1E911]), (0x1E934, [0x1E912]), (0x1E935, [0x1E913]),
     (0x1E936, [0x1E914]), (0x1E937, [0x1E915]), (0x1E938, [0x1E916]), (0x1E939, [0x1E917]),
     (0x1E93A, [0x1E918]), (0x1E93B, [0x1E919]), (0x1E93C, [0x1E91A]), (0x1E93D, [0x1E91B]),
     (0x1E93E, [0x1E91C]), (0x1E93F, [0x1E91D]), (0x1E940, [0x1E91E]), (0x1E941, [0x1E91F]),
     (0x1E942, [0x1E920]), (0x1E943, [0x1E921])]"

definition upper_table :: "(nat \<times> nat list) list" where
  "upper_table =
     upper_row_00 @ upper_row_01 @ upper_row_02 @ upper_row_03 @ upper_row_04
     @ upper_row_05 @ upper_row_10 @ upper_row_13 @ upper_row_1C @ upper_row_1D
     @ upper_row_1E @ upper_row_1F @ upper_row_21 @ upper_row_24 @ upper_row_2C
     @ upper_row_2D @ upper_row_A6 @ upper_row_A7 @ upper_row_AB @ upper_row_FB
     @ upper_row_FF @ upper_row_104 @ upper_row_105 @ upper_row_10C @ upper_row_118
     @ upper_row_16E @ upper_row_1E9"

text \<open>The mapping of one code point, and \<open>s.upper()\<close>.\<close>

definition to_upper :: "nat \<Rightarrow> nat list" where
  "to_upper cp = (case map_of upper_table cp of Some u \<Rightarrow> u | None \<Rightarrow> [cp])"

definition str_upper :: "string \<Rightarrow> string" where
  "str_upper s = concat (map utf8 (concat (map to_upper (utf8_decode s))))"

text \<open>
  What the proofs below need to know of an entry of the table: the mapping is not empty
  and stays within Unicode, no capital Y, E or S has an entry, and the letters
  \<open>Y\<close>, \<open>E\<close> and \<open>S\<close> occur in the mappings of the named code points only.
\<close>

definition upper_entry_ok :: "nat \<times> nat list \<Rightarrow> bool" where
  "upper_entry_ok e =
     (case e of (k, u) \<Rightarrow>
        u \<noteq> [] \<and> list_all (\<lambda>x. x < 0x110000) u \<and> k \<noteq> 0x59 \<and> k \<noteq> 0x45 \<and> k \<noteq> 0x53
        \<and> (if k = 0x79 then u = [0x59] else if k = 0x1E99 then u = [0x59, 0x30A]
            else 0x59 \<notin> set u)
        \<and> (if k = 0x65 then u = [0x45] else 0x45 \<notin> set u)
        \<and> (if k = 0x73 \<or> k = 0x17F then u = [0x53] else if k = 0xDF then u = [0x53, 0x53]
            else if k = 0xFB05 \<or> k = 0xFB06 then u = [0x53, 0x54] else 0x53 \<notin> set u))"

subsection \<open>Containment and joining\<close>

text \<open>\<open>sub in s\<close>: \<open>sub\<close> occurs in \<open>s\<close> as a contiguous substring.\<close>

fun starts_with :: "string \<Rightarrow> string \<Rightarrow> bool" where
  "starts_with [] s = True"
| "starts_with (p # ps) [] = False"
| "starts_with (p # ps) (c # cs) = (p = c \<and> starts_with ps cs)"

fun str_contains :: "string \<Rightarrow> string \<Rightarrow> bool" where
  "str_contains sub [] = (sub = [])"
| "str_contains sub (c # cs) = (starts_with sub (c # cs) \<or> str_contains sub cs)"

text \<open>\<open>"\n".join(lines)\<close>: the prompt templates are written line by line.\<close>

fun join_lines :: "string list \<Rightarrow> string" where
  "join_lines [] = []"
| "join_lines [l] = l"
| "join_lines (l # ls) = l @ CHR 0x0A # join_lines ls"

subsection \<open>The runtime and the reasoning oracle\<close>

text \<open>
  The library functions the code calls are parameters of the model: \<open>json.loads\<close>,
  \<open>json.dumps\<close> (plain and with \<open>indent=2\<close>) and \<open>str\<close>, which renders a value
  inside an f-string. A concrete runtime for evaluation is defined further down.
\<close>

record runtime =
  loads :: "string \<Rightarrow> exn + py"
  dumps :: "py \<Rightarrow> string"
  dumps_indent2 :: "py \<Rightarrow> string"
  str_of :: "py \<Rightarrow> string"

text \<open>
  The oracle of the MCP server is any object with \<open>complete(prompt)\<close>; the REST
  client's \<open>complete(prompt, max_tokens)\<close> wraps the remote service. Either may
  raise. Every operation returns, beside its outcome, the calls it made to the oracle,
  in order.
\<close>

type_synonym llm = "string \<Rightarrow> exn + string"
type_synonym api = "string \<Rightarrow> nat \<Rightarrow> exn + string"

text \<open>A mock client that answers every prompt with the same canned text.\<close>

definition MockLLMClient :: "string \<Rightarrow> llm" where
  "MockLLMClient canned = (\<lambda>prompt. Inr canned)"

definition MockAPI :: "string \<Rightarrow> api" where
  "MockAPI canned = (\<lambda>prompt max_tokens. Inr canned)"

section \<open>Data model of the MCP server\<close>

text \<open>
  The dataclasses carry no runtime type check, so each field holds whatever value the
  decoded JSON had. \<open>obj_id\<close> is the identity \<open>id(self)\<close> of a \<open>UserIntent\<close>
  object; it is fixed when the object is created and is no dataclass field.
\<close>

record UserIntent =
  obj_id :: nat
  intent :: py
  target_app :: py
  entities :: py

record UIAction =
  action :: py
  target :: py
  value' :: py
  className :: py
  index :: py

record TaskPlan =
  task_id :: string
  original_intent :: UserIntent
  actions :: "UIAction list"

section \<open>Outcome verification\<close>

text \<open>\<open>VerificationLoop.verify_action_result\<close> of the MCP server.\<close>

definition verification_prompt :: "runtime \<Rightarrow> UIAction \<Rightarrow> string \<Rightarrow> pydict \<Rightarrow> string" where
  \<open>verification_prompt rt act expected_outcome actual_screen_state = join_lines
    [''Did this action achieve its goal?'',
     '''',
     ''Action: '' @ str_of rt (action act),
     ''Target: '' @ str_of rt (py_or (target act) (value' act)),
     ''Expected: '' @ expected_outcome,
     '''',
     ''Actual Screen:'',
     ''- App: '' @ str_of rt (dict_get actual_screen_state ''current_app''),
     ''- Visible: '' @ str_of rt (dict_get actual_screen_state ''visible_texts''),
     '''',
     ''Answer YES or NO.'']\<close>

definition verify_action_result ::
  "runtime \<Rightarrow> llm \<Rightarrow> UIAction \<Rightarrow> string \<Rightarrow> pydict \<Rightarrow> (exn + bool) \<times> string list" where
  "verify_action_result rt complete act expected_outcome actual_screen_state =
     (let verification = verification_prompt rt act expected_outcome actual_screen_state in
      case complete verification of
        Inl e \<Rightarrow> (Inl e, [verification])
      | Inr response \<Rightarrow> (Inr (str_contains ''YES'' (str_upper response)), [verification]))"

text \<open>\<open>ClaudeLLMClient.verify_action_success\<close> of the REST backend; the action is a
  dictionary there, and the oracle is asked for at most 10 tokens.\<close>

definition verify_success_prompt :: "runtime \<Rightarrow> pydict \<Rightarrow> string \<Rightarrow> pydict \<Rightarrow> string" where
  \<open>verify_success_prompt rt act expected_state actual_screen_state = join_lines
    [''Did this UI automation action succeed?'',
     '''',
     ''Action: '' @ str_of rt (dict_get act ''action'') @ '' ''
        @ str_of rt (py_or (py_or (dict_get act ''target'') (dict_get act ''value'')) (PStr '''')),
     ''Expected result: '' @ expected_state,
     '''',
     ''Actual screen after action:'',
     ''- App: '' @ str_of rt (dict_get actual_screen_state ''current_app''),
     ''- Visible text: '' @ str_of rt (dict_get_default actual_screen_state ''visible_texts'' (PList [])),
     '''',
     ''Respond with only "YES" or "NO".'']\<close>

definition verify_action_success ::
  "runtime \<Rightarrow> api \<Rightarrow> pydict \<Rightarrow> string \<Rightarrow> pydict \<Rightarrow> (exn + bool) \<times> (string \<times> nat) list" where
  "verify_action_success rt complete act expected_state actual_screen_state =
     (let prompt = verify_success_prompt rt act expected_state actual_screen_state in
      case complete prompt 10 of
        Inl e \<Rightarrow> (Inl e, [(prompt, 10)])
      | Inr response \<Rightarrow> (Inr (str_contains ''YES'' (str_upper response)), [(prompt, 10)]))"

text \<open>
  The specification's reading of the verifier's answer: the response holds an
  affirmative token, that is three characters in a row that spell \<open>yes\<close> in either
  case: \<open>y\<close> or \<open>Y\<close>, \<open>e\<close> or \<open>E\<close>, and then \<open>s\<close>, \<open>S\<close> or one of the four
  other characters whose upper case begins with \<open>S\<close>: the long s \<open>U+017F\<close>, the
  sharp s \<open>U+00DF\<close> and the ligatures \<open>U+FB05\<close> and \<open>U+FB06\<close>.
\<close>

definition affirmative :: "string \<Rightarrow> bool" where
  "affirmative response =
     (\<exists>pre a b c post. utf8_decode response = pre @ a # b # c # post
        \<and> (a = 0x79 \<or> a = 0x59)
        \<and> (b = 0x65 \<or> b = 0x45)
        \<and> (c = 0x73 \<or> c = 0x53 \<or> c = 0x17F \<or> c = 0xDF \<or> c = 0xFB05 \<or> c = 0xFB06))"


section \<open>Indexing, iteration and decimal rendering\<close>

text \<open>\<open>xs[i]\<close>: a negative index counts from the end; outside the list it raises
  \<open>IndexError\<close>.\<close>

definition list_get :: "'a list \<Rightarrow> int \<Rightarrow> exn + 'a" where
  "list_get xs i =
     (if 0 \<le> i \<and> i < int (length xs) then Inr (xs ! nat i)
      else if i < 0 \<and> - int (length xs) \<le> i then Inr (xs ! nat (int (length xs) + i))
      else Inl IndexError)"

text \<open>
  \<open>for a in x\<close>: a list yields its elements, a dictionary its keys, a string its
  characters (one-character strings); nothing else is iterable.
\<close>

fun py_iter :: "py \<Rightarrow> exn + py list" where
  "py_iter (PList xs) = Inr xs"
| "py_iter (PDict d) = Inr (map (\<lambda>kv. PStr (fst kv)) d)"
| "py_iter (PStr s) = Inr (map (\<lambda>c. PStr [c]) s)"
| "py_iter PNone = Inl TypeError"
| "py_iter (PBool b) = Inl TypeError"
| "py_iter (PInt n) = Inl TypeError"
| "py_iter (PFloat lit) = Inl TypeError"

text \<open>\<open>str(n)\<close> for \<open>n \<ge> 0\<close>, and the value of a digit string read back.\<close>

definition digit_char :: "nat \<Rightarrow> char" where
  "digit_char d = char_of (48 + d)"

fun str_of_nat :: "nat \<Rightarrow> string" where
  "str_of_nat n =
     (if n < 10 then [digit_char n] else str_of_nat (n div 10) @ [digit_char (n mod 10)])"

declare str_of_nat.simps [simp del]

definition nat_of_digits :: "string \<Rightarrow> nat" where
  "nat_of_digits s = foldl (\<lambda>acc c. 10 * acc + (of_char c - 48)) 0 s"

section \<open>The MCP server\<close>

subsection \<open>Intent parser\<close>

definition parse_prompt :: "string \<Rightarrow> string" where
  \<open>parse_prompt user_input = join_lines
    [''Parse this user command into a structured intent:'',
     '''',
     ''Command: "'' @ user_input @ ''"'',
     '''',
     ''Return JSON with:'',
     ''- intent: what action (send_message, open_app, search, etc)'',
     ''- target_app: which app if applicable'',
     ''- entities: extracted data (contact names, messages, search terms, etc)'',
     '''',
     ''Example:'',
     ''{"intent": "send_message", "target_app": "WhatsApp", "entities": {"contact": "Mom", "message": "I'm late"}}'',
     '''',
     ''Return ONLY valid JSON.'']\<close>

text \<open>
  \<open>IntentParser.parse_user_input\<close>. The response is handed to \<open>json.loads\<close> as it
  is; a \<open>JSONDecodeError\<close> becomes a \<open>ValueError\<close>, anything else propagates
  (\<open>.get\<close> on a decoded value that is no dictionary is an \<open>AttributeError\<close>).
  \<open>new_id\<close> is the identity of the \<open>UserIntent\<close> object the call creates.
\<close>

definition parse_user_input ::
  "runtime \<Rightarrow> llm \<Rightarrow> nat \<Rightarrow> string \<Rightarrow> (exn + UserIntent) \<times> string list" where
  "parse_user_input rt complete new_id user_input =
     (let prompt = parse_prompt user_input in
      case complete prompt of
        Inl e \<Rightarrow> (Inl e, [prompt])
      | Inr response \<Rightarrow>
          (case loads rt response of
             Inl JSONDecodeError \<Rightarrow>
               (Inl (ValueError (''Invalid intent format: '' @ response)), [prompt])
           | Inl e \<Rightarrow> (Inl e, [prompt])
           | Inr (PDict intent_data) \<Rightarrow>
               (Inr \<lparr>obj_id = new_id,
                     intent = dict_get intent_data ''intent'',
                     target_app = dict_get intent_data ''target_app'',
                     entities = dict_get intent_data ''entities''\<rparr>, [prompt])
           | Inr _ \<Rightarrow> (Inl AttributeError, [prompt])))"

subsection \<open>Task planner\<close>

text \<open>\<open>asdict(intent)\<close>: the three dataclass fields, in declaration order.\<close>

definition asdict :: "UserIntent \<Rightarrow> py" where
  "asdict i = PDict [(''intent'', intent i), (''target_app'', target_app i),
                     (''entities'', entities i)]"

definition plan_prompt :: "runtime \<Rightarrow> UserIntent \<Rightarrow> pydict \<Rightarrow> string" where
  \<open>plan_prompt rt i current_screen_state = join_lines
    [''Given the user intent and current screen state, create a sequence of UI actions.'',
     '''',
     ''User Intent:'',
     dumps_indent2 rt (asdict i),
     '''',
     ''Current Screen:'',
     ''- App: '' @ str_of rt (dict_get current_screen_state ''current_app''),
     ''- Visible text: '' @ str_of rt (dict_get current_screen_state ''visible_texts''),
     ''- Focused element: '' @ str_of rt (dict_get current_screen_state ''focused_element''),
     '''',
     ''Available actions:'',
     ''- click: click on element by text'',
     ''- setText: set text in input field'',
     ''- scroll: scroll screen (up/down)'',
     ''- open_app: launch application by package'',
     ''- find_text: verify text exists'',
     ''- back: go back'',
     ''- home: go to home'',
     '''',
     ''Return JSON array of actions:'',
     ''['',
     ''  {"action": "open_app", "value": "com.whatsapp"},'',
     ''  {"action": "find_text", "target": "Mom"},'',
     ''  {"action": "click", "target": "Mom"},'',
     ''  {"action": "setText", "value": "I'm late"}'',
     '']'',
     '''',
     ''Requirements:'',
     ''- Be specific with text targets'',
     ''- Use scroll if element not found'',
     ''- Verify each major step'',
     ''- Maximum 20 actions per task'']\<close>

text \<open>
  One element of the decoded array becomes a \<open>UIAction\<close>: \<open>a["action"]\<close> raises
  \<open>KeyError\<close> on a dictionary without that key and \<open>TypeError\<close> on anything that
  is no dictionary; the other fields are read with \<open>.get\<close>. No field is checked
  against any vocabulary.
\<close>

fun UIAction_of :: "py \<Rightarrow> exn + UIAction" where
  "UIAction_of (PDict a) =
     (case map_of a ''action'' of
        None \<Rightarrow> Inl KeyError
      | Some act \<Rightarrow>
          Inr \<lparr>action = act, target = dict_get a ''target'', value' = dict_get a ''value'',
               className = dict_get a ''className'', index = dict_get a ''index''\<rparr>)"
| "UIAction_of a = Inl TypeError"

text \<open>The list comprehension: elements in order, stopping at the first exception.\<close>

fun build_actions :: "py list \<Rightarrow> exn + UIAction list" where
  "build_actions [] = Inr []"
| "build_actions (a # as) =
     (case UIAction_of a of
        Inl e \<Rightarrow> Inl e
      | Inr x \<Rightarrow> (case build_actions as of Inl e \<Rightarrow> Inl e | Inr xs \<Rightarrow> Inr (x # xs)))"

text \<open>The body of the \<open>try\<close> block of \<open>plan_task\<close>.\<close>

definition decode_plan :: "runtime \<Rightarrow> UserIntent \<Rightarrow> string \<Rightarrow> exn + TaskPlan" where
  "decode_plan rt i response =
     (case loads rt response of
        Inl e \<Rightarrow> Inl e
      | Inr actions_data \<Rightarrow>
          (case py_iter actions_data of
             Inl e \<Rightarrow> Inl e
           | Inr elems \<Rightarrow>
               (case build_actions elems of
                  Inl e \<Rightarrow> Inl e
                | Inr acts \<Rightarrow>
                    Inr \<lparr>task_id = ''task_'' @ str_of_nat (obj_id i),
                         original_intent = i, actions = acts\<rparr>)))"

text \<open>
  \<open>TaskPlanner.plan_task\<close>: \<open>JSONDecodeError\<close> and \<open>KeyError\<close> become a
  \<open>ValueError\<close>; every other exception propagates.
\<close>

definition plan_task ::
  "runtime \<Rightarrow> llm \<Rightarrow> UserIntent \<Rightarrow> pydict \<Rightarrow> (exn + TaskPlan) \<times> string list" where
  "plan_task rt complete i current_screen_state =
     (let prompt = plan_prompt rt i current_screen_state in
      case complete prompt of
        Inl e \<Rightarrow> (Inl e, [prompt])
      | Inr response \<Rightarrow>
          (case decode_plan rt i response of
             Inl JSONDecodeError \<Rightarrow>
               (Inl (ValueError (''Invalid task plan format: '' @ response)), [prompt])
           | Inl KeyError \<Rightarrow>
               (Inl (ValueError (''Invalid task plan format: '' @ response)), [prompt])
           | Inl e \<Rightarrow> (Inl e, [prompt])
           | Inr plan \<Rightarrow> (Inr plan, [prompt])))"

subsection \<open>Verification loop and orchestrator\<close>

definition replan_prompt :: "runtime \<Rightarrow> TaskPlan \<Rightarrow> UIAction \<Rightarrow> string \<Rightarrow> pydict \<Rightarrow> string" where
  \<open>replan_prompt rt original_plan failed_action failure_reason current_screen_state = join_lines
    [''The action failed. Create an alternative plan.'',
     '''',
     ''Failed action: '' @ str_of rt (action failed_action)
        @ '' ('' @ str_of rt (py_or (target failed_action) (value' failed_action)) @ '')'',
     ''Reason: '' @ failure_reason,
     '''',
     ''Current Screen:'',
     ''- App: '' @ str_of rt (dict_get current_screen_state ''current_app''),
     ''- Visible: '' @ str_of rt (dict_get current_screen_state ''visible_texts''),
     '''',
     ''Original goal: '' @ str_of rt (intent (original_intent original_plan)),
     '''',
     ''Alternative approach to achieve the goal:'',
     ''- Try scrolling first?'',
     ''- Navigate differently?'',
     ''- Use different UI path?'',
     '''',
     ''Return new action sequence.'']\<close>

text \<open>
  \<open>VerificationLoop.replan_after_failure\<close>. The failed action is read from the plan
  (an \<open>IndexError\<close> leaves the function), the replanning prompt is built and bound to
  a local variable, and the planner is called with the original intent and the current
  screen; every exception of the planner is caught and gives \<open>None\<close>.
\<close>

definition replan_after_failure ::
  "runtime \<Rightarrow> llm \<Rightarrow> TaskPlan \<Rightarrow> int \<Rightarrow> string \<Rightarrow> pydict
     \<Rightarrow> (exn + TaskPlan option) \<times> string list" where
  "replan_after_failure rt complete original_plan failed_action_index failure_reason
       current_screen_state =
     (case list_get (actions original_plan) failed_action_index of
        Inl e \<Rightarrow> (Inl e, [])
      | Inr failed_action \<Rightarrow>
          (let the_replan_prompt = replan_prompt rt original_plan failed_action failure_reason
                 current_screen_state
           in case plan_task rt complete (original_intent original_plan) current_screen_state of
                (Inr new_plan, calls) \<Rightarrow> (Inr (Some new_plan), calls)
              | (Inl e, calls) \<Rightarrow> (Inr None, calls)))"

text \<open>\<open>AndroidVisionMCP.process_user_command\<close>: intent, then plan.\<close>

definition process_user_command ::
  "runtime \<Rightarrow> llm \<Rightarrow> nat \<Rightarrow> string \<Rightarrow> pydict \<Rightarrow> (exn + TaskPlan) \<times> string list" where
  "process_user_command rt complete new_id user_input current_screen_state =
     (case parse_user_input rt complete new_id user_input of
        (Inl e, calls) \<Rightarrow> (Inl e, calls)
      | (Inr i, calls) \<Rightarrow>
          (case plan_task rt complete i current_screen_state of
             (r, calls') \<Rightarrow> (r, calls @ calls')))"

text \<open>
  \<open>AndroidVisionMCP.handle_action_result\<close>: the action is read from the plan first,
  then the status decides. \<open>SUCCESS\<close> returns the plan, \<open>ELEMENT_NOT_FOUND\<close>
  replans with the fixed reason, every other status returns \<open>None\<close>.
\<close>

definition handle_action_result ::
  "runtime \<Rightarrow> llm \<Rightarrow> TaskPlan \<Rightarrow> int \<Rightarrow> pydict \<Rightarrow> pydict
     \<Rightarrow> (exn + TaskPlan option) \<times> string list" where
  "handle_action_result rt complete task_plan action_index action_result current_screen_state =
     (case list_get (actions task_plan) action_index of
        Inl e \<Rightarrow> (Inl e, [])
      | Inr act \<Rightarrow>
          (let status = dict_get action_result ''status'' in
           if status = PStr ''SUCCESS'' then (Inr (Some task_plan), [])
           else if status = PStr ''ELEMENT_NOT_FOUND'' then
             replan_after_failure rt complete task_plan action_index ''Element not found''
               current_screen_state
           else (Inr None, [])))"

text \<open>
  The caller's loop around \<open>handle_action_result\<close>: each result, with its index and
  the screen seen after it, is handed over together with the plan in force, and a
  returned plan is the plan in force for the next result. The run ends when the handler
  raises or returns \<open>None\<close>. The prompts sent to the oracle are collected in order;
  the handler's only use of the oracle is the planner's call, so their number is the
  number of replans.
\<close>

fun feed_results ::
  "runtime \<Rightarrow> llm \<Rightarrow> TaskPlan \<Rightarrow> (int \<times> pydict \<times> pydict) list
     \<Rightarrow> (exn + TaskPlan option) \<times> string list" where
  "feed_results rt complete plan [] = (Inr (Some plan), [])"
| "feed_results rt complete plan ((action_index, action_result, screen) # later) =
     (case handle_action_result rt complete plan action_index action_result screen of
        (Inr (Some plan'), calls) \<Rightarrow>
          (case feed_results rt complete plan' later of (r, calls') \<Rightarrow> (r, calls @ calls'))
      | (r, calls) \<Rightarrow> (r, calls))"

section \<open>The REST backend\<close>

subsection \<open>The oracle client\<close>

text \<open>
  The decoding step shared by the client's operations: the text from the first
  \<open>open_c\<close> to the last \<open>close_c\<close> is handed to \<open>json.loads\<close>. \<open>guarded\<close> tells
  whether the end of the slice must lie behind its start (the asynchronous operations)
  or not (the synchronous ones, which then decode the empty string). \<open>None\<close> means
  that the code leaves the \<open>try\<close> block without returning: no opening character, or
  a \<open>JSONDecodeError\<close>, which is swallowed; any other exception propagates.
\<close>

definition decode_between ::
  "runtime \<Rightarrow> bool \<Rightarrow> char \<Rightarrow> char \<Rightarrow> string \<Rightarrow> exn + py option" where
  "decode_between rt guarded open_c close_c response =
     (let json_start = str_find open_c response;
          json_end = str_rfind close_c response + 1
      in if 0 \<le> json_start \<and> (if guarded then json_start < json_end else True) then
           (case loads rt (str_slice response json_start json_end) of
              Inr v \<Rightarrow> Inr (Some v)
            | Inl JSONDecodeError \<Rightarrow> Inr None
            | Inl e \<Rightarrow> Inl e)
         else Inr None)"

definition extract_prompt :: "string \<Rightarrow> string" where
  \<open>extract_prompt user_input = join_lines
    [''You are an Android automation agent. Parse this user command into a structured intent.'',
     '''',
     ''User command: "'' @ user_input @ ''"'',
     '''',
     ''Respond with ONLY valid JSON in this format:'',
     ''{'',
     ''  "intent": "one of: send_message, open_app, search, find_file, play_media, enable_feature, disable_feature, navigate_to, read_notification, make_call",'',
     ''  "target_app": "app name if applicable, or null",'',
     ''  "confidence": 0.0-1.0,'',
     ''  "entities": {'',
     ''    "recipient": "contact name if applicable",'',
     ''    "message": "message text if applicable",'',
     ''    "search_query": "search term if applicable",'',
     ''    "app_name": "target app if applicable"'',
     ''  }'',
     ''}'']\<close>

text \<open>The value \<open>extract_intent\<close> returns when nothing could be decoded.\<close>

definition fallback_intent :: py where
  "fallback_intent = PDict [(''intent'', PStr ''unknown''), (''target_app'', PNone),
                            (''confidence'', PFloat ''0.0''), (''entities'', PDict [])]"

text \<open>\<open>ClaudeLLMClient.extract_intent\<close>.\<close>

definition extract_intent ::
  "runtime \<Rightarrow> api \<Rightarrow> string \<Rightarrow> (exn + py) \<times> (string \<times> nat) list" where
  \<open>extract_intent rt complete user_input =
     (let prompt = extract_prompt user_input in
      case complete prompt 512 of
        Inl e \<Rightarrow> (Inl e, [(prompt, 512)])
      | Inr response \<Rightarrow>
          (case decode_between rt True CHR ''{'' CHR ''}'' response of
             Inl e \<Rightarrow> (Inl e, [(prompt, 512)])
           | Inr (Some v) \<Rightarrow> (Inr v, [(prompt, 512)])
           | Inr None \<Rightarrow> (Inr fallback_intent, [(prompt, 512)])))\<close>

definition actions_prompt :: "runtime \<Rightarrow> pydict \<Rightarrow> pydict \<Rightarrow> string" where
  \<open>actions_prompt rt i screen_state = join_lines
    [''You are planning a sequence of UI automation actions to achieve a goal.'',
     '''',
     ''User's intent:'',
     ''- Action: '' @ str_of rt (dict_get i ''intent''),
     ''- Target app: '' @ str_of rt (dict_get_default i ''target_app'' (PStr ''N/A'')),
     ''- Details: '' @ dumps rt (dict_get_default i ''entities'' (PDict [])),
     '''',
     ''Current screen state:'',
     ''- Active app: '' @ str_of rt (dict_get_default screen_state ''current_app'' (PStr ''unknown'')),
     ''- Visible elements: '' @ str_of rt (dict_get_default screen_state ''visible_texts'' (PList [])),
     ''- Focused element: '' @ str_of rt (dict_get_default screen_state ''focused_element'' (PStr ''N/A'')),
     '''',
     ''Available actions:'',
     ''- open_app: Launch an application (value: package name)'',
     ''- click: Click an element (target: text or description)'',
     ''- setText: Type text into a field (value: text to type)'',
     ''- scroll: Scroll the screen (value: "up" or "down")'',
     ''- find_text: Check if text is visible (target: text to find)'',
     ''- wait: Pause briefly (value: milliseconds)'',
     ''- back: Go back (Android back button)'',
     ''- home: Go to home screen'',
     '''',
     ''Create a minimal action sequence to achieve the intent. Be specific with element names.'',
     ''Respond with ONLY a JSON array, no explanation:'',
     '''',
     ''['',
     ''  {"action": "action_name", "target": "element text or null", "value": "value or null"},'',
     ''  ...'',
     '']'']\<close>

text \<open>\<open>ClaudeLLMClient.plan_actions\<close>: the decoded value is returned as it is, an
  empty list when nothing could be decoded.\<close>

definition plan_actions ::
  "runtime \<Rightarrow> api \<Rightarrow> pydict \<Rightarrow> pydict \<Rightarrow> (exn + py) \<times> (string \<times> nat) list" where
  \<open>plan_actions rt complete i screen_state =
     (let prompt = actions_prompt rt i screen_state in
      case complete prompt 1024 of
        Inl e \<Rightarrow> (Inl e, [(prompt, 1024)])
      | Inr response \<Rightarrow>
          (case decode_between rt True CHR ''['' CHR '']'' response of
             Inl e \<Rightarrow> (Inl e, [(prompt, 1024)])
           | Inr (Some v) \<Rightarrow> (Inr v, [(prompt, 1024)])
           | Inr None \<Rightarrow> (Inr (PList []), [(prompt, 1024)])))\<close>

definition failure_prompt :: "runtime \<Rightarrow> pydict \<Rightarrow> pydict \<Rightarrow> string \<Rightarrow> pydict \<Rightarrow> string" where
  \<open>failure_prompt rt original_intent' failed_action failure_reason current_screen_state = join_lines
    [''An action failed during automation. Create an alternative plan.'',
     '''',
     ''Original intent: '' @ str_of rt (dict_get original_intent' ''intent''),
     ''Failed action: '' @ str_of rt (dict_get failed_action ''action'') @ '' ''
        @ str_of rt (py_or (dict_get failed_action ''target'') (dict_get failed_action ''value'')),
     ''Reason: '' @ failure_reason,
     '''',
     ''Current screen:'',
     ''- App: '' @ str_of rt (dict_get current_screen_state ''current_app''),
     ''- Visible: '' @ str_of rt (dict_get_default current_screen_state ''visible_texts'' (PList [])),
     '''',
     ''Alternative approach? Return JSON action array:'',
     ''[{"action": "...", "target": "...", "value": "..."}, ...]'']\<close>

text \<open>\<open>ClaudeLLMClient.replan_for_failure\<close>: the prompt with the failed action and
  the reason is the one sent to the oracle.\<close>

definition replan_for_failure ::
  "runtime \<Rightarrow> api \<Rightarrow> pydict \<Rightarrow> pydict \<Rightarrow> string \<Rightarrow> pydict
     \<Rightarrow> (exn + py) \<times> (string \<times> nat) list" where
  \<open>replan_for_failure rt complete original_intent' failed_action failure_reason
       current_screen_state =
     (let prompt = failure_prompt rt original_intent' failed_action failure_reason
                     current_screen_state in
      case complete prompt 1024 of
        Inl e \<Rightarrow> (Inl e, [(prompt, 1024)])
      | Inr response \<Rightarrow>
          (case decode_between rt True CHR ''['' CHR '']'' response of
             Inl e \<Rightarrow> (Inl e, [(prompt, 1024)])
           | Inr (Some v) \<Rightarrow> (Inr v, [(prompt, 1024)])
           | Inr None \<Rightarrow> (Inr (PList []), [(prompt, 1024)])))\<close>

subsection \<open>The synchronous client\<close>

definition extract_sync_prompt :: "string \<Rightarrow> string" where
  \<open>extract_sync_prompt user_input = join_lines
    [''Parse this Android automation command:'',
     ''"'' @ user_input @ ''"'',
     '''',
     ''JSON format:'',
     ''{"intent": "...", "target_app": "...", "entities": {...}}'']\<close>

text \<open>The value \<open>extract_intent_sync\<close> returns when nothing could be decoded; it has
  no \<open>confidence\<close> entry.\<close>

definition fallback_intent_sync :: py where
  "fallback_intent_sync = PDict [(''intent'', PStr ''unknown''), (''target_app'', PNone),
                                 (''entities'', PDict [])]"

text \<open>\<open>SyncClaudeLLMClient.extract_intent_sync\<close>.\<close>

definition extract_intent_sync ::
  "runtime \<Rightarrow> api \<Rightarrow> string \<Rightarrow> (exn + py) \<times> (string \<times> nat) list" where
  \<open>extract_intent_sync rt complete_sync user_input =
     (let prompt = extract_sync_prompt user_input in
      case complete_sync prompt 512 of
        Inl e \<Rightarrow> (Inl e, [(prompt, 512)])
      | Inr response \<Rightarrow>
          (case decode_between rt False CHR ''{'' CHR ''}'' response of
             Inl e \<Rightarrow> (Inl e, [(prompt, 512)])
           | Inr (Some v) \<Rightarrow> (Inr v, [(prompt, 512)])
           | Inr None \<Rightarrow> (Inr fallback_intent_sync, [(prompt, 512)])))\<close>

definition actions_sync_prompt :: "runtime \<Rightarrow> pydict \<Rightarrow> pydict \<Rightarrow> string" where
  \<open>actions_sync_prompt rt i screen_state = join_lines
    [''Plan UI actions for: '' @ str_of rt (dict_get i ''intent''),
     ''Current app: '' @ str_of rt (dict_get screen_state ''current_app''),
     ''Visible: '' @ str_of rt (dict_get_default screen_state ''visible_texts'' (PList [])),
     '''',
     ''JSON array only.'']\<close>

text \<open>\<open>SyncClaudeLLMClient.plan_actions_sync\<close>.\<close>

definition plan_actions_sync ::
  "runtime \<Rightarrow> api \<Rightarrow> pydict \<Rightarrow> pydict \<Rightarrow> (exn + py) \<times> (string \<times> nat) list" where
  \<open>plan_actions_sync rt complete_sync i screen_state =
     (let prompt = actions_sync_prompt rt i screen_state in
      case complete_sync prompt 1024 of
        Inl e \<Rightarrow> (Inl e, [(prompt, 1024)])
      | Inr response \<Rightarrow>
          (case decode_between rt False CHR ''['' CHR '']'' response of
             Inl e \<Rightarrow> (Inl e, [(prompt, 1024)])
           | Inr (Some v) \<Rightarrow> (Inr v, [(prompt, 1024)])
           | Inr None \<Rightarrow> (Inr (PList []), [(prompt, 1024)])))\<close>

subsection \<open>The planning route\<close>

text \<open>
  \<open>POST /api/plan\<close>. The task store is the module's dictionary \<open>tasks\<close>; a reply is
  the JSON body with status 200, the error text with status 400, or status 500 for any
  exception. The two readings of the clock are inputs: the text of
  \<open>datetime.now().timestamp()\<close>, from which the task identifier is made, and that of
  \<open>datetime.now().isoformat()\<close>.
\<close>

datatype reply = Ok py | BadRequest string | ServerError exn

definition plan_task_route ::
  "runtime \<Rightarrow> api \<Rightarrow> (string \<rightharpoonup> py) \<Rightarrow> string \<Rightarrow> string \<Rightarrow> py
     \<Rightarrow> (string \<rightharpoonup> py) \<times> reply" where
  "plan_task_route rt complete_sync tasks now_timestamp now_isoformat request_json =
     (case request_json of
        PDict data \<Rightarrow>
          (let i = dict_get data ''intent''; screen_state = dict_get data ''screen_state'' in
           if \<not> truthy i \<or> \<not> truthy screen_state then
             (tasks, BadRequest ''Missing intent or screen_state'')
           else
             (case (i, screen_state) of
                (PDict intent_d, PDict screen_d) \<Rightarrow>
                  (case fst (plan_actions_sync rt complete_sync intent_d screen_d) of
                     Inl e \<Rightarrow> (tasks, ServerError e)
                   | Inr acts \<Rightarrow>
                       (let the_task_id = ''task_'' @ now_timestamp in
                        (tasks(the_task_id \<mapsto>
                           PDict [(''intent'', i), (''actions'', acts),
                                  (''screen_state'', screen_state),
                                  (''created_at'', PStr now_isoformat)]),
                         Ok (PDict [(''task_id'', PStr the_task_id), (''actions'', acts)]))))
              | _ \<Rightarrow> (tasks, ServerError AttributeError)))
      | _ \<Rightarrow> (tasks, ServerError AttributeError))"

section \<open>The scenario of the examples\<close>

text \<open>
  The running example of the repository: the message to Mom, the plan that opens the
  messenger and clicks the contact, the screen without the contact after the click, and
  the executor's results. The intent object has identity 7.
\<close>

definition scenario_intent :: UserIntent where
  \<open>scenario_intent = \<lparr>obj_id = 7, intent = PStr ''send_message'',
     target_app = PStr ''com.whatsapp'',
     entities = PDict [(''contact'', PStr ''Mom''), (''message'', PStr ''I'll be late'')]\<rparr>\<close>

definition scenario_plan_text :: string where
  \<open>scenario_plan_text =
     ''[{"action": "open_app", "value": "com.whatsapp"}, {"action": "click", "target": "Mom"}]''\<close>

definition scenario_plan :: TaskPlan where
  "scenario_plan = \<lparr>task_id = ''task_7'', original_intent = scenario_intent,
     actions = [\<lparr>action = PStr ''open_app'', target = PNone, value' = PStr ''com.whatsapp'',
                  className = PNone, index = PNone\<rparr>,
                \<lparr>action = PStr ''click'', target = PStr ''Mom'', value' = PNone,
                  className = PNone, index = PNone\<rparr>]\<rparr>"

definition scenario_screen :: pydict where
  "scenario_screen = [(''visible_texts'', PList [PStr ''Chats'', PStr ''Status'', PStr ''Calls''])]"

definition element_not_found :: pydict where
  "element_not_found = [(''status'', PStr ''ELEMENT_NOT_FOUND'')]"

definition failed :: pydict where
  "failed = [(''status'', PStr ''FAILED'')]"

text \<open>Results with other statuses, and one without a status.\<close>

definition succeeded :: pydict where
  "succeeded = [(''status'', PStr ''SUCCESS'')]"

definition timed_out :: pydict where
  "timed_out = [(''status'', PStr ''TIMEOUT'')]"

definition no_status :: pydict where
  "no_status = [(''duration_ms'', PInt 120)]"

text \<open>Two answers of the verifier's oracle: \<open>yes\<close> written with the long s
  \<open>U+017F\<close>, and with the sharp s \<open>U+00DF\<close>.\<close>

definition yes_with_long_s :: string where
  "yes_with_long_s = ''ye'' @ utf8 0x17F"

definition yes_with_sharp_s :: string where
  "yes_with_sharp_s = ''ye'' @ utf8 0xDF"

text \<open>The action kinds the planner's prompt offers to the oracle.\<close>

definition action_vocabulary :: "py list" where
  "action_vocabulary = map PStr [''open_app'', ''click'', ''setText'', ''scroll'', ''find_text'',
                                 ''wait'', ''back'', ''home'']"

text \<open>\<open>a.get("action")\<close> of an element of the decoded array.\<close>

definition kind_of :: "py \<Rightarrow> py" where
  "kind_of a = (case a of PDict d \<Rightarrow> dict_get d ''action'' | _ \<Rightarrow> PNone)"

text \<open>An oracle that proposes the same two steps again whenever it is asked.\<close>

definition retry_plan_text :: string where
  \<open>retry_plan_text =
     ''[{"action": "scroll", "value": "down"}, {"action": "click", "target": "Mom"}]''\<close>

definition retry_plan :: TaskPlan where
  "retry_plan = \<lparr>task_id = ''task_7'', original_intent = scenario_intent,
     actions = [\<lparr>action = PStr ''scroll'', target = PNone, value' = PStr ''down'',
                  className = PNone, index = PNone\<rparr>,
                \<lparr>action = PStr ''click'', target = PStr ''Mom'', value' = PNone,
                  className = PNone, index = PNone\<rparr>]\<rparr>"

text \<open>Four results in a row that report the clicked contact as not found.\<close>

definition four_failures :: "(int \<times> pydict \<times> pydict) list" where
  "four_failures = [(1, element_not_found, scenario_screen), (1, element_not_found, scenario_screen),
                    (1, element_not_found, scenario_screen), (1, element_not_found, scenario_screen)]"

text \<open>A second intent object with the same fields, the launcher screen, and the body of
  a request to the planning route.\<close>

definition second_intent :: UserIntent where
  "second_intent = scenario_intent\<lparr>obj_id := 8\<rparr>"

definition launcher_screen :: pydict where
  "launcher_screen = [(''current_app'', PStr ''com.android.launcher''),
     (''visible_texts'', PList [PStr ''WhatsApp'', PStr ''Messaging'', PStr ''Settings'',
                                PStr ''Camera'']),
     (''focused_element'', PNone)]"

definition scenario_request :: py where
  "scenario_request = PDict [(''intent'', asdict scenario_intent),
                             (''screen_state'', PDict launcher_screen)]"

text \<open>A second request to the planning route, for another intent.\<close>

definition second_request :: py where
  "second_request = PDict [(''intent'', PDict [(''intent'', PStr ''open_app''),
                                                (''target_app'', PStr ''Settings'')]),
                           (''screen_state'', PDict launcher_screen)]"

text \<open>
  Oracle answers used below: a refusal without any JSON, an intent object on its own,
  the same object after prose that has braces of its own, the same object inside prose
  without braces, a plan with an action kind outside the vocabulary, and a plan of
  twenty-one actions.
\<close>

definition refusal_text :: string where
  "refusal_text = ''I cannot help with that.''"

definition open_app_object :: string where
  \<open>open_app_object = ''{"intent": "open_app"}''\<close>

definition prose_with_braces :: string where
  "prose_with_braces = ''Sure {as asked}: '' @ open_app_object"

definition wrapped_object :: string where
  "wrapped_object = ''Here is the intent: '' @ open_app_object @ '' Anything else?''"

definition fly_text :: string where
  \<open>fly_text = ''[{"action": "fly"}]''\<close>

definition twenty_one_text :: string where
  \<open>twenty_one_text = ''['' @ concat (replicate 20 ''{"action":"back"},'') @ ''{"action":"back"}]''\<close>

definition twenty_one_plan :: TaskPlan where
  "twenty_one_plan = \<lparr>task_id = ''task_7'', original_intent = scenario_intent,
     actions = replicate 21 \<lparr>action = PStr ''back'', target = PNone, value' = PNone,
                               className = PNone, index = PNone\<rparr>\<rparr>"

section \<open>A concrete runtime\<close>

text \<open>
  The library functions as CPython provides them, for evaluating the program on concrete
  inputs: \<open>json.loads\<close>, \<open>json.dumps\<close> and \<open>str\<close> on ASCII text. A float
  is rendered as its literal. Every failure of the decoder is a \<open>JSONDecodeError\<close>.
\<close>

subsection \<open>\<open>json.loads\<close>\<close>

definition is_ws :: "char \<Rightarrow> bool" where
  "is_ws c = (c = CHR '' '' \<or> c = CHR 0x09 \<or> c = CHR 0x0A \<or> c = CHR 0x0D)"

definition is_digit :: "char \<Rightarrow> bool" where
  "is_digit c = (c \<in> set ''0123456789'')"

text \<open>A control character has a code below \<open>0x20\<close>: its three high bits are clear.\<close>

fun is_control :: "char \<Rightarrow> bool" where
  "is_control (Char b0 b1 b2 b3 b4 b5 b6 b7) = (\<not> b5 \<and> \<not> b6 \<and> \<not> b7)"

definition hex_digit :: "char \<Rightarrow> nat option" where
  "hex_digit c =
     (let n = (of_char c :: nat) in
      if 48 \<le> n \<and> n \<le> 57 then Some (n - 48)
      else if 97 \<le> n \<and> n \<le> 102 then Some (n - 87)
      else if 65 \<le> n \<and> n \<le> 70 then Some (n - 55)
      else None)"

fun hex4 :: "string \<Rightarrow> nat option" where
  "hex4 (a # b # c # d # rest) =
     (case (hex_digit a, hex_digit b, hex_digit c, hex_digit d) of
        (Some x, Some y, Some z, Some w) \<Rightarrow> Some (((x * 16 + y) * 16 + z) * 16 + w)
      | _ \<Rightarrow> None)"
| "hex4 s = None"

definition unescape :: "char \<Rightarrow> char option" where
  \<open>unescape e =
     (if e = CHR ''"'' \<or> e = CHR 0x5C \<or> e = CHR ''/'' then Some e
      else if e = CHR ''b'' then Some (CHR 0x08)
      else if e = CHR ''f'' then Some (CHR 0x0C)
      else if e = CHR ''n'' then Some (CHR 0x0A)
      else if e = CHR ''r'' then Some (CHR 0x0D)
      else if e = CHR ''t'' then Some (CHR 0x09)
      else None)\<close>

function scan_string :: "string \<Rightarrow> (string \<times> string) option" where
  "scan_string [] = None"
| \<open>scan_string (c # cs) =
     (if c = CHR ''"'' then Some ([], cs)
      else if c = CHR 0x5C then
        (case cs of
           [] \<Rightarrow> None
         | e # es \<Rightarrow>
             if e = CHR ''u'' then
               (case hex4 es of
                  None \<Rightarrow> None
                | Some hi \<Rightarrow>
                    if 0xD800 \<le> hi \<and> hi \<le> 0xDBFF \<and> starts_with [CHR 0x5C, CHR ''u''] (drop 4 es) then
                      (case hex4 (drop 6 es) of
                         None \<Rightarrow> None
                       | Some lo \<Rightarrow>
                           if 0xDC00 \<le> lo \<and> lo \<le> 0xDFFF then
                             map_option (\<lambda>(s, rest). (utf8 (0x10000 + (hi - 0xD800) * 0x400 + (lo - 0xDC00)) @ s, rest))
                               (scan_string (drop 10 es))
                           else map_option (\<lambda>(s, rest). (utf8 hi @ s, rest)) (scan_string (drop 4 es)))
                    else map_option (\<lambda>(s, rest). (utf8 hi @ s, rest)) (scan_string (drop 4 es)))
             else
               (case unescape e of
                  None \<Rightarrow> None
                | Some ch \<Rightarrow> map_option (\<lambda>(s, rest). (ch # s, rest)) (scan_string es)))
      else if is_control c then None
      else map_option (\<lambda>(s, rest). (c # s, rest)) (scan_string cs))\<close>
  by pat_completeness auto
termination
  by (relation "measure length") auto


lemma scan_string_shorter: "scan_string s = Some (x, r) \<Longrightarrow> length r < length s"
proof (induction "length s" arbitrary: s x r rule: less_induct)
  case less
  have H: "\<And>s' x' r'. scan_string s' = Some (x', r') \<Longrightarrow> length s' < length s
            \<Longrightarrow> length r' < length s'"
    using less.hyps by blast
  show ?case
  proof (cases s)
    case Nil
    then show ?thesis using less.prems by simp
  next
    case (Cons c cs)
    show ?thesis
      using less.prems unfolding Cons
      by (auto simp: Cons split: if_splits list.splits option.splits dest!: H)
  qed
qed

definition lex_sign :: "string \<Rightarrow> string" where
  "lex_sign s = (if starts_with ''-'' s then ''-'' else [])"

definition lex_digits :: "string \<Rightarrow> string" where
  "lex_digits s = (if starts_with ''0'' s then ''0'' else takeWhile is_digit s)"

definition lex_frac :: "string \<Rightarrow> string" where
  "lex_frac s =
     (let fd = takeWhile is_digit (drop 1 s)
      in if starts_with ''.'' s \<and> fd \<noteq> [] then CHR ''.'' # fd else [])"

definition lex_exp :: "string \<Rightarrow> string" where
  "lex_exp s =
     (let es = (if starts_with ''+'' (drop 1 s) then ''+''
                else if starts_with ''-'' (drop 1 s) then ''-'' else []);
          ed = takeWhile is_digit (drop (1 + length es) s)
      in if (starts_with ''e'' s \<or> starts_with ''E'' s) \<and> ed \<noteq> []
         then take 1 s @ es @ ed else [])"

definition lex_number :: "string \<Rightarrow> (py \<times> string) option" where
  "lex_number s =
     (let sign = lex_sign s;
          s1 = drop (length sign) s;
          ds = lex_digits s1;
          s2 = drop (length ds) s1;
          frac = lex_frac s2;
          s3 = drop (length frac) s2;
          ex = lex_exp s3;
          s4 = drop (length ex) s3
      in if ds = [] then None
         else if frac = [] \<and> ex = [] then
           Some (PInt (if sign = [] then int (nat_of_digits ds) else - int (nat_of_digits ds)), s4)
         else Some (PFloat (sign @ ds @ frac @ ex), s4))"

lemma lex_digits_nonempty: "lex_digits s \<noteq> [] \<Longrightarrow> s \<noteq> []"
  by (auto simp: lex_digits_def split: if_splits)

lemma lex_number_shorter:
  assumes "lex_number s = Some (v, r)"
  shows "length r < length s"
proof -
  let ?s1 = "drop (length (lex_sign s)) s"
  let ?ds = "lex_digits ?s1"
  have ds: "?ds \<noteq> []"
    using assms by (auto simp: lex_number_def Let_def split: if_splits)
  have "length r \<le> length ?s1 - length ?ds"
    using assms by (auto simp: lex_number_def Let_def split: if_splits)
  moreover have "0 < length ?s1" using lex_digits_nonempty [OF ds] by simp
  moreover have "0 < length ?ds" using ds by simp
  moreover have "length ?s1 \<le> length s" by simp
  ultimately show ?thesis by arith
qed

datatype token = TLBrace | TRBrace | TLBrack | TRBrack | TComma | TColon | TVal py

definition next_token :: "string \<Rightarrow> (token \<times> string) option" where
  \<open>next_token s =
     (if starts_with ''{'' s then Some (TLBrace, drop 1 s)
      else if starts_with ''}'' s then Some (TRBrace, drop 1 s)
      else if starts_with ''['' s then Some (TLBrack, drop 1 s)
      else if starts_with '']'' s then Some (TRBrack, drop 1 s)
      else if starts_with '','' s then Some (TComma, drop 1 s)
      else if starts_with '':'' s then Some (TColon, drop 1 s)
      else if starts_with ''"'' s then
        map_option (\<lambda>(str, rest). (TVal (PStr str), rest)) (scan_string (drop 1 s))
      else if starts_with ''null'' s then Some (TVal PNone, drop 4 s)
      else if starts_with ''true'' s then Some (TVal (PBool True), drop 4 s)
      else if starts_with ''false'' s then Some (TVal (PBool False), drop 5 s)
      else if starts_with ''NaN'' s then Some (TVal (PFloat ''NaN''), drop 3 s)
      else if starts_with ''Infinity'' s then Some (TVal (PFloat ''Infinity''), drop 8 s)
      else if starts_with ''-Infinity'' s then Some (TVal (PFloat ''-Infinity''), drop 9 s)
      else map_option (\<lambda>(v, rest). (TVal v, rest)) (lex_number s))\<close>

lemma next_token_shorter:
  assumes "next_token s = Some (t, r)"
  shows "length r < length s"
proof (cases s)
  case Nil
  then show ?thesis
    using assms by (auto simp: next_token_def lex_number_def lex_digits_def lex_sign_def)
next
  case (Cons c cs)
  have "length (drop n s) < length s" if "0 < n" for n
    using that Cons by simp
  moreover have "length r' < length s" if "scan_string (drop 1 s) = Some (x, r')" for x r'
    using scan_string_shorter [OF that] by simp
  ultimately show ?thesis
    using assms lex_number_shorter [of s]
    by (auto simp: next_token_def split: if_splits)
qed

function tokenize :: "string \<Rightarrow> token list option" where
  "tokenize [] = Some []"
| "tokenize (c # cs) =
     (if is_ws c then tokenize cs
      else case next_token (c # cs) of
             None \<Rightarrow> None
           | Some (t, rest) \<Rightarrow> map_option ((#) t) (tokenize rest))"
  by pat_completeness auto
termination
  by (relation "measure length") (auto dest: next_token_shorter)

fun dict_set :: "pydict \<Rightarrow> string \<Rightarrow> py \<Rightarrow> pydict" where
  "dict_set [] k v = [(k, v)]"
| "dict_set ((k', v') # d) k v = (if k' = k then (k, v) # d else (k', v') # dict_set d k v)"

datatype frame = InArray "py list" | InObject pydict | InMember pydict string | Done py

datatype expecting = Value | ValueOrClose | KeyOrClose | Key | Colon | CommaOrClose | Nothing

fun complete_value :: "py \<Rightarrow> frame list \<Rightarrow> (frame list \<times> expecting) option" where
  "complete_value v [] = Some ([Done v], Nothing)"
| "complete_value v (InArray xs # st) = Some (InArray (xs @ [v]) # st, CommaOrClose)"
| "complete_value v (InMember d k # st) = Some (InObject (dict_set d k v) # st, CommaOrClose)"
| "complete_value v (f # st) = None"

definition open_value :: "frame list \<Rightarrow> token \<Rightarrow> (frame list \<times> expecting) option" where
  "open_value st t =
     (case t of
        TVal v \<Rightarrow> complete_value v st
      | TLBrack \<Rightarrow> Some (InArray [] # st, ValueOrClose)
      | TLBrace \<Rightarrow> Some (InObject [] # st, KeyOrClose)
      | _ \<Rightarrow> None)"

definition close_array :: "frame list \<Rightarrow> (frame list \<times> expecting) option" where
  "close_array st = (case st of InArray xs # outer \<Rightarrow> complete_value (PList xs) outer | _ \<Rightarrow> None)"

definition close_object :: "frame list \<Rightarrow> (frame list \<times> expecting) option" where
  "close_object st = (case st of InObject d # outer \<Rightarrow> complete_value (PDict d) outer | _ \<Rightarrow> None)"

definition read_key :: "frame list \<Rightarrow> token \<Rightarrow> (frame list \<times> expecting) option" where
  "read_key st t =
     (case st of
        InObject d # outer \<Rightarrow>
          (case t of TVal (PStr k) \<Rightarrow> Some (InMember d k # outer, Colon) | _ \<Rightarrow> None)
      | _ \<Rightarrow> None)"

definition next_item :: "frame list \<Rightarrow> (frame list \<times> expecting) option" where
  "next_item st =
     (case st of
        InArray xs # outer \<Rightarrow> Some (st, Value)
      | InObject d # outer \<Rightarrow> Some (st, Key)
      | _ \<Rightarrow> None)"

definition parse_step :: "frame list \<times> expecting \<Rightarrow> token \<Rightarrow> (frame list \<times> expecting) option" where
  "parse_step state t =
     (case state of (st, e) \<Rightarrow>
        (case e of
           Value \<Rightarrow> open_value st t
         | ValueOrClose \<Rightarrow> (if t = TRBrack then close_array st else open_value st t)
         | KeyOrClose \<Rightarrow> (if t = TRBrace then close_object st else read_key st t)
         | Key \<Rightarrow> read_key st t
         | Colon \<Rightarrow> (if t = TColon then Some (st, Value) else None)
         | CommaOrClose \<Rightarrow>
             (if t = TComma then next_item st
              else if t = TRBrack then close_array st
              else if t = TRBrace then close_object st
              else None)
         | Nothing \<Rightarrow> None))"

fun parse_tokens :: "frame list \<times> expecting \<Rightarrow> token list \<Rightarrow> py option" where
  "parse_tokens ([Done v], Nothing) [] = Some v"
| "parse_tokens s [] = None"
| "parse_tokens s (t # ts) =
     (case parse_step s t of None \<Rightarrow> None | Some s' \<Rightarrow> parse_tokens s' ts)"

definition json_loads :: "string \<Rightarrow> exn + py" where
  "json_loads s =
     (case tokenize s of
        None \<Rightarrow> Inl JSONDecodeError
      | Some ts \<Rightarrow>
          (case parse_tokens ([], Value) ts of
             None \<Rightarrow> Inl JSONDecodeError
           | Some v \<Rightarrow> Inr v))"

subsection \<open>\<open>json.dumps\<close> and \<open>str\<close>\<close>

fun join_with :: "string \<Rightarrow> string list \<Rightarrow> string" where
  "join_with sep [] = []"
| "join_with sep [x] = x"
| "join_with sep (x # xs) = x @ sep @ join_with sep xs"

definition str_of_int :: "int \<Rightarrow> string" where
  "str_of_int i = (if i < 0 then CHR ''-'' # str_of_nat (nat (- i)) else str_of_nat (nat i))"

definition hex_char :: "nat \<Rightarrow> char" where
  "hex_char d = (if d < 10 then char_of (48 + d) else char_of (87 + d))"

definition json_escape :: "char \<Rightarrow> string" where
  \<open>json_escape c =
     (let n = (of_char c :: nat) in
      if c = CHR ''"'' then [CHR 0x5C, CHR ''"'']
      else if c = CHR 0x5C then [CHR 0x5C, CHR 0x5C]
      else if n = 0x0A then [CHR 0x5C, CHR ''n'']
      else if n = 0x0D then [CHR 0x5C, CHR ''r'']
      else if n = 0x09 then [CHR 0x5C, CHR ''t'']
      else if n = 0x08 then [CHR 0x5C, CHR ''b'']
      else if n = 0x0C then [CHR 0x5C, CHR ''f'']
      else if n < 0x20 \<or> 0x7F \<le> n then
        [CHR 0x5C, CHR ''u'', CHR ''0'', CHR ''0'', hex_char (n div 16), hex_char (n mod 16)]
      else [c])\<close>

definition json_string :: "string \<Rightarrow> string" where
  \<open>json_string s = CHR ''"'' # concat (map json_escape s) @ ''"''\<close>

fun json_dumps :: "py \<Rightarrow> string" where
  "json_dumps PNone = ''null''"
| "json_dumps (PBool b) = (if b then ''true'' else ''false'')"
| "json_dumps (PInt i) = str_of_int i"
| "json_dumps (PFloat lit) = lit"
| "json_dumps (PStr s) = json_string s"
| "json_dumps (PList xs) = ''['' @ join_with '', '' (map json_dumps xs) @ '']''"
| "json_dumps (PDict d) =
     ''{'' @ join_with '', '' (map (\<lambda>(k, v). json_string k @ '': '' @ json_dumps v) d) @ ''}''"

definition indent :: "nat \<Rightarrow> string" where
  "indent level = replicate (2 * level) CHR '' ''"

fun json_dumps_indent :: "nat \<Rightarrow> py \<Rightarrow> string" where
  "json_dumps_indent level (PList xs) =
     (if xs = [] then ''[]''
      else ''['' @ [CHR 0x0A]
        @ join_with ('','' @ [CHR 0x0A])
            (map (\<lambda>x. indent (level + 1) @ json_dumps_indent (level + 1) x) xs)
        @ [CHR 0x0A] @ indent level @ '']'')"
| "json_dumps_indent level (PDict d) =
     (if d = [] then ''{}''
      else ''{'' @ [CHR 0x0A]
        @ join_with ('','' @ [CHR 0x0A])
            (map (\<lambda>(k, v). indent (level + 1) @ json_string k @ '': ''
                              @ json_dumps_indent (level + 1) v) d)
        @ [CHR 0x0A] @ indent level @ ''}'')"
| "json_dumps_indent level v = json_dumps v"

definition repr_escape :: "char \<Rightarrow> char \<Rightarrow> string" where
  "repr_escape quote c =
     (let n = (of_char c :: nat) in
      if c = quote \<or> c = CHR 0x5C then [CHR 0x5C, c]
      else if n = 0x0A then [CHR 0x5C, CHR ''n'']
      else if n = 0x0D then [CHR 0x5C, CHR ''r'']
      else if n = 0x09 then [CHR 0x5C, CHR ''t'']
      else if n < 0x20 \<or> n = 0x7F then
        [CHR 0x5C, CHR ''x'', hex_char (n div 16), hex_char (n mod 16)]
      else [c])"

definition repr_string :: "string \<Rightarrow> string" where
  \<open>repr_string s =
     (let quote = (if CHR 0x27 \<in> set s \<and> CHR ''"'' \<notin> set s then CHR ''"'' else CHR 0x27)
      in quote # concat (map (repr_escape quote) s) @ [quote])\<close>

fun py_repr :: "py \<Rightarrow> string" where
  "py_repr PNone = ''None''"
| "py_repr (PBool b) = (if b then ''True'' else ''False'')"
| "py_repr (PInt i) = str_of_int i"
| "py_repr (PFloat lit) = lit"
| "py_repr (PStr s) = repr_string s"
| "py_repr (PList xs) = ''['' @ join_with '', '' (map py_repr xs) @ '']''"
| "py_repr (PDict d) =
     ''{'' @ join_with '', '' (map (\<lambda>(k, v). repr_string k @ '': '' @ py_repr v) d) @ ''}''"

fun py_str :: "py \<Rightarrow> string" where
  "py_str (PStr s) = s"
| "py_str v = py_repr v"

definition cpython :: runtime where
  "cpython = \<lparr>loads = json_loads, dumps = json_dumps, dumps_indent2 = json_dumps_indent 0,
              str_of = py_str\<rparr>"


section \<open>Properties of the string operations\<close>

subsection \<open>Containment\<close>

lemma starts_with_iff: "starts_with p s \<longleftrightarrow> (\<exists>post. s = p @ post)"
  by (induction p s rule: starts_with.induct) auto

lemma str_contains_iff: "str_contains sub s \<longleftrightarrow> (\<exists>pre post. s = pre @ sub @ post)"
proof (induction s)
  case Nil
  then show ?case by auto
next
  case (Cons c cs)
  show ?case
  proof
    assume "str_contains sub (c # cs)"
    then consider "starts_with sub (c # cs)" | "str_contains sub cs" by auto
    then show "\<exists>pre post. c # cs = pre @ sub @ post"
    proof cases
      case 1
      then obtain post where "c # cs = sub @ post" by (auto simp: starts_with_iff)
      then have "c # cs = [] @ sub @ post" by simp
      then show ?thesis by blast
    next
      case 2
      then obtain pre post where "cs = pre @ sub @ post" using Cons.IH by auto
      then have "c # cs = (c # pre) @ sub @ post" by simp
      then show ?thesis by blast
    qed
  next
    assume "\<exists>pre post. c # cs = pre @ sub @ post"
    then obtain pre post where e: "c # cs = pre @ sub @ post" by auto
    show "str_contains sub (c # cs)"
    proof (cases pre)
      case Nil
      then have "starts_with sub (c # cs)" using e by (simp add: starts_with_iff)
      then show ?thesis by simp
    next
      case (Cons a pre')
      then have "cs = pre' @ sub @ post" using e by simp
      then have "str_contains sub cs" using Cons.IH by blast
      then show ?thesis by simp
    qed
  qed
qed

lemma contains_skip:
  "h \<notin> set x \<Longrightarrow> str_contains (h # t) (x @ w) = str_contains (h # t) w"
  by (induction x) auto

lemma triple_in_Cons:
  "(\<exists>p a b c q. x # cs = p @ a # b # c # q \<and> A a \<and> B b \<and> C c) \<longleftrightarrow>
     (A x \<and> (\<exists>b c q. cs = b # c # q \<and> B b \<and> C c))
     \<or> (\<exists>p a b c q. cs = p @ a # b # c # q \<and> A a \<and> B b \<and> C c)"
  (is "?L \<longleftrightarrow> ?M \<or> ?R")
proof
  assume ?L
  then obtain p a b c q where e: "x # cs = p @ a # b # c # q" and abc: "A a" "B b" "C c"
    by blast
  show "?M \<or> ?R"
  proof (cases p)
    case Nil
    then have "x = a" "cs = b # c # q" using e by simp_all
    then show ?thesis using abc by blast
  next
    case (Cons y p')
    then have "cs = p' @ a # b # c # q" using e by simp
    then show ?thesis using abc by blast
  qed
next
  assume "?M \<or> ?R"
  then show ?L
  proof
    assume ?M
    then obtain b c q where "cs = b # c # q" "A x" "B b" "C c" by blast
    then have "x # cs = [] @ x # b # c # q" by simp
    then show ?L using \<open>A x\<close> \<open>B b\<close> \<open>C c\<close> by blast
  next
    assume ?R
    then obtain p a b c q where "cs = p @ a # b # c # q" "A a" "B b" "C c" by blast
    then have "x # cs = (x # p) @ a # b # c # q" by simp
    then show ?L using \<open>A a\<close> \<open>B b\<close> \<open>C c\<close> by blast
  qed
qed

lemma blocks_start_ES:
  fixes g :: "nat \<Rightarrow> string"
  assumes ne: "\<And>c. V c \<Longrightarrow> g c \<noteq> []"
    and E: "\<And>c. V c \<Longrightarrow> hd (g c) = CHR ''E'' \<Longrightarrow> B c" "\<And>c. B c \<Longrightarrow> g c = ''E''"
    and S: "\<And>c. V c \<Longrightarrow> hd (g c) = CHR ''S'' \<longleftrightarrow> C c"
    and cs: "\<forall>c \<in> set cs. V c"
  shows "starts_with ''ES'' (concat (map g cs)) \<longleftrightarrow> (\<exists>b c q. cs = b # c # q \<and> B b \<and> C c)"
proof (cases cs)
  case Nil
  then show ?thesis by simp
next
  case (Cons b cs')
  then have vb: "V b" using cs by simp
  obtain h t where gb: "g b = h # t" using ne [OF vb] by (cases "g b") auto
  show ?thesis
  proof (cases "B b")
    case True
    then have b: "g b = ''E''" by (rule E(2))
    show ?thesis
    proof (cases cs')
      case Nil
      then show ?thesis using Cons b by simp
    next
      case (Cons c q)
      then have vc: "V c" using cs \<open>cs = b # cs'\<close> by simp
      obtain h' t' where gc: "g c = h' # t'" using ne [OF vc] by (cases "g c") auto
      have "C c \<longleftrightarrow> h' = CHR ''S''" using S [OF vc] gc by auto
      then show ?thesis using \<open>cs = b # cs'\<close> Cons b gc True by auto
    qed
  next
    case False
    then have "h \<noteq> CHR ''E''" using E(1) [OF vb] gb by auto
    then show ?thesis using Cons gb False by auto
  qed
qed

lemma blocks_contain_YES:
  fixes g :: "nat \<Rightarrow> string"
  assumes ne: "\<And>c. V c \<Longrightarrow> g c \<noteq> []"
    and Y: "\<And>c. V c \<Longrightarrow> CHR ''Y'' \<in> set (g c) \<Longrightarrow>
              A c \<or> g c = [CHR ''Y'', CHR 0xCC, CHR 0x8A]"
           "\<And>c. A c \<Longrightarrow> g c = ''Y''"
    and E: "\<And>c. V c \<Longrightarrow> hd (g c) = CHR ''E'' \<Longrightarrow> B c" "\<And>c. B c \<Longrightarrow> g c = ''E''"
    and S: "\<And>c. V c \<Longrightarrow> hd (g c) = CHR ''S'' \<longleftrightarrow> C c"
    and cs: "\<forall>c \<in> set cs. V c"
  shows "str_contains ''YES'' (concat (map g cs)) \<longleftrightarrow>
           (\<exists>p a b c q. cs = p @ a # b # c # q \<and> A a \<and> B b \<and> C c)"
  using cs
proof (induction cs)
  case Nil
  then show ?case by simp
next
  case (Cons x cs)
  let ?W = "concat (map g cs)"
  have vx: "V x" and vcs: "\<forall>c \<in> set cs. V c" using Cons.prems by simp_all
  have es: "starts_with ''ES'' ?W \<longleftrightarrow> (\<exists>b c q. cs = b # c # q \<and> B b \<and> C c)"
    using ne E S vcs by (rule blocks_start_ES)
  have step: "str_contains ''YES'' (g x @ ?W) \<longleftrightarrow>
                (A x \<and> starts_with ''ES'' ?W) \<or> str_contains ''YES'' ?W"
  proof (cases "CHR ''Y'' \<in> set (g x)")
    case False
    then have "\<not> A x" using Y(2) [of x] by auto
    then show ?thesis using False by (simp add: contains_skip)
  next
    case True
    then consider "A x" | "\<not> A x" "g x = [CHR ''Y'', CHR 0xCC, CHR 0x8A]"
      using Y(1) [OF vx] by blast
    then show ?thesis
    proof cases
      case 1
      then have "g x = ''Y''" by (rule Y(2))
      then show ?thesis using 1 by (cases ?W) auto
    next
      case 2
      have "str_contains ''YES'' ([CHR 0xCC, CHR 0x8A] @ ?W) = str_contains ''YES'' ?W"
        by (rule contains_skip) simp
      then show ?thesis using 2 by simp
    qed
  qed
  show ?case
    unfolding triple_in_Cons [of x cs A B C]
    using step es Cons.IH [OF vcs] by simp
qed

subsection \<open>The upper-case table\<close>

lemma upper_row_00_ok: "list_all upper_entry_ok upper_row_00"
  by (simp add: upper_row_00_def upper_entry_ok_def)

lemma upper_row_01_ok: "list_all upper_entry_ok upper_row_01"
  by (simp add: upper_row_01_def upper_entry_ok_def)

lemma upper_row_02_ok: "list_all upper_entry_ok upper_row_02"
  by (simp add: upper_row_02_def upper_entry_ok_def)

lemma upper_row_03_ok: "list_all upper_entry_ok upper_row_03"
  by (simp add: upper_row_03_def upper_entry_ok_def)

lemma upper_row_04_ok: "list_all upper_entry_ok upper_row_04"
  by (simp add: upper_row_04_def upper_entry_ok_def)

lemma upper_row_05_ok: "list_all upper_entry_ok upper_row_05"
  by (simp add: upper_row_05_def upper_entry_ok_def)

lemma upper_row_10_ok: "list_all upper_entry_ok upper_row_10"
  by (simp add: upper_row_10_def upper_entry_ok_def)

lemma upper_row_13_ok: "list_all upper_entry_ok upper_row_13"
  by (simp add: upper_row_13_def upper_entry_ok_def)

lemma upper_row_1C_ok: "list_all upper_entry_ok upper_row_1C"
  by (simp add: upper_row_1C_def upper_entry_ok_def)

lemma upper_row_1D_ok: "list_all upper_entry_ok upper_row_1D"
  by (simp add: upper_row_1D_def upper_entry_ok_def)

lemma upper_row_1E_ok: "list_all upper_entry_ok upper_row_1E"
  by (simp add: upper_row_1E_def upper_entry_ok_def)

lemma upper_row_1F_ok: "list_all upper_entry_ok upper_row_1F"
  by (simp add: upper_row_1F_def upper_entry_ok_def)

lemma upper_row_21_ok: "list_all upper_entry_ok upper_row_21"
  by (simp add: upper_row_21_def upper_entry_ok_def)

lemma upper_row_24_ok: "list_all upper_entry_ok upper_row_24"
  by (simp add: upper_row_24_def upper_entry_ok_def)

lemma upper_row_2C_ok: "list_all upper_entry_ok upper_row_2C"
  by (simp add: upper_row_2C_def upper_entry_ok_def)

lemma upper_row_2D_ok: "list_all upper_entry_ok upper_row_2D"
  by (simp add: upper_row_2D_def upper_entry_ok_def)

lemma upper_row_A6_ok: "list_all upper_entry_ok upper_row_A6"
  by (simp add: upper_row_A6_def upper_entry_ok_def)

lemma upper_row_A7_ok: "list_all upper_entry_ok upper_row_A7"
  by (simp add: upper_row_A7_def upper_entry_ok_def)

lemma upper_row_AB_ok: "list_all upper_entry_ok upper_row_AB"
  by (simp add: upper_row_AB_def upper_entry_ok_def)

lemma upper_row_FB_ok: "list_all upper_entry_ok upper_row_FB"
  by (simp add: upper_row_FB_def upper_entry_ok_def)

lemma upper_row_FF_ok: "list_all upper_entry_ok upper_row_FF"
  by (simp add: upper_row_FF_def upper_entry_ok_def)

lemma upper_row_104_ok: "list_all upper_entry_ok upper_row_104"
  by (simp add: upper_row_104_def upper_entry_ok_def)

lemma upper_row_105_ok: "list_all upper_entry_ok upper_row_105"
  by (simp add: upper_row_105_def upper_entry_ok_def)

lemma upper_row_10C_ok: "list_all upper_entry_ok upper_row_10C"
  by (simp add: upper_row_10C_def upper_entry_ok_def)

lemma upper_row_118_ok: "list_all upper_entry_ok upper_row_118"
  by (simp add: upper_row_118_def upper_entry_ok_def)

lemma upper_row_16E_ok: "list_all upper_entry_ok upper_row_16E"
  by (simp add: upper_row_16E_def upper_entry_ok_def)

lemma upper_row_1E9_ok: "list_all upper_entry_ok upper_row_1E9"
  by (simp add: upper_row_1E9_def upper_entry_ok_def)

lemma upper_table_ok: "list_all upper_entry_ok upper_table"
  by (simp add: upper_table_def
      upper_row_00_ok upper_row_01_ok upper_row_02_ok upper_row_03_ok upper_row_04_ok
      upper_row_05_ok upper_row_10_ok upper_row_13_ok upper_row_1C_ok upper_row_1D_ok
      upper_row_1E_ok upper_row_1F_ok upper_row_21_ok upper_row_24_ok upper_row_2C_ok
      upper_row_2D_ok upper_row_A6_ok upper_row_A7_ok upper_row_AB_ok upper_row_FB_ok
      upper_row_FF_ok upper_row_104_ok upper_row_105_ok upper_row_10C_ok upper_row_118_ok
      upper_row_16E_ok upper_row_1E9_ok)

lemma upper_table_keys:
  "(0x79, [0x59]) \<in> set upper_table" "(0x65, [0x45]) \<in> set upper_table"
  "(0x73, [0x53]) \<in> set upper_table" "(0xDF, [0x53, 0x53]) \<in> set upper_table"
  by (simp_all add: upper_table_def upper_row_00_def)

lemma upper_table_keys_017F: "(0x17F, [0x53]) \<in> set upper_table"
  by (simp add: upper_table_def upper_row_01_def)

lemma upper_table_keys_1E99: "(0x1E99, [0x59, 0x30A]) \<in> set upper_table"
  by (simp add: upper_table_def upper_row_1E_def)

lemma upper_table_keys_FB:
  "(0xFB05, [0x53, 0x54]) \<in> set upper_table" "(0xFB06, [0x53, 0x54]) \<in> set upper_table"
  by (simp_all add: upper_table_def upper_row_FB_def)

lemma upper_table_entry: "(k, u) \<in> set upper_table \<Longrightarrow> upper_entry_ok (k, u)"
  using upper_table_ok by (simp add: list_all_iff)

lemma to_upper_cases:
  "(cp \<notin> fst ` set upper_table \<and> to_upper cp = [cp])
   \<or> ((cp, to_upper cp) \<in> set upper_table)"
proof (cases "map_of upper_table cp")
  case None
  then have "cp \<notin> fst ` set upper_table" by (simp add: map_of_eq_None_iff)
  with None show ?thesis by (simp add: to_upper_def)
next
  case (Some u)
  then show ?thesis by (simp add: to_upper_def map_of_SomeD)
qed

lemma to_upper_key:
  assumes "(k, u) \<in> set upper_table"
  shows "(k, to_upper k) \<in> set upper_table"
  using to_upper_cases [of k] assms by force

lemma to_upper_nonempty: "to_upper cp \<noteq> []"
  using to_upper_cases [of cp] upper_table_entry [of cp "to_upper cp"]
  by (auto simp: upper_entry_ok_def)

lemma to_upper_bound:
  assumes "cp < 0x110000" "x \<in> set (to_upper cp)"
  shows "x < 0x110000"
  using to_upper_cases [of cp] upper_table_entry [of cp "to_upper cp"] assms
  by (auto simp: upper_entry_ok_def list_all_iff)

lemma to_upper_capitals:
  "to_upper 0x59 = [0x59]" "to_upper 0x45 = [0x45]" "to_upper 0x53 = [0x53]"
  using to_upper_cases [of "0x59"] upper_table_entry [of "0x59" "to_upper 0x59"]
        to_upper_cases [of "0x45"] upper_table_entry [of "0x45" "to_upper 0x45"]
        to_upper_cases [of "0x53"] upper_table_entry [of "0x53" "to_upper 0x53"]
  by (auto simp: upper_entry_ok_def)

lemma to_upper_small:
  "to_upper 0x79 = [0x59]" "to_upper 0x65 = [0x45]" "to_upper 0x73 = [0x53]"
  "to_upper 0x17F = [0x53]" "to_upper 0xDF = [0x53, 0x53]"
  "to_upper 0xFB05 = [0x53, 0x54]" "to_upper 0xFB06 = [0x53, 0x54]"
  "to_upper 0x1E99 = [0x59, 0x30A]"
  using upper_table_entry [OF to_upper_key [OF upper_table_keys(1)]]
        upper_table_entry [OF to_upper_key [OF upper_table_keys(2)]]
        upper_table_entry [OF to_upper_key [OF upper_table_keys(3)]]
        upper_table_entry [OF to_upper_key [OF upper_table_keys(4)]]
        upper_table_entry [OF to_upper_key [OF upper_table_keys_017F]]
        upper_table_entry [OF to_upper_key [OF upper_table_keys_1E99]]
        upper_table_entry [OF to_upper_key [OF upper_table_keys_FB(1)]]
        upper_table_entry [OF to_upper_key [OF upper_table_keys_FB(2)]]
  by (simp_all add: upper_entry_ok_def)

lemma to_upper_has_Y:
  "0x59 \<in> set (to_upper cp) \<longleftrightarrow> cp = 0x59 \<or> cp = 0x79 \<or> cp = 0x1E99"
proof
  assume "0x59 \<in> set (to_upper cp)"
  then show "cp = 0x59 \<or> cp = 0x79 \<or> cp = 0x1E99"
    using to_upper_cases [of cp] upper_table_entry [of cp "to_upper cp"]
    by (auto simp: upper_entry_ok_def split: if_splits)
next
  assume "cp = 0x59 \<or> cp = 0x79 \<or> cp = 0x1E99"
  then show "0x59 \<in> set (to_upper cp)"
    by (auto simp: to_upper_capitals to_upper_small)
qed

lemma to_upper_has_E: "0x45 \<in> set (to_upper cp) \<longleftrightarrow> cp = 0x45 \<or> cp = 0x65"
proof
  assume "0x45 \<in> set (to_upper cp)"
  then show "cp = 0x45 \<or> cp = 0x65"
    using to_upper_cases [of cp] upper_table_entry [of cp "to_upper cp"]
    by (auto simp: upper_entry_ok_def split: if_splits)
next
  assume "cp = 0x45 \<or> cp = 0x65"
  then show "0x45 \<in> set (to_upper cp)"
    by (auto simp: to_upper_capitals to_upper_small)
qed

lemma to_upper_has_S:
  "0x53 \<in> set (to_upper cp) \<longleftrightarrow>
     cp = 0x73 \<or> cp = 0x53 \<or> cp = 0x17F \<or> cp = 0xDF \<or> cp = 0xFB05 \<or> cp = 0xFB06"
proof
  assume "0x53 \<in> set (to_upper cp)"
  then show "cp = 0x73 \<or> cp = 0x53 \<or> cp = 0x17F \<or> cp = 0xDF \<or> cp = 0xFB05 \<or> cp = 0xFB06"
    using to_upper_cases [of cp] upper_table_entry [of cp "to_upper cp"]
    by (auto simp: upper_entry_ok_def split: if_splits)
next
  assume "cp = 0x73 \<or> cp = 0x53 \<or> cp = 0x17F \<or> cp = 0xDF \<or> cp = 0xFB05 \<or> cp = 0xFB06"
  then show "0x53 \<in> set (to_upper cp)"
    by (auto simp: to_upper_capitals to_upper_small)
qed

subsection \<open>UTF-8\<close>

lemma utf8_nonempty: "utf8 cp \<noteq> []"
  by (simp add: utf8_def)

lemma utf8_ascii: "cp < 0x80 \<Longrightarrow> utf8 cp = [char_of cp]"
  by (simp add: utf8_def)

lemma utf8_high:
  assumes "0x80 \<le> cp" "cp < 0x110000" "x \<in> set (utf8 cp)"
  shows "0x80 \<le> (of_char x :: nat)"
proof -
  have a: "(0xC0 + cp div 0x40) mod 256 = 0xC0 + cp div 0x40" if "cp < 0x800"
    using that by simp
  have b: "(0x80 + m mod 0x40) mod 256 = 0x80 + m mod 0x40" for m :: nat
    by (simp add: mod_less_divisor [THEN less_trans])
  have c: "(0xE0 + cp div 0x1000) mod 256 = 0xE0 + cp div 0x1000" if "cp < 0x10000"
    using that by simp
  have d: "(0xF0 + cp div 0x40000) mod 256 = 0xF0 + cp div 0x40000"
    using assms(2) by simp
  show ?thesis
    using assms a c d
    by (auto simp: utf8_def b split: if_splits)
qed

lemma utf8_holds_ascii:
  assumes "cp < 0x110000" "a < 0x80"
  shows "char_of a \<in> set (utf8 cp) \<longleftrightarrow> cp = a"
proof (cases "cp < 0x80")
  case True
  then show ?thesis using assms(2) by (auto simp: utf8_ascii char_of_eq_iff take_bit_nat_eq_self)
next
  case False
  then have "0x80 \<le> (of_char (char_of a :: char) :: nat)" if "char_of a \<in> set (utf8 cp)"
    using utf8_high [of cp "char_of a"] assms(1) that by simp
  moreover have "(of_char (char_of a :: char) :: nat) = a" using assms(2) by simp
  ultimately show ?thesis using False assms(2) by auto
qed

lemma two_bytes_bound:
  fixes x y :: nat
  shows "x < 0x20 \<Longrightarrow> y < 0x40 \<Longrightarrow> x * 0x40 + y < 0x800"
  by simp

lemma three_bytes_bound:
  fixes x y z :: nat
  shows "x < 0x10 \<Longrightarrow> y < 0x40 \<Longrightarrow> z < 0x40 \<Longrightarrow> (x * 0x40 + y) * 0x40 + z < 0x10000"
  by (simp add: algebra_simps)

lemma code_point_bound: "code_point bs < 0x110000"
proof (cases bs rule: code_point.cases)
  case (2 a b)
  then show ?thesis
    using two_bytes_bound [of "a mod 0x20" "b mod 0x40"] by (simp add: Let_def)
next
  case (3 a b c)
  then show ?thesis
    using three_bytes_bound [of "a mod 0x10" "b mod 0x40" "c mod 0x40"] by (simp add: Let_def)
qed (simp_all add: Let_def)

lemma utf8_decode_bound: "cp \<in> set (utf8_decode s) \<Longrightarrow> cp < 0x110000"
proof (induction s rule: utf8_decode.induct)
  case (1 s)
  show ?case
  proof (cases "s = []")
    case True
    then show ?thesis using "1.prems" by (simp add: utf8_decode.simps)
  next
    case False
    then have "cp = code_point (map of_char (take (utf8_width (hd s)) s))
        \<or> cp \<in> set (utf8_decode (drop (utf8_width (hd s)) s))"
      using "1.prems" by (subst (asm) utf8_decode.simps) simp
    then show ?thesis using "1.IH" [OF False] code_point_bound by blast
  qed
qed

lemma utf8_decode_Nil: "utf8_decode [] = []"
  by (simp add: utf8_decode.simps)

lemma low_byte: "(0x80 + m mod 0x40) mod 256 = 0x80 + m mod (0x40 :: nat)"
proof -
  have "m mod 0x40 < 0x40" by simp
  then have "0x80 + m mod 0x40 < 256" by linarith
  then show ?thesis by simp
qed

lemma low_payload: "(0x80 + m mod 0x40) mod 0x40 = m mod (0x40 :: nat)"
proof -
  have "(0x80 + m mod 0x40) mod 0x40 = (2 * 0x40 + m mod 0x40) mod 0x40" by simp
  also have "\<dots> = (m mod 0x40) mod 0x40" by (rule mod_mult_self3)
  finally show ?thesis by simp
qed

lemma continuation_low: "continuation (0x80 + m mod 0x40)"
proof -
  have "m mod 0x40 < 0x40" by simp
  then show ?thesis unfolding continuation_def by linarith
qed

lemma utf8_decode_utf8_1:
  assumes "cp < 0x80"
  shows "utf8_decode (utf8 cp @ s) = cp # utf8_decode s"
  using assms by (subst utf8_decode.simps) (simp add: utf8_def utf8_width_def)

lemma lead_payload:
  fixes q :: nat
  assumes "q < n" "(l :: nat) = k * n"
  shows "(l + q) mod n = q"
proof -
  have "(l + q) mod n = (k * n + q) mod n" using assms(2) by simp
  also have "\<dots> = q mod n" by (rule mod_mult_self3)
  finally show ?thesis using assms(1) by simp
qed

lemma utf8_decode_utf8_2:
  assumes "0x80 \<le> cp" "cp < 0x800"
  shows "utf8_decode (utf8 cp @ s) = cp # utf8_decode s"
proof -
  have q: "cp div 0x40 < 0x20" using assms(2) by simp
  then have w: "(0xC0 + cp div 0x40) mod 256 = 0xC0 + cp div 0x40"
    and l: "0xC0 + cp div 0x40 < 0xE0" by simp_all
  have p: "(0xC0 + cp div 0x40) mod 0x20 = cp div 0x40"
    using q by (rule lead_payload [where k = 6]) simp
  have v: "cp div 0x40 * 0x40 + cp mod 0x40 = cp" by simp
  show ?thesis
    using assms l
    by (subst utf8_decode.simps)
       (simp add: utf8_def utf8_width_def w low_byte low_payload continuation_low p v Let_def)
qed

lemma utf8_decode_utf8_3:
  assumes "0x800 \<le> cp" "cp < 0x10000"
  shows "utf8_decode (utf8 cp @ s) = cp # utf8_decode s"
proof -
  have q: "cp div 0x1000 < 0x10" using assms(2) by simp
  then have w: "(0xE0 + cp div 0x1000) mod 256 = 0xE0 + cp div 0x1000"
    and l: "0xE0 + cp div 0x1000 < 0xF0" by simp_all
  have p: "(0xE0 + cp div 0x1000) mod 0x10 = cp div 0x1000"
    using q by (rule lead_payload [where k = 14]) simp
  have "cp div 0x1000 = cp div 0x40 div 0x40" by (simp add: div_mult2_eq [symmetric])
  then have "cp div 0x1000 * 0x40 + cp div 0x40 mod 0x40 = cp div 0x40" by simp
  then have "(cp div 0x1000 * 0x40 + cp div 0x40 mod 0x40) * 0x40 + cp mod 0x40 = cp"
    by simp
  then have v: "4096 * (cp div 4096) + cp div 64 mod 64 * 64 + cp mod 64 = cp" by simp
  show ?thesis
    using assms l
    by (subst utf8_decode.simps)
       (simp add: utf8_def utf8_width_def w low_byte low_payload continuation_low p v Let_def)
qed

lemma utf8_decode_utf8_4:
  assumes "0x10000 \<le> cp" "cp < 0x110000"
  shows "utf8_decode (utf8 cp @ s) = cp # utf8_decode s"
proof -
  have q: "cp div 0x40000 < 8" using assms(2) by simp
  then have w: "(0xF0 + cp div 0x40000) mod 256 = 0xF0 + cp div 0x40000"
    and l: "0xF0 + cp div 0x40000 < 0xF8" by simp_all
  have p: "(0xF0 + cp div 0x40000) mod 8 = cp div 0x40000"
    using q by (rule lead_payload [where k = 30]) simp
  have "cp div 0x40000 = cp div 0x1000 div 0x40" by (simp add: div_mult2_eq [symmetric])
  then have a: "cp div 0x40000 * 0x40 + cp div 0x1000 mod 0x40 = cp div 0x1000" by simp
  have "cp div 0x1000 = cp div 0x40 div 0x40" by (simp add: div_mult2_eq [symmetric])
  then have b: "cp div 0x1000 * 0x40 + cp div 0x40 mod 0x40 = cp div 0x40" by simp
  have "((cp div 0x40000 * 0x40 + cp div 0x1000 mod 0x40) * 0x40 + cp div 0x40 mod 0x40)
             * 0x40 + cp mod 0x40 = cp"
    by (simp only: a b) simp
  then have v: "262144 * (cp div 262144) + 4096 * (cp div 4096 mod 64) + cp div 64 mod 64 * 64
             + cp mod 64 = cp" by simp
  show ?thesis
    using assms l
    by (subst utf8_decode.simps)
       (simp add: utf8_def utf8_width_def w low_byte low_payload continuation_low p v Let_def)
qed

lemma utf8_decode_utf8:
  assumes "cp < 0x110000"
  shows "utf8_decode (utf8 cp @ s) = cp # utf8_decode s"
proof -
  consider "cp < 0x80" | "0x80 \<le> cp" "cp < 0x800" | "0x800 \<le> cp" "cp < 0x10000"
    | "0x10000 \<le> cp" by linarith
  then show ?thesis
    using assms
    by cases (simp_all add: utf8_decode_utf8_1 utf8_decode_utf8_2 utf8_decode_utf8_3
        utf8_decode_utf8_4)
qed

lemma utf8_decode_encode:
  "\<forall>cp \<in> set cps. cp < 0x110000 \<Longrightarrow> utf8_decode (concat (map utf8 cps)) = cps"
  by (induction cps) (simp_all add: utf8_decode_Nil utf8_decode_utf8)

subsection \<open>\<open>YES\<close> in the upper-cased response\<close>

lemma concat_map_concat:
  "concat (map f (concat xss)) = concat (map (\<lambda>xs. concat (map f xs)) xss)"
  by (induction xss) simp_all

lemma str_upper_blocks:
  "str_upper s = concat (map (\<lambda>cp. concat (map utf8 (to_upper cp))) (utf8_decode s))"
  by (simp add: str_upper_def concat_map_concat comp_def)

lemma upper_bytes_nonempty: "concat (map utf8 (to_upper cp)) \<noteq> []"
  using to_upper_nonempty [of cp] utf8_nonempty by (cases "to_upper cp") auto

lemma upper_bytes_hold_ascii:
  assumes "cp < 0x110000" "a < 0x80"
  shows "char_of a \<in> set (concat (map utf8 (to_upper cp))) \<longleftrightarrow> a \<in> set (to_upper cp)"
  using to_upper_bound [OF assms(1)] utf8_holds_ascii [OF _ assms(2)] by auto

lemma ascii_capitals:
  "char_of (0x59 :: nat) = CHR ''Y''" "char_of (0x45 :: nat) = CHR ''E''"
  "char_of (0x53 :: nat) = CHR ''S''" "char_of (0x54 :: nat) = CHR ''T''"
  "char_of (0xCC :: nat) = CHR 0xCC" "char_of (0x8A :: nat) = CHR 0x8A"
  using char_of_char [of "CHR ''Y''", where ?'a = nat] char_of_char [of "CHR ''E''", where ?'a = nat]
    char_of_char [of "CHR ''S''", where ?'a = nat] char_of_char [of "CHR ''T''", where ?'a = nat]
    char_of_char [of "CHR 0xCC", where ?'a = nat] char_of_char [of "CHR 0x8A", where ?'a = nat]
  by simp_all

lemma upper_bytes_values:
  "concat (map utf8 (to_upper 0x59)) = ''Y''" "concat (map utf8 (to_upper 0x79)) = ''Y''"
  "concat (map utf8 (to_upper 0x45)) = ''E''" "concat (map utf8 (to_upper 0x65)) = ''E''"
  "concat (map utf8 (to_upper 0x53)) = ''S''" "concat (map utf8 (to_upper 0x73)) = ''S''"
  "concat (map utf8 (to_upper 0x17F)) = ''S''" "concat (map utf8 (to_upper 0xDF)) = ''SS''"
  "concat (map utf8 (to_upper 0xFB05)) = ''ST''" "concat (map utf8 (to_upper 0xFB06)) = ''ST''"
  "concat (map utf8 (to_upper 0x1E99)) = [CHR ''Y'', CHR 0xCC, CHR 0x8A]"
  by (simp_all add: to_upper_capitals to_upper_small utf8_def ascii_capitals)

lemma upper_contains_YES: "str_contains ''YES'' (str_upper r) \<longleftrightarrow> affirmative r"
proof -
  let ?g = "\<lambda>cp. concat (map utf8 (to_upper cp))"
  let ?V = "\<lambda>cp :: nat. cp < 0x110000"
  let ?A = "\<lambda>a :: nat. a = 0x79 \<or> a = 0x59"
  let ?B = "\<lambda>b :: nat. b = 0x65 \<or> b = 0x45"
  let ?C = "\<lambda>c :: nat. c = 0x73 \<or> c = 0x53 \<or> c = 0x17F \<or> c = 0xDF \<or> c = 0xFB05 \<or> c = 0xFB06"
  have hd_in: "hd (?g c) \<in> set (?g c)" for c
    using upper_bytes_nonempty [of c] by (rule hd_in_set)
  have "str_contains ''YES'' (concat (map ?g (utf8_decode r))) \<longleftrightarrow>
          (\<exists>p a b c q. utf8_decode r = p @ a # b # c # q \<and> ?A a \<and> ?B b \<and> ?C c)"
  proof (rule blocks_contain_YES [where V = ?V])
    show "?g c \<noteq> []" for c by (rule upper_bytes_nonempty)
    show "?A c \<or> ?g c = [CHR ''Y'', CHR 0xCC, CHR 0x8A]"
      if "?V c" "CHR ''Y'' \<in> set (?g c)" for c
    proof -
      have "0x59 \<in> set (to_upper c)"
        using that upper_bytes_hold_ascii [of c "0x59"] by (simp add: ascii_capitals)
      then have "c = 0x59 \<or> c = 0x79 \<or> c = 0x1E99" by (simp add: to_upper_has_Y)
      then show ?thesis by (auto simp: upper_bytes_values)
    qed
    show "?g c = ''Y''" if "?A c" for c using that by (auto simp: upper_bytes_values)
    show "?B c" if "?V c" "hd (?g c) = CHR ''E''" for c
    proof -
      have "CHR ''E'' \<in> set (?g c)" using hd_in [of c] that(2) by simp
      then have "0x45 \<in> set (to_upper c)"
        using that(1) upper_bytes_hold_ascii [of c "0x45"] by (simp add: ascii_capitals)
      then show ?thesis by (auto simp: to_upper_has_E)
    qed
    show "?g c = ''E''" if "?B c" for c using that by (auto simp: upper_bytes_values)
    show "hd (?g c) = CHR ''S'' \<longleftrightarrow> ?C c" if "?V c" for c
    proof
      assume "hd (?g c) = CHR ''S''"
      then have "CHR ''S'' \<in> set (?g c)" using hd_in [of c] by simp
      then have "0x53 \<in> set (to_upper c)"
        using that upper_bytes_hold_ascii [of c "0x53"] by (simp add: ascii_capitals)
      then show "?C c" by (simp add: to_upper_has_S)
    next
      assume "?C c"
      then show "hd (?g c) = CHR ''S''" by (auto simp: upper_bytes_values)
    qed
    show "\<forall>c \<in> set (utf8_decode r). ?V c" using utf8_decode_bound by blast
  qed
  then show ?thesis by (simp add: str_upper_blocks affirmative_def)
qed

lemma ascii_small: "char_of (0x79 :: nat) = CHR ''y''" "char_of (0x65 :: nat) = CHR ''e''"
  using char_of_char [of "CHR ''y''", where ?'a = nat] char_of_char [of "CHR ''e''", where ?'a = nat]
  by simp_all

lemma decode_ye:
  assumes "cp < 0x110000"
  shows "utf8_decode (CHR ''y'' # CHR ''e'' # utf8 cp) = [0x79, 0x65, cp]"
proof -
  have e: "CHR ''y'' # CHR ''e'' # utf8 cp = concat (map utf8 [0x79, 0x65, cp])"
    by (simp add: utf8_ascii ascii_small)
  show ?thesis
    unfolding e by (rule utf8_decode_encode) (simp add: assms)
qed

lemma affirmativeI:
  assumes "utf8_decode r = pre @ a # b # c # post"
    and "a = 0x79 \<or> a = 0x59" and "b = 0x65 \<or> b = 0x45"
    and "c = 0x73 \<or> c = 0x53 \<or> c = 0x17F \<or> c = 0xDF \<or> c = 0xFB05 \<or> c = 0xFB06"
  shows "affirmative r"
  unfolding affirmative_def using assms by blast

lemma affirmative_long_s: "affirmative yes_with_long_s"
  by (rule affirmativeI [where pre = "[]" and a = "0x79" and b = "0x65" and c = "0x17F"
        and post = "[]"])
     (simp_all add: yes_with_long_s_def decode_ye)

lemma affirmative_sharp_s: "affirmative yes_with_sharp_s"
  by (rule affirmativeI [where pre = "[]" and a = "0x79" and b = "0x65" and c = "0xDF"
        and post = "[]"])
     (simp_all add: yes_with_sharp_s_def decode_ye)

section \<open>The verifier's answer\<close>

lemma not_affirmative_empty: "\<not> affirmative []"
  by (simp add: affirmative_def utf8_decode_Nil)

text \<open>
  C8: for every oracle response the verifier (\<open>verify_action_result\<close> of the MCP
  server, \<open>verify_action_success\<close> of the REST client) returns true exactly when the
  response holds an affirmative token, three characters in a row whose upper case spells
  \<open>YES\<close>, so false on the empty response and on every response without that token;
  when the oracle raises, so does the verifier. Upper-casing is that of Python on
  Unicode text: \<open>yes\<close> written with a long s or a sharp s is affirmative too.
\<close>

theorem verifier_true_iff_affirmative:
  "fst (verify_action_result rt complete act expected_outcome screen) =
     (case complete (verification_prompt rt act expected_outcome screen) of
        Inl e \<Rightarrow> Inl e | Inr response \<Rightarrow> Inr (affirmative response))
   \<and> fst (verify_action_success rt complete' act' expected_state screen') =
     (case complete' (verify_success_prompt rt act' expected_state screen') 10 of
        Inl e \<Rightarrow> Inl e | Inr response \<Rightarrow> Inr (affirmative response))
   \<and> fst (verify_action_result rt (MockLLMClient []) act expected_outcome screen) = Inr False
   \<and> fst (verify_action_result rt (MockLLMClient yes_with_long_s) act expected_outcome screen)
       = Inr True
   \<and> fst (verify_action_success rt (MockAPI yes_with_sharp_s) act' expected_state screen')
       = Inr True"
  by (simp add: verify_action_result_def verify_action_success_def Let_def
      upper_contains_YES MockLLMClient_def MockAPI_def not_affirmative_empty
      affirmative_long_s affirmative_sharp_s split: sum.split)

section \<open>The supervisor\<close>

subsection \<open>Reading the plan and dispatching on the status\<close>

lemma list_get_out: "int (length xs) \<le> i \<Longrightarrow> list_get xs i = Inl IndexError"
  by (simp add: list_get_def Let_def)

lemma list_get_in: "0 \<le> i \<Longrightarrow> i < int (length xs) \<Longrightarrow> list_get xs i = Inr (xs ! nat i)"
  by (simp add: list_get_def Let_def)

lemma list_get_below: "i < - int (length xs) \<Longrightarrow> list_get xs i = Inl IndexError"
  by (simp add: list_get_def Let_def)

lemma list_get_valid:
  "- int (length xs) \<le> i \<Longrightarrow> i < int (length xs) \<Longrightarrow> \<exists>x. list_get xs i = Inr x"
  by (simp add: list_get_def Let_def)

lemma replan_in_range:
  assumes "0 \<le> i" "i < int (length (actions plan))"
  shows "replan_after_failure rt complete plan i reason screen =
           (case plan_task rt complete (original_intent plan) screen of
              (Inr new_plan, calls) \<Rightarrow> (Inr (Some new_plan), calls)
            | (Inl e, calls) \<Rightarrow> (Inr None, calls))"
  using assms by (simp add: replan_after_failure_def list_get_in Let_def)

lemma handle_in_range:
  assumes "0 \<le> i" "i < int (length (actions plan))"
  shows "handle_action_result rt complete plan i result screen =
           (if dict_get result ''status'' = PStr ''SUCCESS'' then (Inr (Some plan), [])
            else if dict_get result ''status'' = PStr ''ELEMENT_NOT_FOUND'' then
              (case plan_task rt complete (original_intent plan) screen of
                 (Inr new_plan, calls) \<Rightarrow> (Inr (Some new_plan), calls)
               | (Inl e, calls) \<Rightarrow> (Inr None, calls))
            else (Inr None, []))"
  using assms by (simp add: handle_action_result_def list_get_in Let_def replan_in_range)

lemma replan_valid_index:
  assumes "- int (length (actions plan)) \<le> i" "i < int (length (actions plan))"
  shows "replan_after_failure rt complete plan i reason screen =
           (case plan_task rt complete (original_intent plan) screen of
              (Inr new_plan, calls) \<Rightarrow> (Inr (Some new_plan), calls)
            | (Inl e, calls) \<Rightarrow> (Inr None, calls))"
proof -
  obtain a where "list_get (actions plan) i = Inr a" using list_get_valid [OF assms] by blast
  then show ?thesis by (simp add: replan_after_failure_def Let_def)
qed

lemma handle_valid_index:
  assumes "- int (length (actions plan)) \<le> i" "i < int (length (actions plan))"
  shows "handle_action_result rt complete plan i result screen =
           (if dict_get result ''status'' = PStr ''SUCCESS'' then (Inr (Some plan), [])
            else if dict_get result ''status'' = PStr ''ELEMENT_NOT_FOUND'' then
              (case plan_task rt complete (original_intent plan) screen of
                 (Inr new_plan, calls) \<Rightarrow> (Inr (Some new_plan), calls)
               | (Inl e, calls) \<Rightarrow> (Inr None, calls))
            else (Inr None, []))"
proof -
  obtain a where "list_get (actions plan) i = Inr a" using list_get_valid [OF assms] by blast
  then show ?thesis
    by (simp add: handle_action_result_def Let_def replan_valid_index [OF assms])
qed

lemma plan_task_calls: "snd (plan_task rt complete i screen) = [plan_prompt rt i screen]"
  by (simp add: plan_task_def Let_def split: sum.split exn.split)

lemma plan_task_answers:
  assumes "complete (plan_prompt rt i screen) = Inr response"
    and "loads rt response = Inr (PList elems)" and "build_actions elems = Inr acts"
  shows "plan_task rt complete i screen =
           (Inr \<lparr>task_id = ''task_'' @ str_of_nat (obj_id i), original_intent = i, actions = acts\<rparr>,
            [plan_prompt rt i screen])"
  using assms by (simp add: plan_task_def decode_plan_def Let_def)

lemma decode_retry_plan: "decode_plan cpython scenario_intent retry_plan_text = Inr retry_plan"
  by code_simp

lemma plan_task_retry:
  "plan_task cpython (MockLLMClient retry_plan_text) scenario_intent screen =
     (Inr retry_plan, [plan_prompt cpython scenario_intent screen])"
  by (simp add: plan_task_def Let_def MockLLMClient_def decode_retry_plan)

lemma retry_oracle_answers:
  "\<forall>prompt. \<exists>response elems acts. MockLLMClient retry_plan_text prompt = Inr response
      \<and> loads cpython response = Inr (PList elems) \<and> build_actions elems = Inr acts \<and> acts \<noteq> []"
proof -
  have "loads cpython retry_plan_text = Inr (PList
          [PDict [(''action'', PStr ''scroll''), (''value'', PStr ''down'')],
           PDict [(''action'', PStr ''click''), (''target'', PStr ''Mom'')]])"
    by code_simp
  moreover have "build_actions [PDict [(''action'', PStr ''scroll''), (''value'', PStr ''down'')],
           PDict [(''action'', PStr ''click''), (''target'', PStr ''Mom'')]] = Inr (actions retry_plan)"
    by code_simp
  moreover have "actions retry_plan \<noteq> []" by (simp add: retry_plan_def)
  ultimately show ?thesis by (auto simp: MockLLMClient_def)
qed

text \<open>
  C10, amended: \<open>handle_action_result\<close> and \<open>replan_after_failure\<close> read
  \<open>plan.actions[action_index]\<close> before anything else and without a bounds check. For
  every index at or beyond the length of the plan, and for every index below minus the
  length, both raise \<open>IndexError\<close>, whatever the status is and before any call to the
  oracle. For every other index both return an outcome: from 0 up to the length, and
  also from minus the length up to -1, which Python reads from the end of the list.
\<close>

theorem index_out_of_range_raises:
  "(int (length (actions plan)) \<le> i \<or> i < - int (length (actions plan)) \<longrightarrow>
       handle_action_result rt complete plan i result screen = (Inl IndexError, [])
     \<and> replan_after_failure rt complete plan i reason screen = (Inl IndexError, []))
   \<and> (- int (length (actions plan)) \<le> i \<and> i < int (length (actions plan)) \<longrightarrow>
       (\<exists>outcome calls.
           handle_action_result rt complete plan i result screen = (Inr outcome, calls))
     \<and> (\<exists>outcome calls.
           replan_after_failure rt complete plan i reason screen = (Inr outcome, calls)))"
proof (intro conjI impI)
  assume "int (length (actions plan)) \<le> i \<or> i < - int (length (actions plan))"
  then have "list_get (actions plan) i = Inl IndexError"
    using list_get_out list_get_below by blast
  then show "handle_action_result rt complete plan i result screen = (Inl IndexError, [])"
    and "replan_after_failure rt complete plan i reason screen = (Inl IndexError, [])"
    by (simp_all add: handle_action_result_def replan_after_failure_def)
next
  assume "- int (length (actions plan)) \<le> i \<and> i < int (length (actions plan))"
  then have r: "- int (length (actions plan)) \<le> i" "i < int (length (actions plan))"
    by simp_all
  obtain r' calls where pt: "plan_task rt complete (original_intent plan) screen = (r', calls)"
    by (cases "plan_task rt complete (original_intent plan) screen")
  show "\<exists>outcome calls.
           handle_action_result rt complete plan i result screen = (Inr outcome, calls)"
    using pt by (cases r') (simp_all add: handle_valid_index [OF r])
  show "\<exists>outcome calls.
           replan_after_failure rt complete plan i reason screen = (Inr outcome, calls)"
    using pt by (cases r') (simp_all add: replan_valid_index [OF r])
qed

theorem index_out_of_range_raises_witness:
  "handle_action_result cpython (MockLLMClient retry_plan_text) scenario_plan 2
       element_not_found scenario_screen = (Inl IndexError, [])
   \<and> replan_after_failure cpython (MockLLMClient retry_plan_text) scenario_plan 2
       ''Element not found'' scenario_screen = (Inl IndexError, [])
   \<and> handle_action_result cpython (MockLLMClient retry_plan_text) scenario_plan (- 3)
       element_not_found scenario_screen = (Inl IndexError, [])
   \<and> replan_after_failure cpython (MockLLMClient retry_plan_text) scenario_plan (- 3)
       ''Element not found'' scenario_screen = (Inl IndexError, [])
   \<and> (\<exists>outcome calls. handle_action_result cpython (MockLLMClient retry_plan_text)
         scenario_plan 1 element_not_found scenario_screen = (Inr outcome, calls))
   \<and> (\<exists>outcome calls. replan_after_failure cpython (MockLLMClient retry_plan_text)
         scenario_plan 1 ''Element not found'' scenario_screen = (Inr outcome, calls))
   \<and> (\<exists>outcome calls. handle_action_result cpython (MockLLMClient retry_plan_text)
         scenario_plan (- 2) element_not_found scenario_screen = (Inr outcome, calls))
   \<and> (\<exists>outcome calls. replan_after_failure cpython (MockLLMClient retry_plan_text)
         scenario_plan (- 2) ''Element not found'' scenario_screen = (Inr outcome, calls))"
  using index_out_of_range_raises [of scenario_plan 2 cpython "MockLLMClient retry_plan_text"
          element_not_found scenario_screen "''Element not found''"]
        index_out_of_range_raises [of scenario_plan "- 3" cpython "MockLLMClient retry_plan_text"
          element_not_found scenario_screen "''Element not found''"]
        index_out_of_range_raises [of scenario_plan 1 cpython "MockLLMClient retry_plan_text"
          element_not_found scenario_screen "''Element not found''"]
        index_out_of_range_raises [of scenario_plan "- 2" cpython "MockLLMClient retry_plan_text"
          element_not_found scenario_screen "''Element not found''"]
  by (simp add: scenario_plan_def)

text \<open>The claim as stated fails: the index need not lie between 0 and the length for
  the two functions to return. With the index -1 the last action of the plan is read,
  the status is examined and the planner is called, and with a \<open>SUCCESS\<close> result the
  plan itself is returned.\<close>

theorem negative_index_is_accepted_counterexample:
  "handle_action_result cpython (MockLLMClient retry_plan_text) scenario_plan (- 1)
       element_not_found scenario_screen =
     (Inr (Some retry_plan), [plan_prompt cpython scenario_intent scenario_screen])
   \<and> replan_after_failure cpython (MockLLMClient retry_plan_text) scenario_plan (- 1)
       ''Element not found'' scenario_screen =
     (Inr (Some retry_plan), [plan_prompt cpython scenario_intent scenario_screen])
   \<and> handle_action_result cpython (MockLLMClient retry_plan_text) scenario_plan (- 1)
       succeeded scenario_screen = (Inr (Some scenario_plan), [])"
  by (simp add: handle_valid_index replan_valid_index scenario_plan_def plan_task_retry
      element_not_found_def succeeded_def dict_get_def dict_get_default_def)

text \<open>
  C2, amended: for an index inside the plan the status alone decides. A result with
  status \<open>ELEMENT_NOT_FOUND\<close> makes the handler call the planner, once, with the
  original intent and the current screen, and the plan the planner returns replaces the
  old one as a whole (\<open>None\<close> when the planner raises). No other result makes it call
  the planner: \<open>SUCCESS\<close> returns the plan in force, and every other status, \<open>FAILED\<close>
  among them, or no status at all, returns \<open>None\<close>. The two failure statuses are not
  treated alike.
\<close>

theorem only_element_not_found_replans:
  assumes "- int (length (actions plan)) \<le> i" "i < int (length (actions plan))"
  shows "(dict_get result ''status'' = PStr ''ELEMENT_NOT_FOUND'' \<longrightarrow>
            handle_action_result rt complete plan i result screen =
              (case plan_task rt complete (original_intent plan) screen of
                 (Inr new_plan, calls) \<Rightarrow> (Inr (Some new_plan), calls)
               | (Inl e, calls) \<Rightarrow> (Inr None, calls))
          \<and> snd (handle_action_result rt complete plan i result screen) =
              [plan_prompt rt (original_intent plan) screen])
       \<and> (dict_get result ''status'' \<noteq> PStr ''ELEMENT_NOT_FOUND'' \<longrightarrow>
            snd (handle_action_result rt complete plan i result screen) = [])
       \<and> (dict_get result ''status'' = PStr ''SUCCESS'' \<longrightarrow>
            handle_action_result rt complete plan i result screen = (Inr (Some plan), []))
       \<and> (dict_get result ''status'' \<noteq> PStr ''SUCCESS''
            \<and> dict_get result ''status'' \<noteq> PStr ''ELEMENT_NOT_FOUND'' \<longrightarrow>
            handle_action_result rt complete plan i result screen = (Inr None, []))
       \<and> (dict_get result ''status'' = PStr ''FAILED'' \<longrightarrow>
            handle_action_result rt complete plan i result screen = (Inr None, []))"
proof -
  have "snd (case plan_task rt complete (original_intent plan) screen of
                 (Inr new_plan, calls) \<Rightarrow> (Inr (Some new_plan), calls)
               | (Inl e, calls) \<Rightarrow> (Inr None :: exn + TaskPlan option, calls))
          = [plan_prompt rt (original_intent plan) screen]"
    using plan_task_calls [of rt complete "original_intent plan" screen]
    by (cases "plan_task rt complete (original_intent plan) screen")
      (auto split: sum.split)
  then show ?thesis
    by (simp add: handle_valid_index [OF assms])
qed

theorem only_element_not_found_replans_witness:
  "handle_action_result cpython (MockLLMClient retry_plan_text) scenario_plan 1
       element_not_found scenario_screen =
       (Inr (Some retry_plan), [plan_prompt cpython scenario_intent scenario_screen])
   \<and> handle_action_result cpython (MockLLMClient retry_plan_text) scenario_plan 1 failed
       scenario_screen = (Inr None, [])
   \<and> handle_action_result cpython (MockLLMClient retry_plan_text) scenario_plan 1 timed_out
       scenario_screen = (Inr None, [])
   \<and> handle_action_result cpython (MockLLMClient retry_plan_text) scenario_plan 1 no_status
       scenario_screen = (Inr None, [])
   \<and> handle_action_result cpython (MockLLMClient retry_plan_text) scenario_plan 1 succeeded
       scenario_screen = (Inr (Some scenario_plan), [])"
  using only_element_not_found_replans [of scenario_plan 1 element_not_found cpython
          "MockLLMClient retry_plan_text" scenario_screen]
        only_element_not_found_replans [of scenario_plan 1 failed cpython
          "MockLLMClient retry_plan_text" scenario_screen]
        only_element_not_found_replans [of scenario_plan 1 timed_out cpython
          "MockLLMClient retry_plan_text" scenario_screen]
        only_element_not_found_replans [of scenario_plan 1 no_status cpython
          "MockLLMClient retry_plan_text" scenario_screen]
        only_element_not_found_replans [of scenario_plan 1 succeeded cpython
          "MockLLMClient retry_plan_text" scenario_screen]
  by (simp add: scenario_plan_def failed_def element_not_found_def timed_out_def no_status_def
      succeeded_def dict_get_def dict_get_default_def plan_task_retry)

text \<open>The claim as stated fails: a \<open>FAILED\<close> result is answered with
  \<open>None\<close> and the oracle is never asked.\<close>

theorem failed_is_not_replanned_counterexample:
  "handle_action_result cpython (MockLLMClient retry_plan_text) scenario_plan 0 failed
       scenario_screen = (Inr None, [])"
  by (simp add: handle_in_range scenario_plan_def failed_def dict_get_def dict_get_default_def)

text \<open>
  C1, amended: the supervisor keeps no count of replans and has no limit. Along a run of
  results that all report \<open>ELEMENT_NOT_FOUND\<close> for the first action, against an
  oracle whose every answer decodes to a non-empty list of actions, the planner is called
  once per result, however many there are, and the run ends with a plan in force, never
  with an exhausted outcome.
\<close>

theorem replans_are_not_limited:
  assumes answers: "\<forall>prompt. \<exists>response elems acts. complete prompt = Inr response
              \<and> loads rt response = Inr (PList elems) \<and> build_actions elems = Inr acts \<and> acts \<noteq> []"
    and results: "\<forall>r \<in> set results.
              fst r = 0 \<and> dict_get (fst (snd r)) ''status'' = PStr ''ELEMENT_NOT_FOUND''"
    and plan: "actions plan \<noteq> []"
  shows "length (snd (feed_results rt complete plan results)) = length results
       \<and> (\<exists>p. fst (feed_results rt complete plan results) = Inr (Some p))"
  using results plan
proof (induction results arbitrary: plan)
  case Nil
  then show ?case by simp
next
  case (Cons r later)
  obtain i result screen where r: "r = (i, result, screen)" by (cases r)
  from Cons.prems(1) r have i: "i = 0"
    and st: "dict_get result ''status'' = PStr ''ELEMENT_NOT_FOUND''" by simp_all
  from answers obtain response elems acts
    where a: "complete (plan_prompt rt (original_intent plan) screen) = Inr response"
      "loads rt response = Inr (PList elems)" "build_actions elems = Inr acts" "acts \<noteq> []"
    by blast
  define plan' where "plan' = \<lparr>task_id = ''task_'' @ str_of_nat (obj_id (original_intent plan)),
                                original_intent = original_intent plan, actions = acts\<rparr>"
  have pt: "plan_task rt complete (original_intent plan) screen =
              (Inr plan', [plan_prompt rt (original_intent plan) screen])"
    unfolding plan'_def using a(1-3) by (rule plan_task_answers)
  have h: "handle_action_result rt complete plan i result screen =
             (Inr (Some plan'), [plan_prompt rt (original_intent plan) screen])"
    using Cons.prems(2) i st pt by (simp add: handle_in_range)
  have "actions plan' \<noteq> []" using a(4) by (simp add: plan'_def)
  moreover have "\<forall>r \<in> set later.
      fst r = 0 \<and> dict_get (fst (snd r)) ''status'' = PStr ''ELEMENT_NOT_FOUND''"
    using Cons.prems(1) by simp
  ultimately have IH: "length (snd (feed_results rt complete plan' later)) = length later
       \<and> (\<exists>p. fst (feed_results rt complete plan' later) = Inr (Some p))"
    using Cons.IH by blast
  show ?case
    using IH h unfolding r by (auto simp: split_def)
qed

theorem replans_are_not_limited_witness:
  "length (snd (feed_results cpython (MockLLMClient retry_plan_text) scenario_plan
      [(0, element_not_found, scenario_screen), (0, element_not_found, scenario_screen),
       (0, element_not_found, scenario_screen), (0, element_not_found, scenario_screen)])) = 4"
  using replans_are_not_limited [OF retry_oracle_answers, of
      "[(0, element_not_found, scenario_screen), (0, element_not_found, scenario_screen),
        (0, element_not_found, scenario_screen), (0, element_not_found, scenario_screen)]"
      scenario_plan]
  by (simp add: element_not_found_def dict_get_def dict_get_default_def scenario_plan_def)

text \<open>The claim as stated fails for the default limit of three: after three
  consecutive \<open>ELEMENT_NOT_FOUND\<close> results a plan is still in force, and the fourth
  result makes the fourth call to the planner.\<close>

theorem fourth_replan_counterexample:
  "fst (feed_results cpython (MockLLMClient retry_plan_text) scenario_plan four_failures)
     = Inr (Some retry_plan)
   \<and> length (snd (feed_results cpython (MockLLMClient retry_plan_text) scenario_plan
        four_failures)) = 4"
proof -
  have s: "dict_get element_not_found ''status'' = PStr ''ELEMENT_NOT_FOUND''"
    by (simp add: element_not_found_def dict_get_def dict_get_default_def)
  have a: "handle_action_result cpython (MockLLMClient retry_plan_text) scenario_plan 1
             element_not_found scenario_screen =
           (Inr (Some retry_plan), [plan_prompt cpython scenario_intent scenario_screen])"
    by (simp add: handle_in_range s plan_task_retry scenario_plan_def)
  have b: "handle_action_result cpython (MockLLMClient retry_plan_text) retry_plan 1
             element_not_found scenario_screen =
           (Inr (Some retry_plan), [plan_prompt cpython scenario_intent scenario_screen])"
    by (simp add: handle_in_range s plan_task_retry retry_plan_def)
  show ?thesis by (simp add: four_failures_def a b)
qed

section \<open>What the replanning call tells the oracle\<close>

lemma join_lines_holds_line:
  "l \<in> set ls \<Longrightarrow> \<exists>pre post. join_lines ls = pre @ l @ post"
proof (induction ls rule: join_lines.induct)
  case 1
  then show ?case by simp
next
  case (2 x)
  then have "join_lines [x] = [] @ l @ []" by simp
  then show ?case by blast
next
  case (3 x y ys)
  show ?case
  proof (cases "l = x")
    case True
    then have "join_lines (x # y # ys) = [] @ l @ (CHR 0x0A # join_lines (y # ys))" by simp
    then show ?thesis by blast
  next
    case False
    then have "l \<in> set (y # ys)" using "3.prems" by simp
    then obtain pre post where "join_lines (y # ys) = pre @ l @ post" using "3.IH" by blast
    then have "join_lines (x # y # ys) = (x @ CHR 0x0A # pre) @ l @ post" by simp
    then show ?thesis by blast
  qed
qed

lemma contains_in_line:
  assumes "l \<in> set ls" and "str_contains sub l"
  shows "str_contains sub (join_lines ls)"
proof -
  obtain pre post where j: "join_lines ls = pre @ l @ post"
    using join_lines_holds_line [OF assms(1)] by blast
  obtain p q where "l = p @ sub @ q" using assms(2) by (auto simp: str_contains_iff)
  then have "join_lines ls = (pre @ p) @ sub @ (q @ post)" using j by simp
  then show ?thesis unfolding str_contains_iff by blast
qed

lemma contains_infix: "str_contains sub (a @ sub @ b)"
  unfolding str_contains_iff by blast

lemma contains_suffix: "str_contains sub (a @ sub)"
  using contains_infix [of sub a "[]"] by simp

lemma replan_prompt_has_reason:
  "str_contains reason (replan_prompt rt plan failed_action reason screen)"
  unfolding replan_prompt_def
proof (rule contains_in_line)
  show "str_contains reason (''Reason: '' @ reason)" by (rule contains_suffix)
qed simp

lemma replan_prompt_has_target:
  "str_contains (str_of rt (py_or (target failed_action) (value' failed_action)))
     (replan_prompt rt plan failed_action reason screen)"
  unfolding replan_prompt_def
proof (rule contains_in_line)
  show "str_contains (str_of rt (py_or (target failed_action) (value' failed_action)))
          ((''Failed action: '' @ str_of rt (action failed_action) @ '' ('')
            @ str_of rt (py_or (target failed_action) (value' failed_action)) @ '')'')"
    by (rule contains_infix)
qed simp

lemma failure_prompt_has_reason:
  "str_contains reason (failure_prompt rt original failed_action reason screen)"
  unfolding failure_prompt_def
proof (rule contains_in_line)
  show "str_contains reason (''Reason: '' @ reason)" by (rule contains_suffix)
qed simp

lemma failure_prompt_has_target:
  "str_contains (str_of rt (py_or (dict_get failed_action ''target'') (dict_get failed_action ''value'')))
     (failure_prompt rt original failed_action reason screen)"
  unfolding failure_prompt_def
proof (rule contains_in_line)
  show "str_contains (str_of rt (py_or (dict_get failed_action ''target'') (dict_get failed_action ''value'')))
          ((''Failed action: '' @ str_of rt (dict_get failed_action ''action'') @ '' '')
            @ str_of rt (py_or (dict_get failed_action ''target'') (dict_get failed_action ''value'')))"
    by (rule contains_suffix)
qed simp

lemma replan_for_failure_calls:
  "snd (replan_for_failure rt complete original failed_action reason screen) =
     [(failure_prompt rt original failed_action reason screen, 1024)]"
  by (simp add: replan_for_failure_def Let_def split: sum.split option.split)

lemma replan_calls:
  assumes "0 \<le> i" "i < int (length (actions plan))"
  shows "snd (replan_after_failure rt complete plan i reason screen) =
           [plan_prompt rt (original_intent plan) screen]"
  using assms plan_task_calls [of rt complete "original_intent plan" screen]
  by (auto simp: replan_in_range split: prod.split sum.split)

lemma scenario_prompt_lacks_reason:
  "\<not> str_contains ''Element not found'' (plan_prompt cpython scenario_intent scenario_screen)"
  by code_simp


text \<open>
  C3, at the scenario of the claim: the click on "Mom" at index 1 is reported as
  \<open>ELEMENT_NOT_FOUND\<close>. The only prompt the handler sends to the oracle is the
  planner's ordinary planning prompt for the original intent and the current screen, and
  it does not hold the reason "Element not found". The replanning prompt that
  \<open>replan_after_failure\<close> builds does hold both the reason and the target "Mom", but
  it is bound to a local variable and never sent. (The REST client's
  \<open>replan_for_failure\<close> sends its prompt with both: \<open>replan_for_failure_calls\<close>,
  \<open>failure_prompt_has_reason\<close>, \<open>failure_prompt_has_target\<close>.)
\<close>

theorem replanning_prompt_lacks_failure_context:
  "snd (handle_action_result cpython (MockLLMClient retry_plan_text) scenario_plan 1
          element_not_found scenario_screen)
     = [plan_prompt cpython scenario_intent scenario_screen]
   \<and> \<not> str_contains ''Element not found'' (plan_prompt cpython scenario_intent scenario_screen)
   \<and> str_contains ''Element not found''
         (replan_prompt cpython scenario_plan (actions scenario_plan ! 1) ''Element not found''
            scenario_screen)
   \<and> str_contains ''Mom''
         (replan_prompt cpython scenario_plan (actions scenario_plan ! 1) ''Element not found''
            scenario_screen)"
proof -
  have a: "handle_action_result cpython (MockLLMClient retry_plan_text) scenario_plan 1
             element_not_found scenario_screen =
           (Inr (Some retry_plan), [plan_prompt cpython scenario_intent scenario_screen])"
    by (simp add: handle_in_range plan_task_retry scenario_plan_def element_not_found_def
        dict_get_def dict_get_default_def)
  have "str_of cpython (py_or (target (actions scenario_plan ! 1)) (value' (actions scenario_plan ! 1)))
          = ''Mom''"
    by (simp add: scenario_plan_def py_or_def cpython_def)
  then have m: "str_contains ''Mom''
         (replan_prompt cpython scenario_plan (actions scenario_plan ! 1) ''Element not found''
            scenario_screen)"
    using replan_prompt_has_target [of cpython "actions scenario_plan ! 1" scenario_plan
        "''Element not found''" scenario_screen] by simp
  show ?thesis
    using a m scenario_prompt_lacks_reason
      replan_prompt_has_reason [of "''Element not found''" cpython scenario_plan
        "actions scenario_plan ! 1" scenario_screen]
    by simp
qed

section \<open>Task identifiers\<close>

lemma nat_of_digits_snoc:
  "nat_of_digits (s @ [c]) = 10 * nat_of_digits s + (of_char c - 48)"
  by (simp add: nat_of_digits_def)

lemma digit_char_value: "d < 10 \<Longrightarrow> (of_char (digit_char d) :: nat) - 48 = d"
  by (simp add: digit_char_def)

lemma nat_of_digits_str_of_nat: "nat_of_digits (str_of_nat n) = n"
proof (induction n rule: str_of_nat.induct)
  case (1 n)
  show ?case
  proof (cases "n < 10")
    case True
    then show ?thesis
      by (subst str_of_nat.simps) (simp add: nat_of_digits_def digit_char_value)
  next
    case False
    then have "nat_of_digits (str_of_nat (n div 10)) = n div 10" using "1.IH" by simp
    then show ?thesis
      using False
      by (subst str_of_nat.simps) (simp add: nat_of_digits_snoc digit_char_value)
  qed
qed

lemma str_of_nat_inject: "str_of_nat m = str_of_nat n \<longleftrightarrow> m = n"
  by (metis nat_of_digits_str_of_nat)

lemma plan_task_task_id:
  "plan_task rt complete i screen = (Inr p, calls) \<Longrightarrow>
     task_id p = ''task_'' @ str_of_nat (obj_id i) \<and> original_intent p = i"
  by (auto simp: plan_task_def decode_plan_def Let_def split: sum.splits exn.splits)

lemma plan_task_route_ok:
  assumes "plan_task_route rt complete_sync tasks now_timestamp now_isoformat request_json
             = (tasks', Ok body)"
  shows "\<exists>acts. body = PDict [(''task_id'', PStr (''task_'' @ now_timestamp)), (''actions'', acts)]
           \<and> tasks' (''task_'' @ now_timestamp) \<noteq> None"
  using assms
  by (auto simp: plan_task_route_def Let_def split: py.splits if_splits sum.splits)

lemma decode_scenario_plan:
  "decode_plan cpython scenario_intent scenario_plan_text = Inr scenario_plan"
  by code_simp

lemma plan_task_scenario:
  "plan_task cpython (MockLLMClient scenario_plan_text) scenario_intent screen =
     (Inr scenario_plan, [plan_prompt cpython scenario_intent screen])"
  by (simp add: plan_task_def Let_def MockLLMClient_def decode_scenario_plan)

lemma decode_second_plan:
  "decode_plan cpython second_intent scenario_plan_text =
     Inr (scenario_plan\<lparr>task_id := ''task_8'', original_intent := second_intent\<rparr>)"
  by code_simp

lemma route_scenario:
  "snd (plan_task_route cpython (MockAPI scenario_plan_text) Map.empty ''1730714400.5''
          ''2024-11-04T10:00:00.500000'' scenario_request) =
     Ok (PDict [(''task_id'', PStr ''task_1730714400.5''),
                (''actions'', PList [PDict [(''action'', PStr ''open_app''), (''value'', PStr ''com.whatsapp'')],
                                     PDict [(''action'', PStr ''click''), (''target'', PStr ''Mom'')]])])"
  by code_simp

lemma handle_replanned:
  assumes "handle_action_result rt complete plan k result screen = (Inr (Some new_plan), calls)"
    and "dict_get result ''status'' = PStr ''ELEMENT_NOT_FOUND''"
  shows "plan_task rt complete (original_intent plan) screen = (Inr new_plan, calls)"
proof (cases "list_get (actions plan) k")
  case (Inl e)
  then show ?thesis using assms(1) by (simp add: handle_action_result_def)
next
  case (Inr a)
  obtain r calls' where pt: "plan_task rt complete (original_intent plan) screen = (r, calls')"
    by (cases "plan_task rt complete (original_intent plan) screen")
  show ?thesis
    using assms Inr pt
    by (cases r) (simp_all add: handle_action_result_def replan_after_failure_def Let_def)
qed

lemma plan_task_route_store:
  assumes "plan_task_route rt complete_sync tasks now_timestamp now_isoformat request_json
             = (tasks', Ok body)"
  shows "\<exists>acts i s. body = PDict [(''task_id'', PStr (''task_'' @ now_timestamp)), (''actions'', acts)]
           \<and> tasks' (''task_'' @ now_timestamp) =
               Some (PDict [(''intent'', i), (''actions'', acts), (''screen_state'', s),
                            (''created_at'', PStr now_isoformat)])"
  using assms
  by (auto simp: plan_task_route_def Let_def split: py.splits if_splits sum.splits)

lemma route_reply_ignores_store:
  "snd (plan_task_route rt complete_sync tasks now_timestamp now_isoformat request_json) =
   snd (plan_task_route rt complete_sync Map.empty now_timestamp now_isoformat request_json)"
  by (auto simp: plan_task_route_def Let_def split: py.splits if_splits sum.splits)

lemma route_second:
  "snd (plan_task_route cpython (MockAPI retry_plan_text) Map.empty ''1730714400.5''
          ''2024-11-04T10:00:00.500213'' second_request) =
     Ok (PDict [(''task_id'', PStr ''task_1730714400.5''),
                (''actions'', PList [PDict [(''action'', PStr ''scroll''), (''value'', PStr ''down'')],
                                     PDict [(''action'', PStr ''click''), (''target'', PStr ''Mom'')]])])"
  by code_simp

text \<open>
  C9: the task identifiers are not unique. An MCP plan's \<open>task_id\<close> is made from
  the identity of the intent object, and replanning plans the same intent object again:
  whenever a plan made by the planner is answered with \<open>ELEMENT_NOT_FOUND\<close> and the
  handler returns a replacement, the planner has been called once more and the
  replacement carries the \<open>task_id\<close> of the plan it replaces. The REST route makes the
  \<open>task_id\<close> from the clock reading alone: two successful requests that read the same
  time get the same \<open>task_id\<close>, and the second task takes the place of the first in
  the task store.
\<close>

theorem replacement_plan_shares_task_id:
  "(plan_task rt complete1 i screen1 = (Inr p, calls1)
      \<and> handle_action_result rt complete2 p k result screen2 = (Inr (Some p'), calls2)
      \<and> dict_get result ''status'' = PStr ''ELEMENT_NOT_FOUND''
      \<longrightarrow> task_id p' = task_id p \<and> calls2 = [plan_prompt rt i screen2])
   \<and> (plan_task_route rt sync1 tasks now_timestamp isoformat1 request1 = (tasks1, Ok body1)
      \<and> plan_task_route rt sync2 tasks1 now_timestamp isoformat2 request2 = (tasks2, Ok body2)
      \<longrightarrow> (\<exists>acts1 acts2 i2 s2.
             body1 = PDict [(''task_id'', PStr (''task_'' @ now_timestamp)), (''actions'', acts1)]
           \<and> body2 =
               PDict [(''task_id'', PStr (''task_'' @ now_timestamp)), (''actions'', acts2)]
           \<and> tasks2 (''task_'' @ now_timestamp) =
               Some (PDict [(''intent'', i2), (''actions'', acts2), (''screen_state'', s2),
                            (''created_at'', PStr isoformat2)])))"
proof (intro conjI impI)
  assume a: "plan_task rt complete1 i screen1 = (Inr p, calls1)
      \<and> handle_action_result rt complete2 p k result screen2 = (Inr (Some p'), calls2)
      \<and> dict_get result ''status'' = PStr ''ELEMENT_NOT_FOUND''"
  then have p: "task_id p = ''task_'' @ str_of_nat (obj_id i)" "original_intent p = i"
    using plan_task_task_id by blast+
  from a have again: "plan_task rt complete2 i screen2 = (Inr p', calls2)"
    using handle_replanned [of rt complete2 p k result screen2 p' calls2] p(2) by simp
  then have "task_id p' = ''task_'' @ str_of_nat (obj_id i)"
    using plan_task_task_id by blast
  moreover have "calls2 = [plan_prompt rt i screen2]"
    using again plan_task_calls [of rt complete2 i screen2] by simp
  ultimately show "task_id p' = task_id p" and "calls2 = [plan_prompt rt i screen2]"
    using p(1) by simp_all
next
  assume a: "plan_task_route rt sync1 tasks now_timestamp isoformat1 request1 = (tasks1, Ok body1)
      \<and> plan_task_route rt sync2 tasks1 now_timestamp isoformat2 request2 = (tasks2, Ok body2)"
  then obtain acts1 where "body1 =
      PDict [(''task_id'', PStr (''task_'' @ now_timestamp)), (''actions'', acts1)]"
    using plan_task_route_store [of rt sync1 tasks now_timestamp isoformat1 request1 tasks1 body1]
    by blast
  moreover from a obtain acts2 i2 s2 where "body2 =
      PDict [(''task_id'', PStr (''task_'' @ now_timestamp)), (''actions'', acts2)]"
    "tasks2 (''task_'' @ now_timestamp) =
       Some (PDict [(''intent'', i2), (''actions'', acts2), (''screen_state'', s2),
                    (''created_at'', PStr isoformat2)])"
    using plan_task_route_store [of rt sync2 tasks1 now_timestamp isoformat2 request2 tasks2 body2]
    by blast
  ultimately show "\<exists>acts1 acts2 i2 s2.
             body1 = PDict [(''task_id'', PStr (''task_'' @ now_timestamp)), (''actions'', acts1)]
           \<and> body2 =
               PDict [(''task_id'', PStr (''task_'' @ now_timestamp)), (''actions'', acts2)]
           \<and> tasks2 (''task_'' @ now_timestamp) =
               Some (PDict [(''intent'', i2), (''actions'', acts2), (''screen_state'', s2),
                            (''created_at'', PStr isoformat2)])"
    by blast
qed

text \<open>
  The failing input: the plan for the message to Mom and the plan returned after its
  second action was not found are two plans of two calls of the planner, with different
  actions and one \<open>task_id\<close>; and two requests to the planning route that read the same
  time are answered with different actions under one \<open>task_id\<close>, the store keeping the
  second only.
\<close>

theorem replacement_plan_shares_task_id_witness:
  "fst (plan_task cpython (MockLLMClient scenario_plan_text) scenario_intent launcher_screen)
     = Inr scenario_plan
   \<and> fst (handle_action_result cpython (MockLLMClient retry_plan_text) scenario_plan 1
          element_not_found scenario_screen) = Inr (Some retry_plan)
   \<and> actions retry_plan \<noteq> actions scenario_plan
   \<and> task_id retry_plan = task_id scenario_plan
   \<and> snd (plan_task_route cpython (MockAPI scenario_plan_text) Map.empty ''1730714400.5''
          ''2024-11-04T10:00:00.500000'' scenario_request) =
       Ok (PDict [(''task_id'', PStr ''task_1730714400.5''),
                  (''actions'', PList [PDict [(''action'', PStr ''open_app''), (''value'', PStr ''com.whatsapp'')],
                                       PDict [(''action'', PStr ''click''), (''target'', PStr ''Mom'')]])])
   \<and> snd (plan_task_route cpython (MockAPI retry_plan_text)
          (fst (plan_task_route cpython (MockAPI scenario_plan_text) Map.empty ''1730714400.5''
                  ''2024-11-04T10:00:00.500000'' scenario_request))
          ''1730714400.5'' ''2024-11-04T10:00:00.500213'' second_request) =
       Ok (PDict [(''task_id'', PStr ''task_1730714400.5''),
                  (''actions'', PList [PDict [(''action'', PStr ''scroll''), (''value'', PStr ''down'')],
                                       PDict [(''action'', PStr ''click''), (''target'', PStr ''Mom'')]])])
   \<and> (\<exists>i s. fst (plan_task_route cpython (MockAPI retry_plan_text)
          (fst (plan_task_route cpython (MockAPI scenario_plan_text) Map.empty ''1730714400.5''
                  ''2024-11-04T10:00:00.500000'' scenario_request))
          ''1730714400.5'' ''2024-11-04T10:00:00.500213'' second_request) ''task_1730714400.5'' =
       Some (PDict [(''intent'', i),
                    (''actions'', PList [PDict [(''action'', PStr ''scroll''), (''value'', PStr ''down'')],
                                         PDict [(''action'', PStr ''click''), (''target'', PStr ''Mom'')]]),
                    (''screen_state'', s), (''created_at'', PStr ''2024-11-04T10:00:00.500213'')]))"
proof -
  let ?first = "plan_task_route cpython (MockAPI scenario_plan_text) Map.empty ''1730714400.5''
                  ''2024-11-04T10:00:00.500000'' scenario_request"
  let ?second = "plan_task_route cpython (MockAPI retry_plan_text) (fst ?first)
                  ''1730714400.5'' ''2024-11-04T10:00:00.500213'' second_request"
  have s: "dict_get element_not_found ''status'' = PStr ''ELEMENT_NOT_FOUND''"
    by (simp add: element_not_found_def dict_get_def dict_get_default_def)
  have h: "handle_action_result cpython (MockLLMClient retry_plan_text) scenario_plan 1
             element_not_found scenario_screen =
           (Inr (Some retry_plan), [plan_prompt cpython scenario_intent scenario_screen])"
    by (simp add: handle_in_range s plan_task_retry scenario_plan_def)
  have second: "snd ?second =
       Ok (PDict [(''task_id'', PStr ''task_1730714400.5''),
                  (''actions'', PList [PDict [(''action'', PStr ''scroll''), (''value'', PStr ''down'')],
                                       PDict [(''action'', PStr ''click''), (''target'', PStr ''Mom'')]])])"
    by (simp only: route_reply_ignores_store [of _ _ "fst ?first"] route_second)
  have r1: "?first = (fst ?first, Ok (PDict [(''task_id'', PStr ''task_1730714400.5''),
                  (''actions'', PList [PDict [(''action'', PStr ''open_app''), (''value'', PStr ''com.whatsapp'')],
                                       PDict [(''action'', PStr ''click''), (''target'', PStr ''Mom'')]])]))"
    using route_scenario by (simp add: prod_eq_iff)
  have r2: "?second = (fst ?second, Ok (PDict [(''task_id'', PStr ''task_1730714400.5''),
                  (''actions'', PList [PDict [(''action'', PStr ''scroll''), (''value'', PStr ''down'')],
                                       PDict [(''action'', PStr ''click''), (''target'', PStr ''Mom'')]])]))"
    using second by (simp add: prod_eq_iff)
  note mcp = replacement_plan_shares_task_id [THEN conjunct1, THEN mp, OF conjI, OF _ conjI,
      OF plan_task_scenario h s]
  note rest = replacement_plan_shares_task_id [THEN conjunct2, THEN mp, OF conjI, OF r1 r2]
  have "actions retry_plan \<noteq> actions scenario_plan"
    by (simp add: retry_plan_def scenario_plan_def)
  then show ?thesis
    using mcp rest by (simp add: plan_task_scenario h route_scenario second)
qed

section \<open>Decoding the oracle's answer\<close>

lemma str_find_absent: "c \<notin> set s \<Longrightarrow> str_find c s = -1"
  by (induction s) (auto simp: Let_def)

lemma str_find_nonneg_iff: "0 \<le> str_find c s \<longleftrightarrow> c \<in> set s"
  by (induction s) (auto simp: Let_def)

lemma str_find_first: "c \<notin> set pre \<Longrightarrow> str_find c (pre @ c # rest) = int (length pre)"
  by (induction pre) (auto simp: Let_def)

lemma str_rfind_absent: "c \<notin> set s \<Longrightarrow> str_rfind c s = -1"
  by (induction s) (auto simp: Let_def)

lemma str_rfind_last: "c \<notin> set post \<Longrightarrow> str_rfind c (xs @ c # post) = int (length xs)"
  by (induction xs) (auto simp: Let_def str_rfind_absent)

lemma str_slice_middle:
  "str_slice (pre @ obj @ post) (int (length pre)) (int (length pre) + int (length obj)) = obj"
  by (simp add: str_slice_def clip_index_def)

lemma decode_between_embedded:
  assumes "response = pre @ obj @ post" and "obj = open_c # mid @ [close_c]"
    and "open_c \<notin> set pre" and "close_c \<notin> set post"
  shows "decode_between rt guarded open_c close_c response =
           (case loads rt obj of
              Inr v \<Rightarrow> Inr (Some v)
            | Inl JSONDecodeError \<Rightarrow> Inr None
            | Inl e \<Rightarrow> Inl e)"
proof -
  have "response = pre @ open_c # (mid @ [close_c] @ post)" using assms(1,2) by simp
  then have f: "str_find open_c response = int (length pre)"
    using assms(3) by (simp add: str_find_first)
  have "response = (pre @ open_c # mid) @ close_c # post" using assms(1,2) by simp
  then have "str_rfind close_c response = int (length (pre @ open_c # mid))"
    using assms(4) str_rfind_last [of close_c post "pre @ open_c # mid"] by simp
  then have r: "str_rfind close_c response + 1 = int (length pre) + int (length obj)"
    using assms(2) by simp
  have s: "str_slice response (int (length pre)) (int (length pre) + int (length obj)) = obj"
    unfolding assms(1) by (rule str_slice_middle)
  have "int (length pre) < int (length pre) + int (length obj)" using assms(2) by simp
  then show ?thesis
    unfolding decode_between_def f r Let_def by (simp add: s)
qed

lemma decode_between_none:
  assumes "open_c \<notin> set response
     \<or> loads rt (str_slice response (str_find open_c response) (str_rfind close_c response + 1))
         = Inl JSONDecodeError"
  shows "decode_between rt guarded open_c close_c response = Inr None"
  using assms by (auto simp: decode_between_def Let_def str_find_absent)

lemma build_actions_length: "build_actions elems = Inr acts \<Longrightarrow> length acts = length elems"
  by (induction elems arbitrary: acts) (auto split: sum.splits)

lemma build_actions_kinds:
  "build_actions elems = Inr acts \<Longrightarrow> map action acts = map kind_of elems"
proof (induction elems arbitrary: acts)
  case Nil
  then show ?case by simp
next
  case (Cons a elems)
  then obtain x xs where x: "UIAction_of a = Inr x" and xs: "build_actions elems = Inr xs"
    and acts: "acts = x # xs"
    by (auto split: sum.splits)
  have "action x = kind_of a"
    using x by (cases a) (auto simp: kind_of_def dict_get_def dict_get_default_def split: option.splits)
  then show ?case using Cons.IH [OF xs] acts by simp
qed

lemma build_actions_total:
  assumes "\<forall>e \<in> set elems. \<exists>d act. e = PDict d \<and> map_of d ''action'' = Some act"
  shows "\<exists>acts. build_actions elems = Inr acts"
  using assms
proof (induction elems)
  case Nil
  then show ?case by simp
next
  case (Cons a elems)
  then obtain d act where "a = PDict d" "map_of d ''action'' = Some act" by auto
  moreover obtain acts where "build_actions elems = Inr acts" using Cons by auto
  ultimately show ?case by simp
qed

lemma loads_open_app_object:
  "loads cpython open_app_object = Inr (PDict [(''intent'', PStr ''open_app'')])"
  by code_simp

lemma decode_prose_with_braces:
  "decode_between cpython True CHR ''{'' CHR ''}'' prose_with_braces = Inr None"
  by code_simp

lemma loads_prose_with_braces: "loads cpython prose_with_braces = Inl JSONDecodeError"
  by code_simp

lemma loads_refusal: "loads cpython refusal_text = Inl JSONDecodeError"
  by code_simp

lemma loads_scenario_plan_text:
  "loads cpython scenario_plan_text =
     Inr (PList [PDict [(''action'', PStr ''open_app''), (''value'', PStr ''com.whatsapp'')],
                 PDict [(''action'', PStr ''click''), (''target'', PStr ''Mom'')]])"
  by code_simp

lemma decode_twenty_one: "decode_plan cpython scenario_intent twenty_one_text = Inr twenty_one_plan"
  by code_simp

lemma decode_fly:
  "decode_plan cpython scenario_intent fly_text =
     Inr \<lparr>task_id = ''task_7'', original_intent = scenario_intent,
          actions = [\<lparr>action = PStr ''fly'', target = PNone, value' = PNone,
                       className = PNone, index = PNone\<rparr>]\<rparr>"
  by code_simp

lemma loads_fly: "loads cpython fly_text = Inr (PList [PDict [(''action'', PStr ''fly'')]])"
  by code_simp

text \<open>
  C5, amended: when the response is a JSON object text (from its opening to its closing
  brace) inside prose that has no opening brace before the object and no closing brace
  after it, \<open>extract_intent\<close> and \<open>extract_intent_sync\<close> return what
  \<open>json.loads\<close> gives for the object alone: they decode the text from the first
  opening to the last closing brace, and look for no balanced value. The MCP parser
  \<open>parse_user_input\<close> decodes the whole response and so finds the object only when
  no prose surrounds it.
\<close>

theorem embedded_object_is_decoded:
  assumes "response = pre @ obj @ post" and "obj = CHR ''{'' # mid @ ''}''"
    and "CHR ''{'' \<notin> set pre" and "CHR ''}'' \<notin> set post" and "loads rt obj = Inr v"
  shows "(complete (extract_prompt user_input) 512 = Inr response \<longrightarrow>
            fst (extract_intent rt complete user_input) = Inr v)
       \<and> (complete (extract_sync_prompt user_input) 512 = Inr response \<longrightarrow>
            fst (extract_intent_sync rt complete user_input) = Inr v)
       \<and> (pre = [] \<and> post = [] \<and> complete' (parse_prompt user_input) = Inr response \<longrightarrow>
            fst (parse_user_input rt complete' new_id user_input) =
              (case v of
                 PDict intent_data \<Rightarrow>
                   Inr \<lparr>obj_id = new_id, intent = dict_get intent_data ''intent'',
                        target_app = dict_get intent_data ''target_app'',
                        entities = dict_get intent_data ''entities''\<rparr>
               | _ \<Rightarrow> Inl AttributeError))"
proof -
  have d: "decode_between rt guarded CHR ''{'' CHR ''}'' response = Inr (Some v)" for guarded
    using decode_between_embedded [OF assms(1) _ assms(3,4), of mid rt guarded] assms(2,5)
    by simp
  have p: "loads rt response = Inr v" if "pre = []" "post = []"
    using that assms(1,5) by simp
  show ?thesis
    by (auto simp: extract_intent_def extract_intent_sync_def parse_user_input_def Let_def d p
        split: py.splits)
qed

theorem embedded_object_is_decoded_witness:
  "fst (extract_intent cpython (MockAPI wrapped_object) ''open the app'')
     = Inr (PDict [(''intent'', PStr ''open_app'')])
   \<and> fst (extract_intent_sync cpython (MockAPI wrapped_object) ''open the app'')
     = Inr (PDict [(''intent'', PStr ''open_app'')])
   \<and> fst (parse_user_input cpython (MockLLMClient open_app_object) 7 ''open the app'')
     = Inr \<lparr>obj_id = 7, intent = PStr ''open_app'', target_app = PNone, entities = PNone\<rparr>"
proof -
  have o: "open_app_object = CHR ''{'' # ''\"intent\": \"open_app\"'' @ ''}''"
    by (simp add: open_app_object_def)
  have a: "CHR ''{'' \<notin> set ''Here is the intent: ''" "CHR ''}'' \<notin> set '' Anything else?''"
    by simp_all
  note w = embedded_object_is_decoded [OF _ o a loads_open_app_object,
      of wrapped_object "MockAPI wrapped_object" "''open the app''" undefined 0]
  note b = embedded_object_is_decoded [OF _ o _ _ loads_open_app_object,
      of open_app_object "[]" "[]" undefined "''open the app''" "MockLLMClient open_app_object" 7]
  show ?thesis
    using w b
    by (simp add: wrapped_object_def MockAPI_def MockLLMClient_def dict_get_def
        dict_get_default_def)
qed

text \<open>The claim as stated fails: the response holds a valid JSON object, but the
  prose before it has braces of its own; \<open>extract_intent\<close> returns the fallback
  intent and \<open>parse_user_input\<close> raises.\<close>

theorem braces_in_prose_counterexample:
  "loads cpython open_app_object = Inr (PDict [(''intent'', PStr ''open_app'')])
   \<and> fst (extract_intent cpython (MockAPI prose_with_braces) ''open the app'')
       = Inr fallback_intent
   \<and> fst (parse_user_input cpython (MockLLMClient prose_with_braces) 7 ''open the app'')
       = Inl (ValueError (''Invalid intent format: '' @ prose_with_braces))"
  by (simp add: loads_open_app_object extract_intent_def parse_user_input_def Let_def
      MockAPI_def MockLLMClient_def decode_prose_with_braces loads_prose_with_braces)

text \<open>
  C6, amended: for a response without an opening brace, or whose text from the first
  opening to the last closing brace \<open>json.loads\<close> rejects, \<open>extract_intent\<close>
  returns the fallback intent (\<open>unknown\<close>, no target, confidence 0.0, no entities) and
  \<open>extract_intent_sync\<close> returns its own fallback, which has no confidence entry;
  neither raises. The MCP parser \<open>parse_user_input\<close> has no fallback: on a response
  that \<open>json.loads\<close> rejects it raises \<open>ValueError\<close> to its caller.
\<close>

theorem undecodable_response_falls_back:
  assumes "CHR ''{'' \<notin> set response
     \<or> loads rt (str_slice response (str_find CHR ''{'' response) (str_rfind CHR ''}'' response + 1))
         = Inl JSONDecodeError"
  shows "(complete (extract_prompt user_input) 512 = Inr response \<longrightarrow>
            fst (extract_intent rt complete user_input) = Inr fallback_intent)
       \<and> (complete (extract_sync_prompt user_input) 512 = Inr response \<longrightarrow>
            fst (extract_intent_sync rt complete user_input) = Inr fallback_intent_sync)
       \<and> (complete' (parse_prompt user_input) = Inr response'
             \<and> loads rt response' = Inl JSONDecodeError \<longrightarrow>
            fst (parse_user_input rt complete' new_id user_input) =
              Inl (ValueError (''Invalid intent format: '' @ response')))"
  using decode_between_none [OF assms]
  by (simp add: extract_intent_def extract_intent_sync_def parse_user_input_def Let_def)

theorem undecodable_response_falls_back_witness:
  "fst (extract_intent cpython (MockAPI refusal_text) ''do something'') = Inr fallback_intent
   \<and> fst (extract_intent_sync cpython (MockAPI refusal_text) ''do something'')
       = Inr fallback_intent_sync
   \<and> fst (parse_user_input cpython (MockLLMClient refusal_text) 7 ''do something'')
       = Inl (ValueError (''Invalid intent format: '' @ refusal_text))"
proof -
  have "CHR ''{'' \<notin> set refusal_text" by (simp add: refusal_text_def)
  then have "CHR ''{'' \<notin> set refusal_text
     \<or> loads cpython (str_slice refusal_text (str_find CHR ''{'' refusal_text)
          (str_rfind CHR ''}'' refusal_text + 1)) = Inl JSONDecodeError"
    by simp
  note w = undecodable_response_falls_back [OF this, of "MockAPI refusal_text"
      "''do something''" "MockLLMClient refusal_text" refusal_text 7]
  show ?thesis using w by (simp add: MockAPI_def MockLLMClient_def loads_refusal)
qed

text \<open>The claim as stated fails at its own example: on the refusal text the MCP
  parser raises, and the synchronous client's fallback carries no confidence.\<close>

theorem refusal_raises_counterexample:
  "fst (parse_user_input cpython (MockLLMClient refusal_text) 7 ''do something'')
     = Inl (ValueError ''Invalid intent format: I cannot help with that.'')
   \<and> fst (extract_intent_sync cpython (MockAPI refusal_text) ''do something'')
     = Inr (PDict [(''intent'', PStr ''unknown''), (''target_app'', PNone),
                   (''entities'', PDict [])])"
proof -
  have "decode_between cpython False CHR ''{'' CHR ''}'' refusal_text = Inr None"
    by (rule decode_between_none) (simp add: refusal_text_def)
  then show ?thesis
    by (simp add: parse_user_input_def extract_intent_sync_def Let_def MockLLMClient_def
        MockAPI_def loads_refusal fallback_intent_sync_def) (simp add: refusal_text_def)
qed

text \<open>
  C4, amended: the planners put no cap on the length of a plan. When the response
  decodes to an array of action objects, \<open>plan_task\<close> returns a plan with one action
  for each element, and \<open>plan_actions\<close> returns the decoded array itself with all
  its elements; nothing is truncated and no plan is rejected for its length.
\<close>

theorem plan_keeps_every_element:
  "(complete (plan_prompt rt i screen) = Inr response
      \<and> loads rt response = Inr (PList elems)
      \<and> (\<forall>e \<in> set elems. \<exists>d act. e = PDict d \<and> map_of d ''action'' = Some act)
      \<longrightarrow> (\<exists>p. fst (plan_task rt complete i screen) = Inr p
              \<and> length (actions p) = length elems))
   \<and> (complete' (actions_prompt rt i' screen') 1024 = Inr (pre @ arr @ post)
      \<and> arr = CHR ''['' # mid @ '']'' \<and> CHR ''['' \<notin> set pre \<and> CHR '']'' \<notin> set post
      \<and> loads rt arr = Inr (PList elems')
      \<longrightarrow> fst (plan_actions rt complete' i' screen') = Inr (PList elems'))"
proof (intro conjI impI)
  assume a: "complete (plan_prompt rt i screen) = Inr response
      \<and> loads rt response = Inr (PList elems)
      \<and> (\<forall>e \<in> set elems. \<exists>d act. e = PDict d \<and> map_of d ''action'' = Some act)"
  then obtain acts where b: "build_actions elems = Inr acts"
    using build_actions_total by blast
  have "plan_task rt complete i screen =
          (Inr \<lparr>task_id = ''task_'' @ str_of_nat (obj_id i), original_intent = i, actions = acts\<rparr>,
           [plan_prompt rt i screen])"
    using a b by (intro plan_task_answers) auto
  then show "\<exists>p. fst (plan_task rt complete i screen) = Inr p
              \<and> length (actions p) = length elems"
    using build_actions_length [OF b] by simp
next
  assume a: "complete' (actions_prompt rt i' screen') 1024 = Inr (pre @ arr @ post)
      \<and> arr = CHR ''['' # mid @ '']'' \<and> CHR ''['' \<notin> set pre \<and> CHR '']'' \<notin> set post
      \<and> loads rt arr = Inr (PList elems')"
  then have arr: "arr = CHR ''['' # mid @ '']''" and pre: "CHR ''['' \<notin> set pre"
    and post: "CHR '']'' \<notin> set post" and l: "loads rt arr = Inr (PList elems')"
    and c: "complete' (actions_prompt rt i' screen') 1024 = Inr (pre @ arr @ post)"
    by blast+
  have "decode_between rt True CHR ''['' CHR '']'' (pre @ arr @ post) = Inr (Some (PList elems'))"
    using decode_between_embedded [OF refl arr pre post, of rt True] by (simp add: l)
  then show "fst (plan_actions rt complete' i' screen') = Inr (PList elems')"
    using c by (simp add: plan_actions_def Let_def)
qed

theorem plan_keeps_every_element_witness:
  "(\<exists>p. fst (plan_task cpython (MockLLMClient scenario_plan_text) scenario_intent
             launcher_screen) = Inr p \<and> length (actions p) = 2)
   \<and> fst (plan_actions cpython (MockAPI scenario_plan_text) [] launcher_screen)
       = Inr (PList [PDict [(''action'', PStr ''open_app''), (''value'', PStr ''com.whatsapp'')],
                     PDict [(''action'', PStr ''click''), (''target'', PStr ''Mom'')]])"
proof -
  let ?elems = "[PDict [(''action'', PStr ''open_app''), (''value'', PStr ''com.whatsapp'')],
                 PDict [(''action'', PStr ''click''), (''target'', PStr ''Mom'')]]"
  have shape: "\<forall>e \<in> set ?elems. \<exists>d act. e = PDict d \<and> map_of d ''action'' = Some act"
    by simp
  have asked: "MockLLMClient scenario_plan_text (plan_prompt cpython scenario_intent launcher_screen)
          = Inr scenario_plan_text"
    by (simp add: MockLLMClient_def)
  have asked': "MockAPI scenario_plan_text (actions_prompt cpython [] launcher_screen) 1024
          = Inr ([] @ scenario_plan_text @ [])"
    by (simp add: MockAPI_def)
  have brackets: "scenario_plan_text = CHR ''['' # drop 1 (butlast scenario_plan_text) @ '']''"
    by (simp add: scenario_plan_text_def)
  have none: "CHR ''['' \<notin> set []" "CHR '']'' \<notin> set []" by simp_all
  note w1 = plan_keeps_every_element [where complete = "MockLLMClient scenario_plan_text"
        and rt = cpython and i = scenario_intent and screen = launcher_screen
        and response = scenario_plan_text and elems = ?elems,
      THEN conjunct1, THEN mp, OF conjI [OF asked conjI [OF loads_scenario_plan_text shape]]]
  note w2 = plan_keeps_every_element [where complete' = "MockAPI scenario_plan_text"
        and rt = cpython and i' = "[]" and screen' = launcher_screen and pre = "[]"
        and arr = scenario_plan_text and post = "[]"
        and mid = "drop 1 (butlast scenario_plan_text)" and elems' = ?elems,
      THEN conjunct2, THEN mp,
      OF conjI [OF asked' conjI [OF brackets conjI [OF none(1) conjI [OF none(2)
        loads_scenario_plan_text]]]]]
  show ?thesis using w1 w2 by (simp add: numeral_2_eq_2)
qed

text \<open>The claim as stated fails: an answer with twenty-one actions gives a plan of
  twenty-one actions.\<close>

theorem twenty_one_actions_counterexample:
  "fst (plan_task cpython (MockLLMClient twenty_one_text) scenario_intent launcher_screen)
     = Inr twenty_one_plan
   \<and> length (actions twenty_one_plan) = 21"
  by (simp add: plan_task_def Let_def MockLLMClient_def decode_twenty_one twenty_one_plan_def)

text \<open>
  C7, amended: the planners check no action kind. \<open>plan_task\<close> forwards the kind of
  every element of the decoded array unchanged and in order into the plan, and
  \<open>plan_actions\<close> returns the decoded value as it is; an element with a kind outside
  the vocabulary is neither dropped nor reported.
\<close>

theorem plan_forwards_every_kind:
  "(complete (plan_prompt rt i screen) = Inr response
      \<and> loads rt response = Inr (PList elems)
      \<and> fst (plan_task rt complete i screen) = Inr p
      \<longrightarrow> map action (actions p) = map kind_of elems)
   \<and> (complete' (actions_prompt rt i' screen') 1024 = Inr (pre @ arr @ post)
      \<and> arr = CHR ''['' # mid @ '']'' \<and> CHR ''['' \<notin> set pre \<and> CHR '']'' \<notin> set post
      \<and> loads rt arr = Inr v
      \<longrightarrow> fst (plan_actions rt complete' i' screen') = Inr v)"
proof (intro conjI impI)
  assume a: "complete (plan_prompt rt i screen) = Inr response
      \<and> loads rt response = Inr (PList elems)
      \<and> fst (plan_task rt complete i screen) = Inr p"
  then obtain acts where "build_actions elems = Inr acts" and "actions p = acts"
    by (auto simp: plan_task_def decode_plan_def Let_def split: sum.splits exn.splits)
  then show "map action (actions p) = map kind_of elems"
    using build_actions_kinds by blast
next
  assume a: "complete' (actions_prompt rt i' screen') 1024 = Inr (pre @ arr @ post)
      \<and> arr = CHR ''['' # mid @ '']'' \<and> CHR ''['' \<notin> set pre \<and> CHR '']'' \<notin> set post
      \<and> loads rt arr = Inr v"
  then have arr: "arr = CHR ''['' # mid @ '']''" and pre: "CHR ''['' \<notin> set pre"
    and post: "CHR '']'' \<notin> set post" and l: "loads rt arr = Inr v"
    and c: "complete' (actions_prompt rt i' screen') 1024 = Inr (pre @ arr @ post)"
    by blast+
  have "decode_between rt True CHR ''['' CHR '']'' (pre @ arr @ post) = Inr (Some v)"
    using decode_between_embedded [OF refl arr pre post, of rt True] by (simp add: l)
  then show "fst (plan_actions rt complete' i' screen') = Inr v"
    using c by (simp add: plan_actions_def Let_def)
qed

theorem plan_forwards_every_kind_witness:
  "map action (actions scenario_plan) = [PStr ''open_app'', PStr ''click'']
   \<and> fst (plan_actions cpython (MockAPI (''Plan: '' @ fly_text)) [] launcher_screen)
       = Inr (PList [PDict [(''action'', PStr ''fly'')]])"
proof -
  have asked: "MockLLMClient scenario_plan_text (plan_prompt cpython scenario_intent launcher_screen)
          = Inr scenario_plan_text"
    by (simp add: MockLLMClient_def)
  have planned: "fst (plan_task cpython (MockLLMClient scenario_plan_text) scenario_intent
          launcher_screen) = Inr scenario_plan"
    by (simp add: plan_task_scenario)
  have asked': "MockAPI (''Plan: '' @ fly_text) (actions_prompt cpython [] launcher_screen) 1024
          = Inr (''Plan: '' @ fly_text @ [])"
    by (simp add: MockAPI_def)
  have brackets: "fly_text = CHR ''['' # drop 1 (butlast fly_text) @ '']''"
    by (simp add: fly_text_def)
  have none: "CHR ''['' \<notin> set ''Plan: ''" "CHR '']'' \<notin> set []" by simp_all
  note w1 = plan_forwards_every_kind [where complete = "MockLLMClient scenario_plan_text"
        and rt = cpython and i = scenario_intent and screen = launcher_screen
        and response = scenario_plan_text and p = scenario_plan,
      THEN conjunct1, THEN mp, OF conjI [OF asked conjI [OF loads_scenario_plan_text planned]]]
  note w2 = plan_forwards_every_kind [where complete' = "MockAPI (''Plan: '' @ fly_text)"
        and rt = cpython and i' = "[]" and screen' = launcher_screen and pre = "''Plan: ''"
        and arr = fly_text and post = "[]" and mid = "drop 1 (butlast fly_text)",
      THEN conjunct2, THEN mp,
      OF conjI [OF asked' conjI [OF brackets conjI [OF none(1) conjI [OF none(2) loads_fly]]]]]
  show ?thesis
    using w1 w2 by (simp add: kind_of_def dict_get_def dict_get_default_def)
qed

text \<open>The claim as stated fails: the kind \<open>fly\<close> is no member of the vocabulary
  and appears in the returned plan.\<close>

theorem unknown_kind_is_forwarded_counterexample:
  "fst (plan_task cpython (MockLLMClient fly_text) scenario_intent launcher_screen)
     = Inr \<lparr>task_id = ''task_7'', original_intent = scenario_intent,
            actions = [\<lparr>action = PStr ''fly'', target = PNone, value' = PNone,
                         className = PNone, index = PNone\<rparr>]\<rparr>
   \<and> PStr ''fly'' \<notin> set action_vocabulary"
  by (simp add: plan_task_def Let_def MockLLMClient_def decode_fly action_vocabulary_def)

end
